(* ===== verification/Prelude.thy ===== *)
theory Prelude
  imports Main "HOL-Library.Sublist"
begin

text \<open>
  Shared vocabulary of the irrigation controller model: JavaScript values as they reach
  the backend (JSON scalars and the truthiness test of the \<open>||\<close> operator), the
  operating modes with their wire names, the last-command tag of the system state, and
  the lemma collections the component theories fill.
  Timestamps are milliseconds since the epoch (\<open>Date.now()\<close>), modelled as \<open>int\<close>
  since JavaScript numbers do not wrap at the magnitudes used here.
\<close>

named_theorems handler_simps "unfolding rules of the backend's handlers"

type_synonym timestamp = int

subsection \<open>JavaScript values\<close>

text \<open>
  A field read from a parsed JSON object is \<open>undefined\<close> when absent (\<open>None\<close>) or one of
  the JSON values. Numbers are taken as integers (the sensor firmware sends integer
  readings); objects and arrays are kept opaque as \<open>JCompound\<close>: they are always truthy.
\<close>

datatype jval = JNum int | JStr string | JBool bool | JNull | JCompound

fun js_truthy :: "jval option \<Rightarrow> bool" where
  "js_truthy None = False"
| "js_truthy (Some (JNum n)) = (n \<noteq> 0)"
| "js_truthy (Some (JStr s)) = (s \<noteq> [])"
| "js_truthy (Some (JBool b)) = b"
| "js_truthy (Some JNull) = False"
| "js_truthy (Some JCompound) = True"

text \<open>\<open>a || b\<close>: the left operand when it is truthy, the right one otherwise.\<close>

definition js_or :: "jval option \<Rightarrow> jval option \<Rightarrow> jval option" where
  "js_or a b = (if js_truthy a then a else b)"

text \<open>
  \<open>env.X || d\<close> on an environment variable: an unset (\<open>None\<close>) or empty
  variable gives the default.
\<close>

definition env_or :: "string option \<Rightarrow> string \<Rightarrow> string" where
  "env_or v d = (case v of Some u \<Rightarrow> if u \<noteq> [] then u else d | None \<Rightarrow> d)"

subsection \<open>Modes\<close>

text \<open>The three operating modes; on the wire they are the strings of \<open>mode_name\<close>.\<close>

datatype mode = Automatic | Manual | AI

fun mode_name :: "mode \<Rightarrow> string" where
  "mode_name Automatic = ''automatic''"
| "mode_name Manual = ''manual''"
| "mode_name AI = ''ai''"

text \<open>
  The guard of \<open>POST /api/mode\<close> (server.js): \<open>!mode\<close> rejects falsy values and
  \<open>['automatic', 'manual', 'ai'].includes(mode)\<close> accepts exactly the three strings.
\<close>

fun parse_mode :: "jval option \<Rightarrow> mode option" where
  "parse_mode (Some (JStr s)) =
     (if s = ''automatic'' then Some Automatic
      else if s = ''manual'' then Some Manual
      else if s = ''ai'' then Some AI else None)"
| "parse_mode _ = None"

text \<open>The tag kept in \<open>systemState.lastCommand\<close>: the strings \<open>'start'\<close> and \<open>'stop'\<close>.\<close>

datatype last_cmd = Cmd_start | Cmd_stop

subsection \<open>Numbers as text\<close>

text \<open>The decimal text of a non-negative integer, as \<open>String(n)\<close> and template literals print it.\<close>

definition digit_char :: "nat \<Rightarrow> char" where
  "digit_char d = ''0123456789'' ! d"

fun nat_str :: "nat \<Rightarrow> string" where
  "nat_str n = (if n < 10 then [digit_char n] else nat_str (n div 10) @ [digit_char (n mod 10)])"

subsection \<open>Lists\<close>

text \<open>Removing the \<open>i\<close>-th element, as the event loop does with a fired timer.\<close>

definition remove_at :: "nat \<Rightarrow> 'a list \<Rightarrow> 'a list" where
  "remove_at i xs = take i xs @ drop (Suc i) xs"

subsection \<open>Lemmas\<close>

declare nat_str.simps [simp del]

lemma js_or_truthy [simp]: "js_truthy a \<Longrightarrow> js_or a b = a"
  by (simp add: js_or_def)

lemma js_or_falsy [simp]: "\<not> js_truthy a \<Longrightarrow> js_or a b = b"
  by (simp add: js_or_def)

lemma js_or_None [simp]: "js_or None b = b"
  by (simp add: js_or_def)

lemma length_remove_at [simp]: "i < length xs \<Longrightarrow> length (remove_at i xs) = length xs - 1"
  by (simp add: remove_at_def)

text \<open>
  The mode guard of \<open>POST /api/mode\<close> accepts a body value exactly when it is the
  wire name of a mode, and then yields that mode.
\<close>

theorem parse_mode_iff: "parse_mode v = Some m \<longleftrightarrow> v = Some (JStr (mode_name m))"
  by (cases v rule: parse_mode.cases; cases m) auto

text \<open>\<open>env_or\<close> is \<open>||\<close> on string values.\<close>

lemma env_or_js_or: "js_or (map_option JStr v) (Some (JStr d)) = Some (JStr (env_or v d))"
  by (cases v) (simp_all add: js_or_def env_or_def)

end
