(* ===== verification/Gateway.thy ===== *)
theory Gateway
  imports Prelude
begin

text \<open>
  The Telemetry Gateway (backend/config.js and the MQTT part of backend/server.js):
  the broker configuration, the MQTT client's connection state, the command messages
  \<open>publishCommand\<close> sends, and the merge of an inbound sensor message into the held
  \<open>sensorData\<close>.
\<close>

subsection \<open>Configuration (config.js)\<close>

text \<open>The defaults of \<open>mqttConfig\<close>, taken when the environment variables are unset.\<close>

text \<open>The broker URL, \<open>process.env.MQTT_BROKER_URL || ...\<close>.\<close>

definition broker_url :: "string option \<Rightarrow> string" where
  "broker_url env = env_or env ''mqtt://localhost:1883''"

definition topic_data :: string where
  "topic_data = ''device/sensor/data''"

definition topic_command :: string where
  "topic_command = ''device/command''"

definition connect_timeout :: int where
  "connect_timeout = 4000"

definition reconnect_period :: int where
  "reconnect_period = 1000"

subsection \<open>Commands\<close>

text \<open>The reasons the backend passes to its pump helpers (string literals in server.js).\<close>

datatype reason = Manual_api | Auto_timeout | Mode_change | Ai_trigger

text \<open>
  The three commands of server.js with their payload fields:
  \<open>set_mode{mode}\<close>, \<open>pump_start{duration, durationMs, mode}\<close>,
  \<open>pump_stop{runTime, reason}\<close>.
\<close>

datatype command =
    Set_mode mode
  | Pump_start int int mode
  | Pump_stop int reason

text \<open>\<open>{command, timestamp, ...data}\<close> as published on the command topic.\<close>

record cmd_msg =
  cmd :: command
  msg_timestamp :: timestamp

subsection \<open>The MQTT client\<close>

text \<open>
  \<open>mqttClient\<close> is \<open>null\<close> until \<open>connectMQTT\<close> runs (\<open>None\<close>); afterwards the
  client records whether it is connected and which topics it subscribed.
\<close>

record mqtt_client =
  connected :: bool
  subscriptions :: "string set"

definition mqtt_create :: mqtt_client where
  "mqtt_create = \<lparr>connected = False, subscriptions = {}\<rparr>"

text \<open>The \<open>'connect'\<close> handler subscribes to the data topic, again on every reconnect.\<close>

definition mqtt_on_connect :: "mqtt_client \<Rightarrow> mqtt_client" where
  "mqtt_on_connect c = c\<lparr>connected := True, subscriptions := insert topic_data (subscriptions c)\<rparr>"

definition mqtt_on_offline :: "mqtt_client \<Rightarrow> mqtt_client" where
  "mqtt_on_offline c = c\<lparr>connected := False\<rparr>"

text \<open>
  \<open>publishCommand\<close>: \<open>false\<close> (\<open>None\<close>) without a connected client, otherwise the
  message it hands to \<open>mqttClient.publish\<close> on the command topic.
\<close>

definition publish_command :: "mqtt_client option \<Rightarrow> timestamp \<Rightarrow> command \<Rightarrow> cmd_msg option" where
  "publish_command c now command =
     (case c of
        None \<Rightarrow> None
      | Some cl \<Rightarrow> if \<not> connected cl then None
                   else Some \<lparr>cmd = command, msg_timestamp = now\<rparr>)"

subsection \<open>Sensor data\<close>

text \<open>
  \<open>sensorData\<close>: each reading is whatever value the last message gave it (or the
  initial constant); \<open>light\<close> starts undefined since the initial object has no such field.
\<close>

record sensor_data =
  temp :: "jval option"
  hum :: "jval option"
  soil :: "jval option"
  level :: "jval option"
  flow :: "jval option"
  light :: "jval option"
  sd_timestamp :: timestamp

definition initial_sensor_data :: "timestamp \<Rightarrow> sensor_data" where
  "initial_sensor_data t0 =
     \<lparr>temp = Some (JNum 24), hum = Some (JNum 66), soil = Some (JNum 60),
      level = Some (JNum 56), flow = Some (JNum 0), light = None, sd_timestamp = t0\<rparr>"

text \<open>
  The result of \<open>JSON.parse\<close> on an inbound payload: a syntax error, \<open>null\<close> (whose
  property read throws), an object (its members in source order), or any other value
  (number, string, boolean, array), on which every property read is \<open>undefined\<close>.
\<close>

datatype payload =
    Unparseable
  | Parsed_null
  | Parsed_object "(string \<times> jval) list"
  | Parsed_other

text \<open>\<open>data.k\<close>: with duplicate keys \<open>JSON.parse\<close> keeps the last one.\<close>

fun field :: "(string \<times> jval) list \<Rightarrow> string \<Rightarrow> jval option" where
  "field kvs k = map_of (rev kvs) k"

text \<open>
  The body of the \<open>'message'\<close> handler up to the broadcast (server.js): a new
  \<open>sensorData\<close> whose every reading is \<open>data.short || data.long || old\<close>, or \<open>None\<close>
  when parsing or the first property read throws (the handler's \<open>catch\<close>).
\<close>

fun merge_sensor_data :: "payload \<Rightarrow> timestamp \<Rightarrow> sensor_data \<Rightarrow> sensor_data option" where
  "merge_sensor_data Unparseable now old = None"
| "merge_sensor_data Parsed_null now old = None"
| "merge_sensor_data Parsed_other now old = Some (old\<lparr>sd_timestamp := now\<rparr>)"
| "merge_sensor_data (Parsed_object kvs) now old = Some
     \<lparr>temp = js_or (field kvs ''temp'') (js_or (field kvs ''temperature'') (temp old)),
      hum = js_or (field kvs ''hum'') (js_or (field kvs ''humidity'') (hum old)),
      soil = js_or (field kvs ''soil'') (js_or (field kvs ''soilMoisture'') (soil old)),
      level = js_or (field kvs ''level'') (js_or (field kvs ''waterLevel'') (level old)),
      flow = js_or (field kvs ''flow'') (js_or (field kvs ''flowRate'') (flow old)),
      light = js_or (field kvs ''light'') (js_or (field kvs ''lux'') (light old)),
      sd_timestamp = now\<rparr>"

subsection \<open>Lemmas\<close>

lemma topics_distinct [simp]: "topic_data \<noteq> topic_command" "topic_command \<noteq> topic_data"
  by (simp_all add: topic_data_def topic_command_def)

lemma mqtt_on_connect_resubscribe:
  "subscriptions (mqtt_on_connect (mqtt_on_connect c)) = subscriptions (mqtt_on_connect c)"
  by (simp add: mqtt_on_connect_def)

text \<open>
  C17: a sensor message reporting a soil moisture of 0 (under either key) does not
  update the held soil reading, whatever else it carries:
  \<open>data.soil || data.soilMoisture || sensorData.soil\<close> treats the number 0 as absent.
\<close>

theorem merge_sensor_zero_reading:
  assumes "field kvs ''soil'' = Some (JNum 0)" and "field kvs ''soilMoisture'' \<in> {None, Some (JNum 0)}"
  shows "\<exists>sd. merge_sensor_data (Parsed_object kvs) now old = Some sd \<and> soil sd = soil old \<and>
             sd_timestamp sd = now"
  using assms by (auto simp: js_or_def)

theorem merge_sensor_zero_reading_witness:
  "\<exists>sd. merge_sensor_data (Parsed_object [(''temp'', JNum 31), (''soil'', JNum 0)]) 5000
          \<lparr>temp = Some (JNum 24), hum = None, soil = Some (JNum 60), level = None, flow = None,
           light = None, sd_timestamp = 0\<rparr> = Some sd \<and>
        soil sd = Some (JNum 60) \<and> sd_timestamp sd = 5000"
  using merge_sensor_zero_reading [of "[(''temp'', JNum 31), (''soil'', JNum 0)]" 5000
          "\<lparr>temp = Some (JNum 24), hum = None, soil = Some (JNum 60), level = None, flow = None,
           light = None, sd_timestamp = 0\<rparr>"]
  by simp

end
