(* ===== verification/Hub.thy ===== *)
theory Hub
  imports Gateway
begin

text \<open>
  The Broadcast Hub (the Socket.IO part of backend/server.js): the events pushed to the
  dashboards, the status snapshot they carry, and which connected client receives which
  emission. \<open>io.emit\<close> goes to every client connected at that moment,
  \<open>socket.emit\<close> to one.
\<close>

text \<open>The object built by \<open>emitSystemState\<close> and by \<open>GET /api/status\<close>.\<close>

record status =
  st_pump_on :: bool
  st_mode :: mode
  st_pump_start_time :: "timestamp option"
  st_pump_duration :: int
  st_remaining :: int
  st_last_command :: "last_cmd option"
  st_last_command_time :: "timestamp option"

datatype sock_event =
    Sensor_update sensor_data
  | Status_update status
  | Mode_update mode

text \<open>One emission: the clients it is addressed to and the event.\<close>

type_synonym emission = "nat list \<times> sock_event"

definition io_emit :: "nat list \<Rightarrow> sock_event \<Rightarrow> emission" where
  "io_emit clients ev = (clients, ev)"

definition socket_emit :: "nat \<Rightarrow> sock_event \<Rightarrow> emission" where
  "socket_emit sid ev = ([sid], ev)"

text \<open>
  The JSON form of the payloads, as Socket.IO and \<open>res.json\<close> send them: \<open>null\<close>
  for an unset time or command, members whose value is \<open>undefined\<close> left out.
\<close>

definition json_time :: "timestamp option \<Rightarrow> jval" where
  "json_time t = (case t of None \<Rightarrow> JNull | Some n \<Rightarrow> JNum n)"

definition json_last_cmd :: "last_cmd option \<Rightarrow> jval" where
  "json_last_cmd c =
     (case c of None \<Rightarrow> JNull | Some Cmd_start \<Rightarrow> JStr ''start'' | Some Cmd_stop \<Rightarrow> JStr ''stop'')"

definition status_json :: "status \<Rightarrow> (string \<times> jval) list" where
  "status_json st =
     [(''pumpOn'', JBool (st_pump_on st)), (''mode'', JStr (mode_name (st_mode st))),
      (''pumpStartTime'', json_time (st_pump_start_time st)),
      (''pumpDuration'', JNum (st_pump_duration st)), (''remainingTime'', JNum (st_remaining st)),
      (''lastCommand'', json_last_cmd (st_last_command st)),
      (''lastCommandTime'', json_time (st_last_command_time st))]"

definition sensor_json :: "sensor_data \<Rightarrow> (string \<times> jval) list" where
  "sensor_json sd =
     [(k, v). (k, Some v) \<leftarrow> [(''temp'', temp sd), (''hum'', hum sd), (''soil'', soil sd),
                              (''level'', level sd), (''flow'', flow sd), (''light'', light sd)]]
     @ [(''timestamp'', JNum (sd_timestamp sd))]"

text \<open>
  The JSON types of the members a client reads, and the schema of the status object: a
  member typed \<open>T_nullable t\<close> is \<open>null\<close> or of type \<open>t\<close>.
\<close>

datatype jtype = T_num | T_str | T_bool | T_nullable jtype

fun has_jtype :: "jtype \<Rightarrow> jval \<Rightarrow> bool" where
  "has_jtype T_num v = (case v of JNum _ \<Rightarrow> True | _ \<Rightarrow> False)"
| "has_jtype T_str v = (case v of JStr _ \<Rightarrow> True | _ \<Rightarrow> False)"
| "has_jtype T_bool v = (case v of JBool _ \<Rightarrow> True | _ \<Rightarrow> False)"
| "has_jtype (T_nullable t) v = (v = JNull \<or> has_jtype t v)"

definition conforms :: "(string \<times> jtype) list \<Rightarrow> (string \<times> jval) list \<Rightarrow> bool" where
  "conforms schema obj =
     list_all (\<lambda>(k, t). case map_of (rev obj) k of None \<Rightarrow> False | Some v \<Rightarrow> has_jtype t v) schema"

definition status_schema :: "(string \<times> jtype) list" where
  "status_schema =
     [(''pumpOn'', T_bool), (''mode'', T_str), (''pumpStartTime'', T_nullable T_num),
      (''pumpDuration'', T_num), (''remainingTime'', T_num), (''lastCommand'', T_nullable T_str),
      (''lastCommandTime'', T_nullable T_num)]"

end
