(* ===== verification/Adapter.thy ===== *)
theory Adapter
  imports Prelude
begin

text \<open>
  The AI Decision Adapter (\<open>askPythonAI\<close> in backend/server.js): a Python process is
  spawned with the readings \<open>(temp, hum, soil)\<close>; when it closes, its whole standard
  output is parsed as JSON and the promise resolves to the parsed value's \<open>action\<close>
  field, or to \<open>0\<close> when parsing or the field read throws. The exit code is not read
  and there is no timeout: a process that never closes leaves the promise pending.
\<close>

text \<open>The request: the three readings passed as command-line arguments.\<close>

record ai_request =
  req_temp :: "jval option"
  req_hum :: "jval option"
  req_soil :: "jval option"

text \<open>What \<open>JSON.parse(dataString)\<close> makes of the process's standard output.\<close>

datatype py_stdout =
    Out_unparseable
  | Out_null
  | Out_object "(string \<times> jval) list"
  | Out_other

text \<open>
  The value the promise resolves to (\<open>None\<close> is \<open>undefined\<close>): \<open>result.action\<close>,
  where a read on \<open>null\<close> throws and is caught like a parse error.
\<close>

fun ask_python_ai :: "py_stdout \<Rightarrow> jval option" where
  "ask_python_ai Out_unparseable = Some (JNum 0)"
| "ask_python_ai Out_null = Some (JNum 0)"
| "ask_python_ai (Out_object kvs) = map_of (rev kvs) ''action''"
| "ask_python_ai Out_other = None"

text \<open>
  The caller compares the result with \<open>===\<close>: only the number \<open>1\<close> means water
  and only the number \<open>0\<close> means stop; anything else matches neither branch.
\<close>

datatype decision = Water | Wait | No_decision

fun decide :: "jval option \<Rightarrow> decision" where
  "decide (Some (JNum n)) = (if n = 1 then Water else if n = 0 then Wait else No_decision)"
| "decide _ = No_decision"

subsection \<open>Lemmas\<close>

lemma decide_Wait_iff: "decide v = Wait \<longleftrightarrow> v = Some (JNum 0)"
  by (cases v rule: decide.cases) auto

text \<open>
  C10: the adapter resolves to a stop decision exactly when the output does not parse,
  is \<open>null\<close>, or is an object whose (last) \<open>action\<close> member is the number 0. A
  process that prints a parseable but malformed answer (\<open>{}\<close>, \<open>{"action": "0"}\<close>,
  an array) yields no decision at all, not the fail-safe stop.
\<close>

theorem ask_python_ai_stop_iff:
  "decide (ask_python_ai out) = Wait \<longleftrightarrow>
     out = Out_unparseable \<or> out = Out_null \<or>
     (\<exists>kvs. out = Out_object kvs \<and> map_of (rev kvs) ''action'' = Some (JNum 0))"
  by (cases out) (auto simp: decide_Wait_iff)

end
