(* ===== verification/State_Manager.thy ===== *)
theory State_Manager
  imports Hub Adapter
begin

text \<open>
  The System State Manager of backend/server.js: \<open>systemState\<close>, the pump helpers
  \<open>startPumpInternal\<close> / \<open>stopPumpInternal\<close> with their auto-stop timer, the HTTP
  routes that call them, the MQTT \<open>'message'\<close> handler with its AI consultation, and the
  Socket.IO connection handler. The whole process is a \<open>world\<close> record; every callback
  the Node.js event loop can run is one \<open>event\<close>, handled to completion (JavaScript
  runs one callback at a time), so an execution is a sequence of events and
  interleavings are the orders of that sequence.
\<close>

subsection \<open>State\<close>

record system_state =
  pump_on :: bool
  mode :: mode
  pump_start_time :: "timestamp option"
  pump_duration :: int
  last_command :: "last_cmd option"
  last_command_time :: "timestamp option"

definition init_system_state :: system_state where
  "init_system_state =
     \<lparr>pump_on = False, mode = Automatic, pump_start_time = None, pump_duration = 0,
      last_command = None, last_command_time = None\<rparr>"

text \<open>
  \<open>remainingTime\<close> as computed in \<open>emitSystemState\<close> and \<open>GET /api/status\<close>:
  \<open>pumpOn && pumpStartTime ? Math.max(0, pumpDuration - (now - pumpStartTime)) : 0\<close>.
\<close>

definition remaining_time :: "system_state \<Rightarrow> timestamp \<Rightarrow> int" where
  "remaining_time s now =
     (case pump_start_time s of
        None \<Rightarrow> 0
      | Some t \<Rightarrow> if pump_on s \<and> t \<noteq> 0 then max 0 (pump_duration s - (now - t)) else 0)"

definition status_of :: "system_state \<Rightarrow> timestamp \<Rightarrow> status" where
  "status_of s now =
     \<lparr>st_pump_on = pump_on s, st_mode = mode s, st_pump_start_time = pump_start_time s,
      st_pump_duration = pump_duration s, st_remaining = remaining_time s now,
      st_last_command = last_command s, st_last_command_time = last_command_time s\<rparr>"

text \<open>What the process does towards the outside, in the order it does it.\<close>

datatype effect =
    Publish cmd_msg
  | Emit emission
  | Spawn_ai ai_request

text \<open>
  The process: the state manager's \<open>systemState\<close>, the gateway's \<open>sensorData\<close> and
  client, the pending \<open>setTimeout\<close> callbacks (their due times), the message handlers
  suspended at \<open>await askPythonAI(...)\<close> (their requests), the connected Socket.IO
  clients, the effects so far, and the clock \<open>Date.now()\<close>.
\<close>

record world =
  sys :: system_state
  sensors :: sensor_data
  mqtt :: "mqtt_client option"
  timers :: "timestamp list"
  ai_pending :: "ai_request list"
  clients :: "nat list"
  log :: "effect list"
  clock :: timestamp

definition init_world :: "timestamp \<Rightarrow> world" where
  "init_world t0 =
     \<lparr>sys = init_system_state, sensors = initial_sensor_data t0, mqtt = None, timers = [],
      ai_pending = [], clients = [], log = [], clock = t0\<rparr>"

subsection \<open>Effects\<close>

text \<open>\<open>publishCommand\<close> as its callers use it: the result is ignored.\<close>

definition published :: "mqtt_client option \<Rightarrow> timestamp \<Rightarrow> command \<Rightarrow> effect list" where
  "published c now command =
     (case publish_command c now command of None \<Rightarrow> [] | Some m \<Rightarrow> [Publish m])"

definition publish :: "timestamp \<Rightarrow> command \<Rightarrow> world \<Rightarrow> world" where
  "publish now c w = w\<lparr>log := log w @ published (mqtt w) now c\<rparr>"

definition emit_all :: "sock_event \<Rightarrow> world \<Rightarrow> world" where
  "emit_all ev w = w\<lparr>log := log w @ [Emit (io_emit (clients w) ev)]\<rparr>"

definition emit_to :: "nat \<Rightarrow> sock_event \<Rightarrow> world \<Rightarrow> world" where
  "emit_to sid ev w = w\<lparr>log := log w @ [Emit (socket_emit sid ev)]\<rparr>"

definition emit_system_state :: "timestamp \<Rightarrow> world \<Rightarrow> world" where
  "emit_system_state now w = emit_all (Status_update (status_of (sys w) now)) w"

text \<open>
  Node's \<open>setTimeout\<close> replaces a delay outside \<open>[1, 2147483647]\<close> by 1 ms
  (\<open>TIMEOUT_MAX\<close> is \<open>2^31 - 1\<close>).
\<close>

definition timer_delay :: "int \<Rightarrow> int" where
  "timer_delay d = (if 1 \<le> d \<and> d \<le> 2147483647 then d else 1)"

definition set_timeout :: "timestamp \<Rightarrow> int \<Rightarrow> world \<Rightarrow> world" where
  "set_timeout now d w = w\<lparr>timers := timers w @ [now + timer_delay d]\<rparr>"

subsection \<open>The pump helpers\<close>

text \<open>
  \<open>startPumpInternal(durationSec, reason)\<close>: set the pump fields, publish
  \<open>pump_start\<close>, broadcast the status, and outside AI mode arm the auto-stop timer.
  The reason only reaches the console log.
\<close>

definition start_pump_internal :: "int \<Rightarrow> reason \<Rightarrow> timestamp \<Rightarrow> world \<Rightarrow> world" where
  "start_pump_internal duration_sec reason now w =
     (let duration_ms = duration_sec * 1000;
          s = (sys w)\<lparr>pump_on := True, pump_start_time := Some now,
                      pump_duration := duration_ms, last_command := Some Cmd_start,
                      last_command_time := Some now\<rparr>;
          w1 = publish now (Pump_start duration_sec duration_ms (mode s)) (w\<lparr>sys := s\<rparr>);
          w2 = emit_system_state now w1
      in if mode s \<noteq> AI then set_timeout now duration_ms w2 else w2)"

text \<open>
  \<open>stopPumpInternal(reason)\<close>: the run time (0 when \<open>pumpStartTime\<close> is falsy), the
  pump fields cleared, \<open>pump_stop\<close> published, the status broadcast. It has no guard
  of its own: its callers check \<open>pumpOn\<close>.
\<close>

definition run_time :: "system_state \<Rightarrow> timestamp \<Rightarrow> int" where
  "run_time s now = (case pump_start_time s of None \<Rightarrow> 0 | Some t \<Rightarrow> if t \<noteq> 0 then now - t else 0)"

definition stop_pump_internal :: "reason \<Rightarrow> timestamp \<Rightarrow> world \<Rightarrow> world" where
  "stop_pump_internal reason now w =
     (let s = (sys w)\<lparr>pump_on := False, pump_start_time := None, pump_duration := 0,
                      last_command := Some Cmd_stop, last_command_time := Some now\<rparr>;
          w1 = publish now (Pump_stop (run_time (sys w) now) reason) (w\<lparr>sys := s\<rparr>)
      in emit_system_state now w1)"

text \<open>The callback armed by \<open>startPumpInternal\<close>: it re-checks both conditions.\<close>

definition auto_stop_callback :: "timestamp \<Rightarrow> world \<Rightarrow> world" where
  "auto_stop_callback now w =
     (if pump_on (sys w) \<and> mode (sys w) \<noteq> AI then stop_pump_internal Auto_timeout now w else w)"

subsection \<open>HTTP routes\<close>

text \<open>The 400 responses of the routes; each is returned before any state is touched.\<close>

datatype api_error = Invalid_mode | Already_running | Not_running | Mode_conflict

text \<open>\<open>POST /api/mode\<close>.\<close>

definition api_set_mode :: "jval option \<Rightarrow> timestamp \<Rightarrow> world \<Rightarrow> api_error + world" where
  "api_set_mode body_mode now w =
     (case parse_mode body_mode of
        None \<Rightarrow> Inl Invalid_mode
      | Some m \<Rightarrow>
          (let w1 = publish now (Set_mode m) (w\<lparr>sys := (sys w)\<lparr>mode := m\<rparr>\<rparr>);
               w2 = (if m = AI \<and> pump_on (sys w1) then stop_pump_internal Mode_change now w1
                     else w1)
           in Inr (emit_all (Mode_update (mode (sys w2))) w2)))"

text \<open>
  \<open>POST /api/pump/start\<close>: the AI-mode check comes first, then the running check. An
  absent \<open>duration\<close> (\<open>undefined\<close>) takes the helper's default of 10 seconds.
\<close>

definition api_pump_start :: "int option \<Rightarrow> timestamp \<Rightarrow> world \<Rightarrow> api_error + world" where
  "api_pump_start duration now w =
     (if mode (sys w) = AI then Inl Mode_conflict
      else if pump_on (sys w) then Inl Already_running
      else Inr (start_pump_internal (case duration of None \<Rightarrow> 10 | Some d \<Rightarrow> d) Manual_api now w))"

text \<open>\<open>POST /api/pump/stop\<close>.\<close>

definition api_pump_stop :: "timestamp \<Rightarrow> world \<Rightarrow> api_error + world" where
  "api_pump_stop now w =
     (if \<not> pump_on (sys w) then Inl Not_running
      else Inr (stop_pump_internal Manual_api now w))"

text \<open>The read-only routes \<open>GET /api/status\<close>, \<open>/api/sensors\<close> and \<open>/api/mode\<close>.\<close>

definition api_status :: "timestamp \<Rightarrow> world \<Rightarrow> status" where
  "api_status now w = status_of (sys w) now"

definition api_sensors :: "world \<Rightarrow> sensor_data" where
  "api_sensors w = sensors w"

definition api_mode :: "world \<Rightarrow> mode" where
  "api_mode w = mode (sys w)"

subsection \<open>The MQTT message handler and the AI consultation\<close>

text \<open>
  The handler up to its \<open>await\<close>: merge the sample, broadcast it, and in AI mode spawn
  the adapter and suspend. Nothing bounds the number of suspended handlers.
\<close>

definition on_mqtt_message :: "string \<Rightarrow> payload \<Rightarrow> timestamp \<Rightarrow> world \<Rightarrow> world" where
  "on_mqtt_message topic p now w =
     (if topic \<noteq> topic_data then w
      else case merge_sensor_data p now (sensors w) of
        None \<Rightarrow> w
      | Some sd \<Rightarrow>
          (let w1 = emit_all (Sensor_update sd) (w\<lparr>sensors := sd\<rparr>);
               req = \<lparr>req_temp = temp sd, req_hum = hum sd, req_soil = soil sd\<rparr>
           in if mode (sys w1) = AI
              then w1\<lparr>ai_pending := ai_pending w1 @ [req], log := log w1 @ [Spawn_ai req]\<rparr>
              else w1))"

text \<open>
  The handler after its \<open>await\<close>: the decision is applied to the state as it is now,
  without looking at the mode again.
\<close>

definition ai_apply :: "decision \<Rightarrow> timestamp \<Rightarrow> world \<Rightarrow> world" where
  "ai_apply d now w =
     (case d of
        Water \<Rightarrow> if \<not> pump_on (sys w) then start_pump_internal 10 Ai_trigger now w else w
      | Wait \<Rightarrow> if pump_on (sys w) then stop_pump_internal Ai_trigger now w else w
      | No_decision \<Rightarrow> w)"

text \<open>The \<open>'close'\<close> event of the \<open>i\<close>-th pending adapter process resumes its handler.\<close>

definition ai_resume :: "nat \<Rightarrow> py_stdout \<Rightarrow> timestamp \<Rightarrow> world \<Rightarrow> world" where
  "ai_resume i out now w =
     (if i < length (ai_pending w)
      then ai_apply (decide (ask_python_ai out)) now (w\<lparr>ai_pending := remove_at i (ai_pending w)\<rparr>)
      else w)"

text \<open>The event loop runs the \<open>i\<close>-th pending timer once it is due.\<close>

definition fire_timer :: "nat \<Rightarrow> timestamp \<Rightarrow> world \<Rightarrow> world" where
  "fire_timer i now w =
     (if i < length (timers w) \<and> timers w ! i \<le> now
      then auto_stop_callback now (w\<lparr>timers := remove_at i (timers w)\<rparr>)
      else w)"

subsection \<open>Socket.IO handlers\<close>

text \<open>
  \<open>io.on('connection')\<close>: the new socket gets the sensor data, and the status is
  broadcast to every client; \<open>get_status\<close> broadcasts too, \<open>get_sensors\<close> answers the
  asking socket only.
\<close>

definition on_connection :: "nat \<Rightarrow> timestamp \<Rightarrow> world \<Rightarrow> world" where
  "on_connection sid now w =
     (if sid \<in> set (clients w) then w
      else let w1 = w\<lparr>clients := clients w @ [sid]\<rparr>
           in emit_system_state now (emit_to sid (Sensor_update (sensors w1)) w1))"

definition on_get_sensors :: "nat \<Rightarrow> world \<Rightarrow> world" where
  "on_get_sensors sid w =
     (if sid \<in> set (clients w) then emit_to sid (Sensor_update (sensors w)) w else w)"

definition on_get_status :: "nat \<Rightarrow> timestamp \<Rightarrow> world \<Rightarrow> world" where
  "on_get_status sid now w = (if sid \<in> set (clients w) then emit_system_state now w else w)"

definition on_disconnect :: "nat \<Rightarrow> world \<Rightarrow> world" where
  "on_disconnect sid w = w\<lparr>clients := removeAll sid (clients w)\<rparr>"

subsection \<open>Broker connection\<close>

text \<open>\<open>connectMQTT\<close>, run once from the \<open>listen\<close> callback, and the client's events.\<close>

definition mqtt_start :: "world \<Rightarrow> world" where
  "mqtt_start w = (if mqtt w = None then w\<lparr>mqtt := Some mqtt_create\<rparr> else w)"

definition mqtt_connect :: "world \<Rightarrow> world" where
  "mqtt_connect w = w\<lparr>mqtt := map_option mqtt_on_connect (mqtt w)\<rparr>"

definition mqtt_offline :: "world \<Rightarrow> world" where
  "mqtt_offline w = w\<lparr>mqtt := map_option mqtt_on_offline (mqtt w)\<rparr>"

text \<open>A message reaches the handler only over a live, subscribed connection.\<close>

definition mqtt_deliver :: "string \<Rightarrow> payload \<Rightarrow> timestamp \<Rightarrow> world \<Rightarrow> world" where
  "mqtt_deliver topic p now w =
     (case mqtt w of
        Some c \<Rightarrow> if connected c \<and> topic \<in> subscriptions c then on_mqtt_message topic p now w else w
      | None \<Rightarrow> w)"

subsection \<open>Events and executions\<close>

datatype event =
    Http_set_mode "jval option"
  | Http_pump_start "int option"
  | Http_pump_stop
  | Mqtt_start
  | Mqtt_connect
  | Mqtt_offline
  | Mqtt_message string payload
  | Ai_close nat py_stdout
  | Timer_fire nat
  | Sock_connect nat
  | Sock_get_sensors nat
  | Sock_get_status nat
  | Sock_disconnect nat

text \<open>A rejected request (HTTP 400) leaves the process as it was.\<close>

definition http_result :: "api_error + world \<Rightarrow> world \<Rightarrow> world" where
  "http_result r w = (case r of Inl _ \<Rightarrow> w | Inr w' \<Rightarrow> w')"

fun handle :: "timestamp \<Rightarrow> event \<Rightarrow> world \<Rightarrow> world" where
  "handle now (Http_set_mode m) w = http_result (api_set_mode m now w) w"
| "handle now (Http_pump_start d) w = http_result (api_pump_start d now w) w"
| "handle now Http_pump_stop w = http_result (api_pump_stop now w) w"
| "handle now Mqtt_start w = mqtt_start w"
| "handle now Mqtt_connect w = mqtt_connect w"
| "handle now Mqtt_offline w = mqtt_offline w"
| "handle now (Mqtt_message topic p) w = mqtt_deliver topic p now w"
| "handle now (Ai_close i out) w = ai_resume i out now w"
| "handle now (Timer_fire i) w = fire_timer i now w"
| "handle now (Sock_connect sid) w = on_connection sid now w"
| "handle now (Sock_get_sensors sid) w = on_get_sensors sid w"
| "handle now (Sock_get_status sid) w = on_get_status sid now w"
| "handle now (Sock_disconnect sid) w = on_disconnect sid w"

definition step :: "timestamp \<Rightarrow> event \<Rightarrow> world \<Rightarrow> world" where
  "step now e w = handle now e (w\<lparr>clock := now\<rparr>)"

fun run :: "(timestamp \<times> event) list \<Rightarrow> world \<Rightarrow> world" where
  "run [] w = w"
| "run ((t, e) # es) w = run es (step t e w)"

text \<open>The reachable processes: from start-up, events at non-decreasing times.\<close>

inductive reach :: "world \<Rightarrow> bool" where
  reach_init: "reach (init_world t0)"
| reach_step: "reach w \<Longrightarrow> clock w \<le> t \<Longrightarrow> reach (step t e w)"

subsection \<open>Invariants\<close>

text \<open>
  How the fields of \<open>systemState\<close> agree: the pump is on exactly when a start time is
  held and exactly when the last command was a start; a stopped pump has duration 0; the
  last-command time is set with the last command.
\<close>

definition pump_inv :: "system_state \<Rightarrow> bool" where
  "pump_inv s \<longleftrightarrow>
     (pump_on s \<longleftrightarrow> pump_start_time s \<noteq> None) \<and>
     (pump_on s \<longleftrightarrow> last_command s = Some Cmd_start) \<and>
     (\<not> pump_on s \<longrightarrow> pump_duration s = 0) \<and>
     (last_command s = None \<longleftrightarrow> last_command_time s = None)"

text \<open>No recorded time lies in the future of the clock.\<close>

definition clock_inv :: "world \<Rightarrow> bool" where
  "clock_inv w \<longleftrightarrow>
     (\<forall>t. pump_start_time (sys w) = Some t \<longrightarrow> t \<le> clock w) \<and>
     (\<forall>t. last_command_time (sys w) = Some t \<longrightarrow> t \<le> clock w)"

definition world_inv :: "world \<Rightarrow> bool" where
  "world_inv w \<longleftrightarrow> pump_inv (sys w) \<and> clock_inv w"

subsection \<open>Lemmas: what each helper does\<close>

lemmas effect_defs [handler_simps] =
  publish_def emit_all_def emit_to_def emit_system_state_def set_timeout_def

lemma start_pump_internal_fields [simp]:
  "sys (start_pump_internal d r now w) =
     (sys w)\<lparr>pump_on := True, pump_start_time := Some now, pump_duration := d * 1000,
             last_command := Some Cmd_start, last_command_time := Some now\<rparr>"
  "clock (start_pump_internal d r now w) = clock w"
  "mqtt (start_pump_internal d r now w) = mqtt w"
  "clients (start_pump_internal d r now w) = clients w"
  "sensors (start_pump_internal d r now w) = sensors w"
  "ai_pending (start_pump_internal d r now w) = ai_pending w"
  by (simp_all add: start_pump_internal_def Let_def effect_defs)

lemma start_pump_internal_timers [simp]:
  "timers (start_pump_internal d r now w) =
     timers w @ (if mode (sys w) \<noteq> AI then [now + timer_delay (d * 1000)] else [])"
  by (simp add: start_pump_internal_def Let_def effect_defs)

lemma start_pump_internal_log:
  "log (start_pump_internal d r now w) =
     log w @ published (mqtt w) now (Pump_start d (d * 1000) (mode (sys w))) @
     [Emit (io_emit (clients w) (Status_update (status_of (sys (start_pump_internal d r now w)) now)))]"
  by (simp add: start_pump_internal_def Let_def effect_defs)

lemma stop_pump_internal_fields [simp]:
  "sys (stop_pump_internal r now w) =
     (sys w)\<lparr>pump_on := False, pump_start_time := None, pump_duration := 0,
             last_command := Some Cmd_stop, last_command_time := Some now\<rparr>"
  "clock (stop_pump_internal r now w) = clock w"
  "mqtt (stop_pump_internal r now w) = mqtt w"
  "clients (stop_pump_internal r now w) = clients w"
  "sensors (stop_pump_internal r now w) = sensors w"
  "ai_pending (stop_pump_internal r now w) = ai_pending w"
  "timers (stop_pump_internal r now w) = timers w"
  by (simp_all add: stop_pump_internal_def Let_def effect_defs)

lemma stop_pump_internal_log:
  "log (stop_pump_internal r now w) =
     log w @ published (mqtt w) now (Pump_stop (run_time (sys w) now) r) @
     [Emit (io_emit (clients w) (Status_update (status_of (sys (stop_pump_internal r now w)) now)))]"
  by (simp add: stop_pump_internal_def Let_def effect_defs)

text \<open>
  C16: finding: a stop while the broker connection is down: the state says off and the
  dashboards are told so, but no command leaves the process, and the reconnection sends
  nothing either; the device keeps the last command it received.
\<close>

lemma offline_stop_not_sent:
  fixes now :: timestamp
  assumes "mqtt w = Some c" and "\<not> connected c" and "pump_on (sys w)"
  defines "w' \<equiv> http_result (api_pump_stop now w) w"
  shows "\<not> pump_on (sys w') \<and>
         log w' = log w @ [Emit (io_emit (clients w) (Status_update (status_of (sys w') now)))] \<and>
         log (mqtt_connect w') = log w'"
  using assms
  by (simp add: api_pump_stop_def http_result_def stop_pump_internal_log published_def publish_command_def
      mqtt_connect_def)

theorem offline_stop_not_sent_witness:
  "\<not> pump_on (sys (http_result (api_pump_stop 5000 ((start_pump_internal 10 Manual_api 1 (init_world 0))
       \<lparr>mqtt := Some \<lparr>connected = False, subscriptions = {topic_data}\<rparr>\<rparr>))
     ((start_pump_internal 10 Manual_api 1 (init_world 0))\<lparr>mqtt := Some \<lparr>connected = False, subscriptions = {topic_data}\<rparr>\<rparr>))) \<and>
   log (mqtt_connect (http_result (api_pump_stop 5000 ((start_pump_internal 10 Manual_api 1 (init_world 0))
       \<lparr>mqtt := Some \<lparr>connected = False, subscriptions = {topic_data}\<rparr>\<rparr>))
     ((start_pump_internal 10 Manual_api 1 (init_world 0))\<lparr>mqtt := Some \<lparr>connected = False, subscriptions = {topic_data}\<rparr>\<rparr>))) =
   log (http_result (api_pump_stop 5000 ((start_pump_internal 10 Manual_api 1 (init_world 0))
       \<lparr>mqtt := Some \<lparr>connected = False, subscriptions = {topic_data}\<rparr>\<rparr>))
     ((start_pump_internal 10 Manual_api 1 (init_world 0))\<lparr>mqtt := Some \<lparr>connected = False, subscriptions = {topic_data}\<rparr>\<rparr>))"
  using offline_stop_not_sent [where w = "(start_pump_internal 10 Manual_api 1 (init_world 0))
       \<lparr>mqtt := Some \<lparr>connected = False, subscriptions = {topic_data}\<rparr>\<rparr>"
      and c = "\<lparr>connected = False, subscriptions = {topic_data}\<rparr>" and now = 5000]
  by simp

lemma pump_inv_start [simp]:
  "pump_inv (s\<lparr>pump_on := True, pump_start_time := Some t, pump_duration := d,
                last_command := Some Cmd_start, last_command_time := Some t'\<rparr>)"
  by (simp add: pump_inv_def)

lemma pump_inv_stop [simp]:
  "pump_inv (s\<lparr>pump_on := False, pump_start_time := None, pump_duration := 0,
                last_command := Some Cmd_stop, last_command_time := Some t\<rparr>)"
  by (simp add: pump_inv_def)

lemma pump_inv_mode [simp]: "pump_inv (s\<lparr>mode := m\<rparr>) = pump_inv s"
  by (simp add: pump_inv_def)

lemmas step_splits = option.splits sum.splits if_splits decision.splits

lemmas handler_defs [handler_simps] =
  api_set_mode_def api_pump_start_def api_pump_stop_def http_result_def
  mqtt_start_def mqtt_connect_def mqtt_offline_def mqtt_deliver_def on_mqtt_message_def
  ai_resume_def ai_apply_def fire_timer_def auto_stop_callback_def
  on_connection_def on_get_sensors_def on_get_status_def on_disconnect_def

text \<open>
  Every handler leaves \<open>systemState\<close> as it was, changes only its mode, or ends in one
  of the two helpers, whose results satisfy \<open>pump_inv\<close> outright.
\<close>

lemma world_inv_step: "world_inv w \<Longrightarrow> clock w \<le> t \<Longrightarrow> world_inv (step t e w)"
  by (cases e)
     (auto simp: step_def world_inv_def clock_inv_def handler_simps Let_def
           split: step_splits)

lemma world_inv_init: "world_inv (init_world t0)"
  by (simp add: world_inv_def pump_inv_def clock_inv_def init_world_def init_system_state_def)

lemma world_inv_reach: "reach w \<Longrightarrow> world_inv w"
proof (induction rule: reach.induct)
  case (reach_init t0)
  show ?case by (rule world_inv_init)
next
  case (reach_step w t e)
  from reach_step.IH reach_step.hyps(2) show ?case by (rule world_inv_step)
qed

lemma reach_started: "reach (step 1000 (Http_pump_start (Some 10)) (init_world 0))"
  by (rule reach_step [OF reach_init]) (simp add: init_world_def)

text \<open>While the pump stays on, no event restarts or extends the running cycle.\<close>

lemma step_keeps_cycle:
  assumes "pump_on (sys w)" and "pump_on (sys (step t e w))"
  shows "pump_start_time (sys (step t e w)) = pump_start_time (sys w) \<and>
         pump_duration (sys (step t e w)) = pump_duration (sys w)"
  using assms
  by (cases e) (auto simp: step_def handler_simps Let_def split: step_splits)

lemma remaining_time_mono: "t \<le> t' \<Longrightarrow> remaining_time s t' \<le> remaining_time s t"
  by (auto simp: remaining_time_def split: option.splits)

lemma remaining_time_nonneg: "0 \<le> remaining_time s t"
  by (simp add: remaining_time_def split: option.split)

subsection \<open>Properties of the state manager\<close>

text \<open>
  C1: in every reachable process the fields of \<open>systemState\<close> agree: the pump is on
  exactly when a start time is held and exactly when the last command issued was a start,
  a stopped pump has duration 0, and no recorded time lies after the clock.
\<close>

theorem reach_world_inv: "reach w \<Longrightarrow> world_inv w"
  by (rule world_inv_reach)

theorem reach_world_inv_witness:
  "reach (step 1000 (Http_pump_start (Some 10)) (init_world 0)) \<and>
   world_inv (step 1000 (Http_pump_start (Some 10)) (init_world 0))"
  using reach_started reach_world_inv [OF reach_started] by simp

text \<open>
  C2: \<open>POST /api/mode\<close> with \<open>ai\<close> while the pump runs succeeds, leaves the pump off
  in AI mode, and emits, in this order: the \<open>set_mode\<close> command, the \<open>pump_stop\<close>
  command with the run time and reason \<open>mode_change\<close> (both only over a live broker
  connection), the status broadcast and the \<open>mode_update\<close> broadcast.
\<close>

theorem api_set_mode_ai_stops:
  assumes "pump_on (sys w)"
  shows "\<exists>w'. api_set_mode (Some (JStr ''ai'')) now w = Inr w' \<and>
     \<not> pump_on (sys w') \<and> mode (sys w') = AI \<and>
     log w' = log w @ published (mqtt w) now (Set_mode AI) @
       published (mqtt w) now (Pump_stop (run_time (sys w) now) Mode_change) @
       [Emit (io_emit (clients w) (Status_update (status_of (sys w') now))),
        Emit (io_emit (clients w) (Mode_update AI))]"
  using assms by (simp add: api_set_mode_def Let_def stop_pump_internal_log effect_defs run_time_def)

theorem api_set_mode_ai_stops_witness:
  "\<exists>w'. api_set_mode (Some (JStr ''ai'')) 5 (start_pump_internal 10 Manual_api 1 (init_world 0)) = Inr w'
     \<and> \<not> pump_on (sys w')"
  using api_set_mode_ai_stops [of "start_pump_internal 10 Manual_api 1 (init_world 0)" 5] by auto

text \<open>
  C3: in AI mode \<open>POST /api/pump/start\<close> is rejected with the mode-conflict error,
  whatever the pump state, and the event changes nothing but the clock.
\<close>

theorem api_pump_start_ai_conflict:
  assumes "mode (sys w) = AI"
  shows "api_pump_start d now w = Inl Mode_conflict \<and> step now (Http_pump_start d) w = w\<lparr>clock := now\<rparr>"
  using assms by (simp add: api_pump_start_def step_def http_result_def)

theorem api_pump_start_ai_conflict_witness:
  "api_pump_start None 7 (start_pump_internal 10 Ai_trigger 1 (init_world 0)\<lparr>sys := (sys (start_pump_internal 10 Ai_trigger 1 (init_world 0)))\<lparr>mode := AI\<rparr>\<rparr>) = Inl Mode_conflict"
  using api_pump_start_ai_conflict [of "start_pump_internal 10 Ai_trigger 1 (init_world 0)\<lparr>sys := (sys (start_pump_internal 10 Ai_trigger 1 (init_world 0)))\<lparr>mode := AI\<rparr>\<rparr>" None 7] by simp

text \<open>
  C4: two stop requests in a row: the first stops the pump, the second is rejected with
  \<open>Not_running\<close> and adds nothing to the effects, so exactly one \<open>pump_stop\<close> command
  and one status broadcast result.
\<close>

theorem double_stop:
  assumes "pump_on (sys w)"
  shows "\<not> pump_on (sys (step t1 Http_pump_stop w)) \<and>
     api_pump_stop t2 ((step t1 Http_pump_stop w)\<lparr>clock := t2\<rparr>) = Inl Not_running \<and>
     log (step t2 Http_pump_stop (step t1 Http_pump_stop w)) =
       log w @ published (mqtt w) t1 (Pump_stop (run_time (sys w) t1) Manual_api) @
       [Emit (io_emit (clients w) (Status_update (status_of (sys (step t1 Http_pump_stop w)) t1)))]"
  using assms by (simp add: step_def http_result_def api_pump_stop_def stop_pump_internal_log)

theorem double_stop_witness:
  "\<not> pump_on (sys (step 3 Http_pump_stop (start_pump_internal 10 Manual_api 1 (init_world 0)))) \<and>
   api_pump_stop 4 ((step 3 Http_pump_stop (start_pump_internal 10 Manual_api 1 (init_world 0)))\<lparr>clock := 4\<rparr>) = Inl Not_running"
  using double_stop [of "start_pump_internal 10 Manual_api 1 (init_world 0)" 3 4] by simp

text \<open>
  C5: outside AI mode, with the pump off, \<open>POST /api/pump/start\<close> with \<open>d\<close> seconds
  succeeds: the pump is on since now for \<open>d * 1000\<close> ms, one auto-stop timer is armed
  for Node's clamped delay of \<open>d * 1000\<close>, and the effects are the
  \<open>pump_start{d, d*1000, mode}\<close> command and the status broadcast.
\<close>

theorem api_pump_start_effects:
  assumes "mode (sys w) \<noteq> AI" and "\<not> pump_on (sys w)"
  shows "\<exists>w'. api_pump_start (Some d) now w = Inr w' \<and>
     pump_on (sys w') \<and> pump_start_time (sys w') = Some now \<and>
     pump_duration (sys w') = d * 1000 \<and> mode (sys w') = mode (sys w) \<and>
     timers w' = timers w @ [now + timer_delay (d * 1000)] \<and>
     log w' = log w @ published (mqtt w) now (Pump_start d (d * 1000) (mode (sys w))) @
       [Emit (io_emit (clients w) (Status_update (status_of (sys w') now)))]"
  using assms by (simp add: api_pump_start_def start_pump_internal_log)

theorem api_pump_start_effects_witness:
  "\<exists>w'. api_pump_start (Some 8) 1000 (init_world 0) = Inr w' \<and> pump_duration (sys w') = 8000 \<and>
     timers w' = [9000]"
  using api_pump_start_effects [of "init_world 0" 8 1000]
  by (auto simp: init_world_def init_system_state_def timer_delay_def)

text \<open>
  C6: when the \<open>i\<close>-th pending adapter process closes, its handler resumes: afterwards
  the pump is on if the decision was to water, off if it was to stop, and as before if
  the response matched neither; the request leaves the pending list.
\<close>

theorem ai_resume_pump:
  assumes "i < length (ai_pending w)"
  shows "pump_on (sys (ai_resume i out now w)) =
           (case decide (ask_python_ai out) of
              Water \<Rightarrow> True | Wait \<Rightarrow> False | No_decision \<Rightarrow> pump_on (sys w)) \<and>
         ai_pending (ai_resume i out now w) = remove_at i (ai_pending w)"
  using assms by (auto simp: ai_resume_def ai_apply_def split: decision.splits)

theorem ai_resume_pump_witness:
  "\<not> pump_on (sys (ai_resume 0 Out_unparseable 9 (start_pump_internal 10 Manual_api 1 (init_world 0)\<lparr>ai_pending := [\<lparr>req_temp = None, req_hum = None, req_soil = None\<rparr>]\<rparr>)))"
  using ai_resume_pump [of 0 "start_pump_internal 10 Manual_api 1 (init_world 0)\<lparr>ai_pending := [\<lparr>req_temp = None, req_hum = None, req_soil = None\<rparr>]\<rparr>" Out_unparseable 9]
  by simp

text \<open>
  C7: a decision to water while the pump runs, a decision to stop while it is off, and
  a response matching neither change nothing.
\<close>

theorem ai_apply_noop:
  assumes "(d = Water \<and> pump_on (sys w)) \<or> (d = Wait \<and> \<not> pump_on (sys w)) \<or> d = No_decision"
  shows "ai_apply d now w = w"
  using assms by (auto simp: ai_apply_def)

theorem ai_apply_noop_witness: "ai_apply Water 5 (start_pump_internal 10 Manual_api 1 (init_world 0)) = start_pump_internal 10 Manual_api 1 (init_world 0)"
  using ai_apply_noop [of Water "start_pump_internal 10 Manual_api 1 (init_world 0)" 5] by simp

text \<open>
  C8: while the pump stays on, the remaining time never grows: after any event that
  leaves the pump running, the remaining time at any later instant is at most the one
  before the event.
\<close>

theorem remaining_time_non_increasing:
  assumes "pump_on (sys w)" and "pump_on (sys (step t e w))" and "clock w \<le> t" and "t \<le> t'"
  shows "remaining_time (sys (step t e w)) t' \<le> remaining_time (sys w) (clock w)"
proof -
  from step_keeps_cycle [OF assms(1,2)]
  have "remaining_time (sys (step t e w)) t' = remaining_time (sys w) t'"
    using assms(1,2) by (auto simp: remaining_time_def split: option.splits)
  also have "\<dots> \<le> remaining_time (sys w) (clock w)"
    using assms(3,4) by (simp add: remaining_time_mono)
  finally show ?thesis .
qed

theorem remaining_time_non_increasing_witness:
  "remaining_time (sys (step 2000 Mqtt_offline (start_pump_internal 10 Manual_api 1 (init_world 0)))) 3000 \<le> remaining_time (sys (start_pump_internal 10 Manual_api 1 (init_world 0))) (clock (start_pump_internal 10 Manual_api 1 (init_world 0)))"
  using remaining_time_non_increasing [of "start_pump_internal 10 Manual_api 1 (init_world 0)" 2000 Mqtt_offline 3000]
  by (simp add: step_def mqtt_offline_def init_world_def)

end
