(* ===== verification/Api_Client.thy ===== *)
theory Api_Client
  imports State_Manager
begin

text \<open>
  The HTTP boundary between the dashboard and the backend: what the backend's routes
  answer (the \<open>res.status(400).json({error})\<close> and \<open>res.json({success, ...})\<close> calls
  of backend/server.js) and how the dashboard's \<open>ApiService\<close>
  (frontend/src/services/apiService.js) turns an answer into a value or a thrown error.
  A JSON response body is a list of members; \<open>currentState\<close> and other nested
  objects stay opaque (\<open>JCompound\<close>).
\<close>

subsection \<open>The backend's answers\<close>

record http_response =
  resp_status :: int
  resp_body :: "(string \<times> jval) list option"

text \<open>The \<open>error\<close> texts of the four rejections.\<close>

fun error_message :: "api_error \<Rightarrow> string" where
  "error_message Invalid_mode = ''Invalid mode. Must be \"automatic\", \"manual\" or \"ai\"''"
| "error_message Already_running = ''Pump is already running''"
| "error_message Not_running = ''Pump is not running''"
| "error_message Mode_conflict = ''Cannot manually start pump in AI mode''"

text \<open>
  A rejection: status 400 and the error text; the already-running and not-running
  answers also carry the state.
\<close>

fun error_response :: "api_error \<Rightarrow> http_response" where
  "error_response Invalid_mode =
     \<lparr>resp_status = 400, resp_body = Some [(''error'', JStr (error_message Invalid_mode))]\<rparr>"
| "error_response Mode_conflict =
     \<lparr>resp_status = 400, resp_body = Some [(''error'', JStr (error_message Mode_conflict))]\<rparr>"
| "error_response e =
     \<lparr>resp_status = 400, resp_body = Some [(''error'', JStr (error_message e)), (''currentState'', JCompound)]\<rparr>"

definition set_mode_response :: "api_error + world \<Rightarrow> http_response" where
  "set_mode_response r =
     (case r of
        Inl e \<Rightarrow> error_response e
      | Inr w \<Rightarrow> \<lparr>resp_status = 200, resp_body = Some
          [(''success'', JBool True), (''mode'', JStr (mode_name (mode (sys w)))),
           (''message'', JStr (''Mode set to '' @ mode_name (mode (sys w))))]\<rparr>)"

definition pump_start_response :: "api_error + world \<Rightarrow> http_response" where
  "pump_start_response r =
     (case r of
        Inl e \<Rightarrow> error_response e
      | Inr w \<Rightarrow> \<lparr>resp_status = 200, resp_body = Some
          [(''success'', JBool True), (''message'', JStr ''Pump started''),
           (''mode'', JStr (mode_name (mode (sys w))))]\<rparr>)"

definition pump_stop_response :: "api_error + world \<Rightarrow> http_response" where
  "pump_stop_response r =
     (case r of
        Inl e \<Rightarrow> error_response e
      | Inr w \<Rightarrow> \<lparr>resp_status = 200, resp_body = Some
          [(''success'', JBool True), (''message'', JStr ''Pump stopped'')]\<rparr>)"

subsection \<open>The dashboard's request wrapper\<close>

definition api_base :: string where
  "api_base = ''http://localhost:3001/api''"

datatype http_method = GET | POST

text \<open>The \<open>options\<close> argument of \<open>request\<close>: method, caller headers and JSON body.\<close>

record req_options =
  req_method :: http_method
  req_headers :: "(string \<times> string) list option"
  req_body :: "(string \<times> jval) list option"

text \<open>
  The headers of \<open>config\<close>: the merged object \<open>{Content-Type, ...options.headers}\<close> is
  overwritten by the later \<open>...options\<close> whenever the caller passed \<open>headers\<close>.
\<close>

definition request_headers :: "req_options \<Rightarrow> (string \<times> string) list" where
  "request_headers opts =
     (case req_headers opts of
        None \<Rightarrow> [(''Content-Type'', ''application/json'')]
      | Some hs \<Rightarrow> hs)"

text \<open>What \<open>fetch\<close> gives: a network failure or a response.\<close>

datatype fetch_result = Network_error string | Fetched http_response

text \<open>The result of \<open>request\<close>: the parsed body, or the message of the thrown error.\<close>

datatype api_outcome = Ok "(string \<times> jval) list" | Thrown string

text \<open>
  \<open>await response.json()\<close> throws on a body that is not JSON; otherwise a status
  outside 200..299 throws \<open>data.error || `HTTP error! status: ${status}`\<close>.
\<close>

definition request_outcome :: "fetch_result \<Rightarrow> api_outcome" where
  "request_outcome f =
     (case f of
        Network_error msg \<Rightarrow> Thrown msg
      | Fetched r \<Rightarrow>
          (case resp_body r of
             None \<Rightarrow> Thrown ''Unexpected end of JSON input''
           | Some data \<Rightarrow>
               if 200 \<le> resp_status r \<and> resp_status r \<le> 299 then Ok data
               else (case map_of (rev data) ''error'' of
                       Some (JStr m) \<Rightarrow> if m \<noteq> [] then Thrown m
                                       else Thrown (''HTTP error! status: '' @ nat_str (nat (resp_status r)))
                     | _ \<Rightarrow> Thrown (''HTTP error! status: '' @ nat_str (nat (resp_status r))))))"

text \<open>The service's methods: endpoint and options of each.\<close>

datatype api_call =
    Get_sensors | Get_status | Get_mode | Set_mode_call mode
  | Start_pump_call "int option" | Stop_pump_call | Health_check

fun call_request :: "api_call \<Rightarrow> string \<times> req_options" where
  "call_request Get_sensors = (''/sensors'', \<lparr>req_method = GET, req_headers = None, req_body = None\<rparr>)"
| "call_request Get_status = (''/status'', \<lparr>req_method = GET, req_headers = None, req_body = None\<rparr>)"
| "call_request Get_mode = (''/mode'', \<lparr>req_method = GET, req_headers = None, req_body = None\<rparr>)"
| "call_request (Set_mode_call m) = (''/mode'', \<lparr>req_method = POST, req_headers = None,
     req_body = Some [(''mode'', JStr (mode_name m))]\<rparr>)"
| "call_request (Start_pump_call d) = (''/pump/start'', \<lparr>req_method = POST, req_headers = None,
     req_body = Some (case d of None \<Rightarrow> [] | Some n \<Rightarrow> [(''duration'', JNum n)])\<rparr>)"
| "call_request Stop_pump_call = (''/pump/stop'', \<lparr>req_method = POST, req_headers = None, req_body = None\<rparr>)"
| "call_request Health_check = (''/health'', \<lparr>req_method = GET, req_headers = None, req_body = None\<rparr>)"

text \<open>The full URL \<open>`${API_BASE}${endpoint}`\<close>.\<close>

definition request_url :: "api_call \<Rightarrow> string" where
  "request_url c = api_base @ fst (call_request c)"

text \<open>
  The backend's route for a call, run at time \<open>now\<close>: the request body the backend
  reads (\<open>req.body.mode\<close>, \<open>req.body.duration\<close>) comes from the service's body.
\<close>

definition serve :: "api_call \<Rightarrow> timestamp \<Rightarrow> world \<Rightarrow> http_response \<times> world" where
  "serve c now w =
     (case c of
        Set_mode_call m \<Rightarrow>
          (let r = api_set_mode (Some (JStr (mode_name m))) now w in (set_mode_response r, http_result r w))
      | Start_pump_call d \<Rightarrow>
          (let r = api_pump_start d now w in (pump_start_response r, http_result r w))
      | Stop_pump_call \<Rightarrow>
          (let r = api_pump_stop now w in (pump_stop_response r, http_result r w))
      | Get_status \<Rightarrow> (\<lparr>resp_status = 200, resp_body = Some (status_json (api_status now w))\<rparr>, w)
      | Get_sensors \<Rightarrow> (\<lparr>resp_status = 200, resp_body = Some (sensor_json (api_sensors w))\<rparr>, w)
      | Get_mode \<Rightarrow> (\<lparr>resp_status = 200, resp_body = Some [(''mode'', JStr (mode_name (api_mode w)))]\<rparr>, w)
      | Health_check \<Rightarrow> (\<lparr>resp_status = 200, resp_body = Some
          [(''status'', JStr ''ok''), (''message'', JStr ''Smart Watering Backend is running'')]\<rparr>, w))"

subsection \<open>Lemmas\<close>

lemma error_message_nonempty: "error_message e \<noteq> []"
  by (cases e) simp_all

lemma request_outcome_error_response [simp]:
  "request_outcome (Fetched (error_response e)) = Thrown (error_message e)"
  using error_message_nonempty [of e]
  by (cases e) (simp_all add: request_outcome_def)

lemma request_outcome_ok [simp]:
  "200 \<le> s \<Longrightarrow> s \<le> 299 \<Longrightarrow> request_outcome (Fetched \<lparr>resp_status = s, resp_body = Some data\<rparr>) = Ok data"
  by (simp add: request_outcome_def)

lemmas response_defs = set_mode_response_def pump_start_response_def pump_stop_response_def

text \<open>
  C23: the dashboard's request for any call throws exactly the backend's rejection:
  whenever \<open>request\<close> throws on the backend's answer, the message is one of the four
  error texts and the backend's state is unchanged; an accepted call never throws.
\<close>

theorem serve_thrown_iff_rejected:
  "request_outcome (Fetched (fst (serve c now w))) = Thrown m \<longleftrightarrow>
   (\<exists>e. m = error_message e \<and>
        (case c of
           Set_mode_call md \<Rightarrow> api_set_mode (Some (JStr (mode_name md))) now w = Inl e
         | Start_pump_call d \<Rightarrow> api_pump_start d now w = Inl e
         | Stop_pump_call \<Rightarrow> api_pump_stop now w = Inl e
         | _ \<Rightarrow> False))"
  by (cases c)
     (auto simp: serve_def response_defs Let_def split: sum.splits)

end
