(* ===== verification/Ws_Client.thy ===== *)
theory Ws_Client
  imports Prelude
begin

text \<open>
  The dashboard's side of the Broadcast Hub (frontend/src/services/websocketService.js):
  the singleton \<open>WebSocketService\<close> with its Socket.IO socket and its listener registry.
  \<open>on\<close> and \<open>off\<close> edit the registry, \<open>emit\<close> calls every listener of an event in
  registration order and catches each listener's exception, and \<open>connect\<close> opens a
  socket unless the current one is connected. Listeners are identified by a number (the
  callback's identity, which \<open>off\<close> compares with \<open>!==\<close>); what a listener does is a
  parameter \<open>call\<close>, a function from the payload and a client state to an error
  (\<open>Inl\<close>, the thrown exception) or the new client state.
\<close>

type_synonym listener = nat

text \<open>A Socket.IO client socket: whether its handshake completed.\<close>

record ws_socket =
  ws_connected :: bool

text \<open>
  \<open>socket\<close> is \<open>this.socket\<close>; \<open>orphans\<close> are sockets the service created earlier
  and no longer references (they keep their handlers and their automatic reconnection);
  \<open>requests\<close> are the messages sent to the server.
\<close>

text \<open>The server the socket connects to, \<open>import.meta.env.VITE_BACKEND_URL || ...\<close>.\<close>

definition backend_url :: "string option \<Rightarrow> string" where
  "backend_url env = env_or env ''http://localhost:3001''"

record ws_service =
  socket :: "ws_socket option"
  orphans :: "ws_socket list"
  listeners :: "string \<Rightarrow> listener list option"
  requests :: "string list"

text \<open>The constructor: the five known events start with no listener.\<close>

definition ws_init :: ws_service where
  "ws_init =
     \<lparr>socket = None, orphans = [],
      listeners = Map.empty(''sensor_update'' \<mapsto> [], ''status_update'' \<mapsto> [],
                            ''mode_update'' \<mapsto> [], ''connect'' \<mapsto> [], ''disconnect'' \<mapsto> []),
      requests = []\<rparr>"

definition ws_is_connected :: "ws_service \<Rightarrow> bool" where
  "ws_is_connected s = (case socket s of None \<Rightarrow> False | Some k \<Rightarrow> ws_connected k)"

text \<open>
  \<open>connect()\<close>: a no-op when the current socket is connected; otherwise a new socket
  (not yet connected) replaces \<open>this.socket\<close>, and a previous one is left alive.
\<close>

definition ws_connect :: "ws_service \<Rightarrow> ws_service" where
  "ws_connect s =
     (if ws_is_connected s then s
      else s\<lparr>socket := Some \<lparr>ws_connected = False\<rparr>,
             orphans := (case socket s of None \<Rightarrow> orphans s | Some k \<Rightarrow> k # orphans s)\<rparr>)"

text \<open>\<open>disconnect()\<close>: close the current socket and drop the reference.\<close>

definition ws_disconnect :: "ws_service \<Rightarrow> ws_service" where
  "ws_disconnect s = (case socket s of None \<Rightarrow> s | Some _ \<Rightarrow> s\<lparr>socket := None\<rparr>)"

text \<open>\<open>on(event, callback)\<close>: only events with a listener array are accepted.\<close>

definition ws_on :: "string \<Rightarrow> listener \<Rightarrow> ws_service \<Rightarrow> ws_service" where
  "ws_on ev cb s =
     (case listeners s ev of
        None \<Rightarrow> s
      | Some cbs \<Rightarrow> s\<lparr>listeners := (listeners s)(ev \<mapsto> cbs @ [cb])\<rparr>)"

text \<open>\<open>off(event, callback)\<close>: remove every registration of the callback.\<close>

definition ws_off :: "string \<Rightarrow> listener \<Rightarrow> ws_service \<Rightarrow> ws_service" where
  "ws_off ev cb s =
     (case listeners s ev of
        None \<Rightarrow> s
      | Some cbs \<Rightarrow> s\<lparr>listeners := (listeners s)(ev \<mapsto> filter (\<lambda>c. c \<noteq> cb) cbs)\<rparr>)"

text \<open>
  The \<open>forEach\<close> loop of \<open>emit\<close>: each listener runs on the state the previous ones
  left; a throwing listener is logged (its message collected) and the loop goes on.
\<close>

fun run_listeners ::
  "(listener \<Rightarrow> 'd \<Rightarrow> 's \<Rightarrow> string + 's) \<Rightarrow> listener list \<Rightarrow> 'd \<Rightarrow> 's \<Rightarrow> 's \<times> string list" where
  "run_listeners call [] d st = (st, [])"
| "run_listeners call (cb # cbs) d st =
     (case call cb d st of
        Inl err \<Rightarrow> (let (st', errs) = run_listeners call cbs d st in (st', err # errs))
      | Inr st1 \<Rightarrow> run_listeners call cbs d st1)"

definition ws_emit ::
  "(listener \<Rightarrow> 'd \<Rightarrow> 's \<Rightarrow> string + 's) \<Rightarrow> string \<Rightarrow> 'd \<Rightarrow> ws_service \<Rightarrow> 's \<Rightarrow> 's \<times> string list" where
  "ws_emit call ev d s st =
     (case listeners s ev of None \<Rightarrow> (st, []) | Some cbs \<Rightarrow> run_listeners call cbs d st)"

text \<open>\<open>requestSensors()\<close> and \<open>requestStatus()\<close>: sent only over a connected socket.\<close>

definition ws_request :: "string \<Rightarrow> ws_service \<Rightarrow> ws_service" where
  "ws_request msg s = (if ws_is_connected s then s\<lparr>requests := requests s @ [msg]\<rparr> else s)"

definition ws_request_sensors :: "ws_service \<Rightarrow> ws_service" where
  "ws_request_sensors = ws_request ''get_sensors''"

definition ws_request_status :: "ws_service \<Rightarrow> ws_service" where
  "ws_request_status = ws_request ''get_status''"

text \<open>The socket's \<open>'connect'\<close> handshake and its \<open>'disconnect'\<close> event.\<close>

definition ws_handshake :: "ws_service \<Rightarrow> ws_service" where
  "ws_handshake s = s\<lparr>socket := map_option (\<lambda>k. k\<lparr>ws_connected := True\<rparr>) (socket s)\<rparr>"

definition ws_lost :: "ws_service \<Rightarrow> ws_service" where
  "ws_lost s = s\<lparr>socket := map_option (\<lambda>k. k\<lparr>ws_connected := False\<rparr>) (socket s)\<rparr>"

text \<open>What the \<open>forEach\<close> leaves: the successful listeners applied in order.\<close>

definition apply_ok :: "(listener \<Rightarrow> 'd \<Rightarrow> 's \<Rightarrow> string + 's) \<Rightarrow> 'd \<Rightarrow> listener \<Rightarrow> 's \<Rightarrow> 's" where
  "apply_ok call d cb st = (case call cb d st of Inl _ \<Rightarrow> st | Inr st' \<Rightarrow> st')"

text \<open>
  The registry as a function: what \<open>on\<close> and \<open>off\<close> do to it, one pair
  (event, callback) at a time.
\<close>

definition reg_on :: "string \<times> listener \<Rightarrow> (string \<Rightarrow> listener list option) \<Rightarrow> (string \<Rightarrow> listener list option)" where
  "reg_on x l = (case x of (ev, cb) \<Rightarrow> l(ev := map_option (\<lambda>cbs. cbs @ [cb]) (l ev)))"
definition reg_off :: "string \<times> listener \<Rightarrow> (string \<Rightarrow> listener list option) \<Rightarrow> (string \<Rightarrow> listener list option)" where
  "reg_off x l = (case x of (ev, cb) \<Rightarrow> l(ev := map_option (filter (\<lambda>c. c \<noteq> cb)) (l ev)))"
subsection \<open>Lemmas\<close>

lemma run_listeners_fold:
  "fst (run_listeners call cbs d st) = fold (apply_ok call d) cbs st"
  by (induction cbs arbitrary: st)
     (auto simp: apply_ok_def split_def split: sum.splits)

lemma filter_neq_append_self:
  "cb \<notin> set cbs \<Longrightarrow> filter (\<lambda>c. c \<noteq> cb) (cbs @ [cb]) = cbs"
  by (induction cbs) auto

lemma reg_on_at: "reg_on (e, c) l ev = (if ev = e then map_option (\<lambda>cbs. cbs @ [c]) (l e) else l ev)"
  by (simp add: reg_on_def)

lemma reg_off_at: "reg_off (e, c) l ev = (if ev = e then map_option (filter (\<lambda>x. x \<noteq> c)) (l e) else l ev)"
  by (simp add: reg_off_def)

lemma listeners_fold_on:
  "listeners (fold (\<lambda>(ev, cb). ws_on ev cb) xs s) = fold reg_on xs (listeners s)"
  by (induction xs arbitrary: s) (auto simp: ws_on_def reg_on_def fun_upd_idem split: option.splits)
lemma listeners_fold_off:
  "listeners (fold (\<lambda>(ev, cb). ws_off ev cb) xs s) = fold reg_off xs (listeners s)"
  by (induction xs arbitrary: s) (auto simp: ws_off_def reg_off_def fun_upd_idem split: option.splits)
lemma socket_fold_on: "socket (fold (\<lambda>(ev, cb). ws_on ev cb) xs s) = socket s"
  by (induction xs arbitrary: s) (auto simp: ws_on_def split: option.splits)
lemma fold_reg_on_at:
  "distinct (map fst xs) \<Longrightarrow>
   fold reg_on xs l ev = (case map_of xs ev of None \<Rightarrow> l ev | Some cb \<Rightarrow> map_option (\<lambda>cbs. cbs @ [cb]) (l ev))"
proof (induction xs arbitrary: l)
  case Nil then show ?case by simp
next
  case (Cons x xs)
  obtain e c where x: "x = (e, c)" by fastforce
  with Cons.prems have d: "distinct (map fst xs)" and e: "map_of xs e = None"
    by (auto simp: map_of_eq_None_iff)
  have "fold reg_on (x # xs) l ev = fold reg_on xs (reg_on (e, c) l) ev" by (simp add: x)
  also have "\<dots> = (case map_of xs ev of None \<Rightarrow> reg_on (e, c) l ev | Some cb \<Rightarrow> map_option (\<lambda>cbs. cbs @ [cb]) (reg_on (e, c) l ev))"
    by (rule Cons.IH [OF d])
  also have "\<dots> = (case map_of (x # xs) ev of None \<Rightarrow> l ev | Some cb \<Rightarrow> map_option (\<lambda>cbs. cbs @ [cb]) (l ev))"
    using e by (cases "ev = e") (simp_all add: x reg_on_at split: option.split)
  finally show ?case .
qed

lemma fold_reg_off_at:
  "distinct (map fst xs) \<Longrightarrow>
   fold reg_off xs l ev = (case map_of xs ev of None \<Rightarrow> l ev | Some cb \<Rightarrow> map_option (filter (\<lambda>c. c \<noteq> cb)) (l ev))"
proof (induction xs arbitrary: l)
  case Nil then show ?case by simp
next
  case (Cons x xs)
  obtain e c where x: "x = (e, c)" by fastforce
  with Cons.prems have d: "distinct (map fst xs)" and e: "map_of xs e = None"
    by (auto simp: map_of_eq_None_iff)
  have "fold reg_off (x # xs) l ev = fold reg_off xs (reg_off (e, c) l) ev" by (simp add: x)
  also have "\<dots> = (case map_of xs ev of None \<Rightarrow> reg_off (e, c) l ev | Some cb \<Rightarrow> map_option (filter (\<lambda>c. c \<noteq> cb)) (reg_off (e, c) l ev))"
    by (rule Cons.IH [OF d])
  also have "\<dots> = (case map_of (x # xs) ev of None \<Rightarrow> l ev | Some cb \<Rightarrow> map_option (filter (\<lambda>c. c \<noteq> cb)) (l ev))"
    using e by (cases "ev = e") (simp_all add: x reg_off_at split: option.split)
  finally show ?case .
qed

lemma reg_off_on:
  assumes "distinct (map fst xs)" and "\<And>ev cb cbs. map_of xs ev = Some cb \<Longrightarrow> l ev = Some cbs \<Longrightarrow> cb \<notin> set cbs"
  shows "fold reg_off xs (fold reg_on xs l) = l"
proof
  fix ev
  show "fold reg_off xs (fold reg_on xs l) ev = l ev"
  proof (cases "map_of xs ev")
    case None
    then show ?thesis using assms(1) by (simp add: fold_reg_off_at fold_reg_on_at)
  next
    case (Some cb)
    show ?thesis
    proof (cases "l ev")
      case None
      then show ?thesis using Some assms(1) by (simp add: fold_reg_off_at fold_reg_on_at)
    next
      case Some': (Some cbs)
      have "cb \<notin> set cbs" using assms(2) [OF Some Some'] .
      then show ?thesis using Some Some' assms(1)
        by (simp add: fold_reg_off_at fold_reg_on_at filter_neq_append_self del: filter_append)
    qed
  qed
qed

text \<open>
  C20: registering a callback that is not yet registered for a known event appends it
  to that event's listeners, and removing it again gives back the service exactly as
  it was.
\<close>

theorem ws_on_off_roundtrip:
  assumes "listeners s ev = Some cbs" and "cb \<notin> set cbs"
  shows "listeners (ws_on ev cb s) ev = Some (cbs @ [cb]) \<and> ws_off ev cb (ws_on ev cb s) = s"
proof -
  have "filter (\<lambda>c. c \<noteq> cb) (cbs @ [cb]) = cbs"
    using assms(2) by (rule filter_neq_append_self)
  moreover have "(listeners s)(ev \<mapsto> cbs) = listeners s"
    using assms(1) by (rule fun_upd_idem)
  ultimately show ?thesis
    using assms(1) by (simp add: ws_on_def ws_off_def del: filter_append)
qed

theorem ws_on_off_roundtrip_witness:
  "listeners (ws_on ''connect'' 7 ws_init) ''connect'' = Some [7] \<and>
   ws_off ''connect'' 7 (ws_on ''connect'' 7 ws_init) = ws_init"
  using ws_on_off_roundtrip [of ws_init "''connect''" "[]" 7] by (simp add: ws_init_def)

text \<open>
  C21: \<open>emit\<close> delivers to every listener of the event: the client state it leaves is
  that of applying, in registration order, every listener that did not throw; a
  throwing listener stops neither the others nor the caller.
\<close>

theorem ws_emit_isolation:
  assumes "listeners s ev = Some cbs"
  shows "fst (ws_emit call ev d s st) = fold (apply_ok call d) cbs st"
  using assms by (simp add: ws_emit_def run_listeners_fold)

theorem ws_emit_isolation_witness:
  "fst (ws_emit (\<lambda>cb (d::int) (st::int list). if cb = 1 then Inl ''boom'' else Inr (st @ [d + int cb]))
          ''status_update'' 5 (ws_on ''status_update'' 2 (ws_on ''status_update'' 1 ws_init)) []) = [7]"
  using ws_emit_isolation [of "ws_on ''status_update'' 2 (ws_on ''status_update'' 1 ws_init)"
          "''status_update''" "[1, 2]"
          "\<lambda>cb (d::int) (st::int list). if cb = 1 then Inl ''boom'' else Inr (st @ [d + int cb])" 5 "[]"]
  by (simp add: ws_init_def ws_on_def apply_ok_def)

text \<open>
  C22: \<open>connect()\<close> guards on the socket being connected, not on its existence: on a
  service whose socket is not yet connected, a second call before the first handshake
  completes opens a fresh socket and leaves the first one alive but unreferenced.
\<close>

theorem ws_connect_twice_orphans:
  assumes "\<not> ws_is_connected s"
  shows "socket (ws_connect (ws_connect s)) = Some \<lparr>ws_connected = False\<rparr> \<and>
         orphans (ws_connect (ws_connect s)) =
           \<lparr>ws_connected = False\<rparr> # (case socket s of None \<Rightarrow> orphans s | Some k \<Rightarrow> k # orphans s)"
  using assms by (simp add: ws_connect_def ws_is_connected_def)

theorem ws_connect_twice_orphans_witness:
  "socket (ws_connect (ws_connect ws_init)) = Some \<lparr>ws_connected = False\<rparr> \<and>
   orphans (ws_connect (ws_connect ws_init)) = [\<lparr>ws_connected = False\<rparr>]"
  using ws_connect_twice_orphans [of ws_init] by (simp add: ws_is_connected_def ws_init_def)

end
