(* ===== verification/Display.thy ===== *)
theory Display
  imports Prelude
begin

text \<open>
  The dashboard's time texts: \<open>formatMs\<close> of SmartWateringDashboard.jsx and its copy in
  Confirmstop.jsx (remaining watering time), and \<open>formatElapsed\<close> of LastWatered.jsx
  (time since the last watering), with the state of the LastWatered card itself.
  Times are integer milliseconds, so
  \<open>Math.ceil(ms / 1000)\<close> is \<open>(ms + 999) div 1000\<close> and \<open>Math.floor\<close> is \<open>div\<close>.
  A reader of the printed text, \<open>read_duration\<close>, belongs to the verification only: it
  states what a user reads off the screen.
\<close>

definition format_ms :: "int \<Rightarrow> string" where
  "format_ms ms =
     (if ms \<le> 0 then ''0s''
      else let s = (ms + 999) div 1000
           in if s < 60 then nat_str (nat s) @ ''s''
              else nat_str (nat (s div 60)) @ ''m '' @ nat_str (nat (s mod 60)) @ ''s'')"

text \<open>The copy in Confirmstop.jsx, translated on its own.\<close>

definition format_ms_confirm :: "int \<Rightarrow> string" where
  "format_ms_confirm ms =
     (if ms \<le> 0 then ''0s''
      else let s = (ms + 999) div 1000
           in if s < 60 then nat_str (nat s) @ ''s''
              else nat_str (nat (s div 60)) @ ''m '' @ nat_str (nat (s mod 60)) @ ''s'')"

text \<open>
  \<open>formatElapsed(ts)\<close>: \<open>Locale_date\<close> stands for \<open>toLocaleString()\<close>, whose text
  depends on the browser's locale.
\<close>

datatype elapsed_text = Text string | Locale_date int

definition format_elapsed :: "int option \<Rightarrow> int \<Rightarrow> elapsed_text" where
  "format_elapsed ts now =
     (case ts of
        None \<Rightarrow> Text ''Never''
      | Some t \<Rightarrow>
          if t = 0 then Text ''Never''
          else let sec = (now - t) div 1000 in
            if sec < 5 then Text ''Just now''
            else if sec < 60 then Text (nat_str (nat sec) @ ''s ago'')
            else if sec < 3600 then Text (nat_str (nat (sec div 60)) @ ''m ago'')
            else if sec < 86400 then
              (let h = sec div 3600; m = (sec mod 3600) div 60
               in if m = 0 then Text (nat_str (nat h) @ ''h ago'')
                  else Text (nat_str (nat h) @ ''h '' @ nat_str (nat m) @ ''m ago''))
            else Locale_date t)"

subsection \<open>The last-watered card\<close>

text \<open>
  \<open>LastWatered\<close>: the timestamp shown (\<open>ts\<close>) and the one stored under
  \<open>smart-watering-lastWatered\<close>. The stored text is written by \<open>now.toString()\<close> and
  read by \<open>parseInt(v, 10)\<close>, which gives the number back, so the model stores the
  number. Every write is followed by the \<open>lastWateredUpdated\<close> event, whose listener
  re-reads the stored value into \<open>ts\<close>.
\<close>

record last_watered =
  lw_ts :: "int option"
  lw_stored :: "int option"

text \<open>Mount: the prop when truthy, otherwise the stored value.\<close>

definition lw_mount :: "int option \<Rightarrow> int option \<Rightarrow> last_watered" where
  "lw_mount prop stored =
     \<lparr>lw_ts = (case prop of Some t \<Rightarrow> if t \<noteq> 0 then Some t else stored | None \<Rightarrow> stored),
      lw_stored = stored\<rparr>"

text \<open>The effect on \<open>[lastWateredTimestamp]\<close>: a truthy new prop replaces \<open>ts\<close>.\<close>

definition lw_prop_changed :: "int option \<Rightarrow> last_watered \<Rightarrow> last_watered" where
  "lw_prop_changed prop l = (case prop of Some t \<Rightarrow> if t \<noteq> 0 then l\<lparr>lw_ts := Some t\<rparr> else l | None \<Rightarrow> l)"

text \<open>"Mark now" and "Clear", each followed by the re-read of the stored value.\<close>

definition lw_mark_now :: "int \<Rightarrow> last_watered \<Rightarrow> last_watered" where
  "lw_mark_now now l = l\<lparr>lw_stored := Some now, lw_ts := Some now\<rparr>"

definition lw_clear :: "last_watered \<Rightarrow> last_watered" where
  "lw_clear l = l\<lparr>lw_stored := None, lw_ts := None\<rparr>"

text \<open>The text shown: \<open>ts ? formatElapsed(ts) : "Never"\<close>, at the time of the last tick.\<close>

definition lw_text :: "int \<Rightarrow> last_watered \<Rightarrow> elapsed_text" where
  "lw_text now l =
     (case lw_ts l of Some t \<Rightarrow> if t \<noteq> 0 then format_elapsed (Some t) now else Text ''Never''
      | None \<Rightarrow> Text ''Never'')"

subsection \<open>Reading the text back\<close>

definition is_digit :: "char \<Rightarrow> bool" where
  "is_digit c = (c \<in> set ''0123456789'')"

definition digit_val :: "char \<Rightarrow> nat" where
  "digit_val c = of_char c - 48"

definition digit_step :: "char \<Rightarrow> nat \<Rightarrow> nat" where
  "digit_step c acc = 10 * acc + digit_val c"

fun read_digits :: "string \<Rightarrow> nat \<Rightarrow> nat \<times> string" where
  "read_digits [] acc = (acc, [])"
| "read_digits (c # cs) acc = (if is_digit c then read_digits cs (digit_step c acc) else (acc, c # cs))"

definition read_duration :: "string \<Rightarrow> nat option" where
  "read_duration txt =
     (case read_digits txt 0 of
        (a, r) \<Rightarrow>
          if r = ''s'' then Some a
          else if take 2 r = ''m '' then
            (case read_digits (drop 2 r) 0 of (b, r2) \<Rightarrow> if r2 = ''s'' then Some (60 * a + b) else None)
          else None)"

subsection \<open>Lemmas\<close>

lemma less_10_cases:
  "(d::nat) < 10 \<Longrightarrow> d = 0 \<or> d = 1 \<or> d = 2 \<or> d = 3 \<or> d = 4 \<or> d = 5 \<or> d = 6 \<or> d = 7 \<or> d = 8 \<or> d = 9"
  by arith

lemma digit_val_char: "d < 10 \<Longrightarrow> digit_val (digit_char d) = d"
  by (drule less_10_cases) (auto simp: digit_val_def digit_char_def)

lemma is_digit_char: "d < 10 \<Longrightarrow> is_digit (digit_char d)"
  by (drule less_10_cases) (auto simp: is_digit_def digit_char_def)

lemma nat_str_digits: "\<forall>c \<in> set (nat_str n). is_digit c"
proof (induction n rule: nat_str.induct)
  case (1 n)
  show ?case
    using "1.IH" by (cases "n < 10") (simp_all add: nat_str.simps [of n] is_digit_char)
qed

lemma fold_digit_step_nat_str:
  "fold digit_step (nat_str n) acc = acc * 10 ^ length (nat_str n) + n"
proof (induction n arbitrary: acc rule: nat_str.induct)
  case (1 n)
  show ?case
  proof (cases "n < 10")
    case True
    then show ?thesis by (simp add: nat_str.simps digit_step_def digit_val_char)
  next
    case False
    then have "fold digit_step (nat_str n) acc =
        digit_step (digit_char (n mod 10)) (fold digit_step (nat_str (n div 10)) acc)"
      by (simp add: nat_str.simps [of n])
    also have "\<dots> = 10 * (acc * 10 ^ length (nat_str (n div 10)) + n div 10) + n mod 10"
    proof -
      have "fold digit_step (nat_str (n div 10)) acc = acc * 10 ^ length (nat_str (n div 10)) + n div 10"
        using "1.IH" False by simp
      then show ?thesis by (simp add: digit_step_def digit_val_char)
    qed
    also have "\<dots> = acc * 10 ^ length (nat_str n) + n"
      using False by (simp add: nat_str.simps [of n] algebra_simps)
    finally show ?thesis .
  qed
qed

lemma read_digits_append:
  "\<forall>c \<in> set ds. is_digit c \<Longrightarrow> read_digits (ds @ rest) acc = read_digits rest (fold digit_step ds acc)"
  by (induction ds arbitrary: acc) auto

lemma read_digits_stop: "(rest = [] \<or> \<not> is_digit (hd rest)) \<Longrightarrow> read_digits rest acc = (acc, rest)"
  by (cases rest) auto

lemma read_nat_str:
  assumes "rest = [] \<or> \<not> is_digit (hd rest)"
  shows "read_digits (nat_str n @ rest) 0 = (n, rest)"
  using assms nat_str_digits [of n]
  by (simp add: read_digits_append fold_digit_step_nat_str read_digits_stop)

lemma not_digit_s: "\<not> is_digit (CHR ''s'')" and not_digit_m: "\<not> is_digit (CHR ''m'')"
  by (simp_all add: is_digit_def)

text \<open>
  C24: the remaining-time text of the dashboard reads back as the remaining time in
  whole seconds rounded up: \<open>"Ns"\<close> below a minute, \<open>"Mm Ss"\<close> with
  \<open>60 M + S\<close> seconds above, \<open>"0s"\<close> for no time left.
\<close>

theorem format_ms_roundtrip:
  "read_duration (format_ms ms) = Some (if ms \<le> 0 then 0 else nat ((ms + 999) div 1000))"
proof (cases "ms \<le> 0")
  case True
  then show ?thesis
    by (simp add: format_ms_def read_duration_def is_digit_def digit_step_def digit_val_def)
next
  case False
  define s where "s = (ms + 999) div 1000"
  have s0: "0 \<le> s" using False by (simp add: s_def)
  show ?thesis
  proof (cases "s < 60")
    case True
    have "read_digits (nat_str (nat s) @ ''s'') 0 = (nat s, ''s'')"
      by (rule read_nat_str) (simp add: not_digit_s)
    with True False show ?thesis
      by (simp add: format_ms_def read_duration_def s_def [symmetric])
  next
    case ge: False
    have r1: "read_digits (nat_str (nat (s div 60)) @ ''m '' @ nat_str (nat (s mod 60)) @ ''s'') 0 =
        (nat (s div 60), ''m '' @ nat_str (nat (s mod 60)) @ ''s'')"
      by (rule read_nat_str) (simp add: not_digit_m)
    have r2: "read_digits (nat_str (nat (s mod 60)) @ ''s'') 0 = (nat (s mod 60), ''s'')"
      by (rule read_nat_str) (simp add: not_digit_s)
    have "60 * nat (s div 60) + nat (s mod 60) = nat s"
    proof -
      have a: "0 \<le> s div 60" "0 \<le> s mod 60" using s0 by simp_all
      have "int (60 * nat (s div 60) + nat (s mod 60)) = s" using a by simp
      then show ?thesis by (metis nat_int)
    qed
    with ge False r1 r2 show ?thesis
      by (simp add: format_ms_def read_duration_def s_def [symmetric] Let_def)
  qed
qed

end
