(* ===== verification/Dashboard.thy ===== *)
theory Dashboard
  imports Complex_Main Api_Client Ws_Client Display
begin

text \<open>
  The dashboard page (frontend/src/pages/SmartWateringDashboard.jsx): its React state,
  its mount effect and cleanup, the listeners it registers with the websocket service,
  the initial fetch, the client-side automatic rule, the remaining-time ticker, and the
  start, stop-confirm and mode-toggle handlers. A handler that awaits an API call is split in two: the part up to
  the call, which records the call in \<open>d_calls\<close>, and the continuation, which takes the
  call's outcome. Payloads arrive as JSON member lists (\<open>Hub.status_json\<close>,
  \<open>Hub.sensor_json\<close>). Numbers the server sends are numbers, so a numeric field is read
  as an integer; a field that is absent or falsy takes the handler's default.
\<close>

subsection \<open>State\<close>

record dash_sensors =
  ds_temp :: "jval option"
  ds_hum :: "jval option"
  ds_soil :: "jval option"
  ds_level :: "jval option"
  ds_flow :: "jval option"

record stop_confirm =
  sc_mode :: string
  sc_remaining :: int
  sc_sensors :: dash_sensors

text \<open>An entry of the watering history kept in \<open>localStorage\<close>.\<close>

record history_entry =
  h_timestamp :: timestamp
  h_mode :: string
  h_duration :: int
  h_liters :: rat
  h_sensors :: dash_sensors
  h_stopped_early :: bool

text \<open>
  The page's state hooks and refs (\<open>pumpStartRef\<close>, \<open>pumpDurationRef\<close>), the API
  calls it made, the history it wrote, the value of \<open>lastWatered\<close> and the messages
  it showed with \<open>alert\<close>.
\<close>

record dash_state =
  d_mode :: string
  d_pump_on :: bool
  d_last_watered :: "timestamp option"
  d_sensors :: dash_sensors
  d_remaining :: int
  d_pump_start :: "timestamp option"
  d_pump_duration :: int
  d_manual_duration :: int
  d_connected :: bool
  d_loading :: bool
  d_stop_confirm :: "stop_confirm option"
  d_stop_submitting :: bool
  d_calls :: "api_call list"
  d_history :: "history_entry list"
  d_alerts :: "string list"

definition init_dash :: "timestamp option \<Rightarrow> dash_state" where
  "init_dash stored =
     \<lparr>d_mode = ''automatic'', d_pump_on = False, d_last_watered = stored,
      d_sensors = \<lparr>ds_temp = Some (JNum 24), ds_hum = Some (JNum 66), ds_soil = Some (JNum 60),
                   ds_level = Some (JNum 56), ds_flow = Some (JNum 0)\<rparr>,
      d_remaining = 0, d_pump_start = None, d_pump_duration = 0, d_manual_duration = 10,
      d_connected = False, d_loading = True, d_stop_confirm = None, d_stop_submitting = False,
      d_calls = [], d_history = [], d_alerts = []\<rparr>"

subsection \<open>Reading JSON fields\<close>

text \<open>\<open>x || d\<close> for a numeric field.\<close>

definition num_or :: "jval option \<Rightarrow> int \<Rightarrow> int" where
  "num_or v d = (case v of Some (JNum n) \<Rightarrow> if n \<noteq> 0 then n else d | _ \<Rightarrow> d)"

text \<open>\<open>x || d\<close> for a string field.\<close>

definition str_or :: "jval option \<Rightarrow> string \<Rightarrow> string" where
  "str_or v d = (case v of Some (JStr s) \<Rightarrow> if s \<noteq> [] then s else d | _ \<Rightarrow> d)"

text \<open>
  A reading compared with a number (\<open>sensors.soil < 40\<close>): JavaScript converts it to a
  number; \<open>null\<close> is 0, booleans are 0 or 1, and objects, \<open>undefined\<close> and (taken here)
  strings are \<open>NaN\<close>, for which every comparison is false.
\<close>

definition js_number :: "jval option \<Rightarrow> int option" where
  "js_number v =
     (case v of
        Some (JNum n) \<Rightarrow> Some n
      | Some JNull \<Rightarrow> Some 0
      | Some (JBool b) \<Rightarrow> Some (if b then 1 else 0)
      | _ \<Rightarrow> None)"

definition js_less :: "jval option \<Rightarrow> int \<Rightarrow> bool" where
  "js_less v k = (case js_number v of Some n \<Rightarrow> n < k | None \<Rightarrow> False)"

definition js_greater :: "jval option \<Rightarrow> int \<Rightarrow> bool" where
  "js_greater v k = (case js_number v of Some n \<Rightarrow> k < n | None \<Rightarrow> False)"

subsection \<open>Listeners\<close>

text \<open>\<open>handleSensorUpdate\<close>: every reading \<open>data.x || 0\<close>.\<close>

definition handle_sensor_update :: "(string \<times> jval) list \<Rightarrow> dash_state \<Rightarrow> dash_state" where
  "handle_sensor_update data d =
     d\<lparr>d_sensors := \<lparr>ds_temp = js_or (field data ''temp'') (Some (JNum 0)),
                     ds_hum = js_or (field data ''hum'') (Some (JNum 0)),
                     ds_soil = js_or (field data ''soil'') (Some (JNum 0)),
                     ds_level = js_or (field data ''level'') (Some (JNum 0)),
                     ds_flow = js_or (field data ''flow'') (Some (JNum 0))\<rparr>\<rparr>"

text \<open>\<open>handleStatusUpdate\<close>.\<close>

definition handle_status_update :: "(string \<times> jval) list \<Rightarrow> dash_state \<Rightarrow> dash_state" where
  "handle_status_update data d =
     (let start = field data ''pumpStartTime'';
          d1 = d\<lparr>d_pump_on := js_truthy (field data ''pumpOn''),
                 d_mode := str_or (field data ''mode'') (d_mode d),
                 d_remaining := num_or (field data ''remainingTime'') 0\<rparr>
      in if js_truthy start
         then d1\<lparr>d_pump_start := Some (num_or start 0),
                 d_pump_duration := num_or (field data ''pumpDuration'') 0\<rparr>
         else d1\<lparr>d_pump_start := None, d_pump_duration := 0\<rparr>)"

text \<open>\<open>handleModeUpdate\<close>.\<close>

definition handle_mode_update :: "(string \<times> jval) list \<Rightarrow> dash_state \<Rightarrow> dash_state" where
  "handle_mode_update data d = d\<lparr>d_mode := str_or (field data ''mode'') ''automatic''\<rparr>"

text \<open>
  \<open>fetchInitialData\<close>'s continuation once both requests succeeded: the sensors, pump
  state, mode and remaining time are taken over, the start time only when present, and
  \<open>pumpDurationRef\<close> is not touched.
\<close>

definition initial_data_loaded ::
  "(string \<times> jval) list \<Rightarrow> (string \<times> jval) list \<Rightarrow> dash_state \<Rightarrow> dash_state" where
  "initial_data_loaded sensor_data status_data d =
     (let d1 = (handle_sensor_update sensor_data d)
                 \<lparr>d_pump_on := js_truthy (field status_data ''pumpOn''),
                  d_mode := str_or (field status_data ''mode'') ''automatic'',
                  d_remaining := num_or (field status_data ''remainingTime'') 0\<rparr>;
          start = field status_data ''pumpStartTime'';
          d2 = (if js_truthy start then d1\<lparr>d_pump_start := Some (num_or start 0)\<rparr> else d1)
      in d2\<lparr>d_loading := False\<rparr>)"

subsection \<open>Effects of the page\<close>

text \<open>
  The automatic rule (\<open>useEffect\<close> on \<open>[mode, soil, level, pumpOn]\<close>): it runs when
  one of these changed and then calls \<open>startPump(8)\<close> when the mode is automatic, the
  soil is below 40, the tank above 20 and the pump off.
\<close>

definition auto_rule_deps :: "dash_state \<Rightarrow> string \<times> jval option \<times> jval option \<times> bool" where
  "auto_rule_deps d = (d_mode d, ds_soil (d_sensors d), ds_level (d_sensors d), d_pump_on d)"

definition auto_start_due :: "dash_state \<Rightarrow> bool" where
  "auto_start_due d =
     (d_mode d = ''automatic'' \<and> js_less (ds_soil (d_sensors d)) 40 \<and>
      js_greater (ds_level (d_sensors d)) 20 \<and> \<not> d_pump_on d)"

definition auto_rule :: "dash_state \<Rightarrow> dash_state \<Rightarrow> dash_state" where
  "auto_rule before d =
     (if auto_rule_deps before \<noteq> auto_rule_deps d \<and> auto_start_due d
      then d\<lparr>d_calls := d_calls d @ [Start_pump_call (Some 8)]\<rparr> else d)"

text \<open>
  The 250 ms ticker, running while the pump is on with time left: the remaining time is
  recomputed from the refs when a start time is held.
\<close>

definition tick :: "timestamp \<Rightarrow> dash_state \<Rightarrow> dash_state" where
  "tick now d =
     (if d_pump_on d \<and> 0 < d_remaining d
      then (case d_pump_start d of
              Some t \<Rightarrow> if t \<noteq> 0 then d\<lparr>d_remaining := max 0 (d_pump_duration d - (now - t))\<rparr> else d
            | None \<Rightarrow> d)
      else d)"

subsection \<open>Handlers\<close>

text \<open>
  The Start button: disabled while loading, disconnected or in AI mode; manual mode
  starts for the selected duration, any other mode for 8 s (\<open>startPump\<close> returns at
  once when the page believes the pump is on).
\<close>

definition click_start :: "dash_state \<Rightarrow> dash_state" where
  "click_start d =
     (if d_loading d \<or> \<not> d_connected d \<or> d_mode d = ''ai'' \<or> d_pump_on d then d
      else let dur = (if d_mode d = ''manual'' then d_manual_duration d else 8)
           in d\<lparr>d_calls := d_calls d @ [Start_pump_call (Some dur)]\<rparr>)"

text \<open>
  The continuation of \<open>startPump\<close>: a failed call is reported with \<open>alert\<close>; a
  successful one changes nothing, the pump state arrives by broadcast.
\<close>

definition start_answered :: "api_outcome \<Rightarrow> dash_state \<Rightarrow> dash_state" where
  "start_answered out d =
     (case out of
        Thrown msg \<Rightarrow> d\<lparr>d_alerts := d_alerts d @ [''Failed to start pump: '' @ msg]\<rparr>
      | Ok _ \<Rightarrow> d)"

text \<open>\<open>requestStopPump\<close>: open the confirmation with the current remaining time.\<close>

definition request_stop :: "dash_state \<Rightarrow> dash_state" where
  "request_stop d =
     (if \<not> d_pump_on d then d
      else d\<lparr>d_stop_confirm := Some \<lparr>sc_mode = d_mode d, sc_remaining = d_remaining d,
                                      sc_sensors = d_sensors d\<rparr>\<rparr>)"

definition cancel_stop :: "dash_state \<Rightarrow> dash_state" where
  "cancel_stop d = (if d_stop_submitting d then d else d\<lparr>d_stop_confirm := None\<rparr>)"

text \<open>\<open>handleConfirmStop\<close> up to \<open>await apiService.stopPump()\<close> (\<open>force\<close> skips the pump check).\<close>

definition confirm_stop :: "dash_state \<Rightarrow> dash_state" where
  "confirm_stop d =
     (case d_stop_confirm d of
        None \<Rightarrow> d
      | Some _ \<Rightarrow> d\<lparr>d_stop_submitting := True, d_calls := d_calls d @ [Stop_pump_call]\<rparr>)"

text \<open>
  The continuation of \<open>stopPumpEarly\<close> and \<open>handleConfirmStop\<close>: on success a history
  entry with \<open>result.runTime || (now - start)\<close> and \<open>lastWatered := now\<close>, where
  \<open>start = pumpStartRef.current || now\<close> is read when the answer arrives; in every case
  a failure is reported with \<open>alert\<close>; in every case the submitting flag and the
  confirmation are cleared.
\<close>

definition stop_answered :: "api_outcome \<Rightarrow> timestamp \<Rightarrow> dash_state \<Rightarrow> dash_state" where
  "stop_answered out now d =
     (let mode_label = (case d_stop_confirm d of Some c \<Rightarrow> str_or (Some (JStr (sc_mode c))) ''manual''
                                               | None \<Rightarrow> ''manual'');
          d1 = (case out of
                  Thrown msg \<Rightarrow> d\<lparr>d_alerts := d_alerts d @ [''Failed to stop pump: '' @ msg]\<rparr>
                | Ok result \<Rightarrow>
                    (let start = (case d_pump_start d of Some t \<Rightarrow> if t \<noteq> 0 then t else now | None \<Rightarrow> now);
                         dur = num_or (field result ''runTime'') (now - start);
                         flow = num_or (ds_flow (d_sensors d)) 0
                     in d\<lparr>d_history := d_history d @
                            [\<lparr>h_timestamp = now, h_mode = mode_label, h_duration = dur,
                              h_liters = of_int (flow * dur) / 60000, h_sensors = d_sensors d,
                              h_stopped_early = True\<rparr>],
                          d_last_watered := Some now\<rparr>))
      in d1\<lparr>d_stop_submitting := False, d_stop_confirm := None\<rparr>)"

text \<open>
  \<open>handleModeToggle\<close>: the next of \<open>["manual", "automatic", "ai"]\<close> after the current
  one; an unknown current mode (\<open>indexOf\<close> gives \<open>-1\<close>) goes to \<open>"manual"\<close>.
\<close>

definition next_mode :: "string \<Rightarrow> mode" where
  "next_mode m =
     (if m = ''manual'' then Automatic else if m = ''automatic'' then AI else Manual)"

definition toggle_mode :: "dash_state \<Rightarrow> dash_state" where
  "toggle_mode d = d\<lparr>d_calls := d_calls d @ [Set_mode_call (next_mode (d_mode d))]\<rparr>"

text \<open>Its continuation: the new mode arrives by broadcast, a failure is an \<open>alert\<close>.\<close>

definition toggle_answered :: "api_outcome \<Rightarrow> dash_state \<Rightarrow> dash_state" where
  "toggle_answered out d =
     (case out of
        Thrown msg \<Rightarrow> d\<lparr>d_alerts := d_alerts d @ [''Failed to change mode: '' @ msg]\<rparr>
      | Ok _ \<Rightarrow> d)"

text \<open>The status line under "Watering status"; the em dash is its three UTF-8 bytes.\<close>

definition em_dash :: string where
  "em_dash = map char_of [226 :: nat, 128, 148]"

definition status_text :: "dash_state \<Rightarrow> string" where
  "status_text d =
     (if d_pump_on d then ''Watering '' @ em_dash @ '' remaining '' @ format_ms (d_remaining d) else ''Not watering'')"

text \<open>
  The \<open>onClear\<close> the page passes to the last-watered card: forget the time. Its
  \<open>localStorage.removeItem\<close> repeats the card's own (\<open>Display.lw_clear\<close>), and the
  page keeps no copy of the storage.
\<close>

definition clear_last_watered :: "dash_state \<Rightarrow> dash_state" where
  "clear_last_watered d = d\<lparr>d_last_watered := None\<rparr>"

subsection \<open>Mounting the page\<close>

text \<open>
  The mount effect: \<open>connect()\<close>, the five listeners of this mount (fresh callbacks
  \<open>k\<close> to \<open>k + 4\<close>) registered in order, \<open>handleConnect\<close> at once when the socket is
  already connected, and \<open>fetchInitialData\<close>, whose two GET calls are recorded; its
  continuation is \<open>initial_data_loaded\<close>, or \<open>initial_fetch_failed\<close> when a call
  throws. The cleanup removes the five listeners and leaves the socket open.
\<close>

definition dash_events :: "string list" where
  "dash_events = [''sensor_update'', ''status_update'', ''mode_update'', ''connect'', ''disconnect'']"

definition dash_listeners :: "nat \<Rightarrow> (string \<times> listener) list" where
  "dash_listeners k = zip dash_events [k, k + 1, k + 2, k + 3, k + 4]"

text \<open>\<open>handleConnect\<close>: the page's part, then the two requests on the socket.\<close>

definition connected_state :: "dash_state \<Rightarrow> dash_state" where
  "connected_state d = d\<lparr>d_connected := True, d_loading := False\<rparr>"

definition handle_connect :: "dash_state \<Rightarrow> ws_service \<Rightarrow> dash_state \<times> ws_service" where
  "handle_connect d ws = (connected_state d, ws_request_status (ws_request_sensors ws))"

definition handle_disconnect :: "dash_state \<Rightarrow> dash_state" where
  "handle_disconnect d = d\<lparr>d_connected := False\<rparr>"

definition initial_fetch_failed :: "dash_state \<Rightarrow> dash_state" where
  "initial_fetch_failed d = d\<lparr>d_loading := False\<rparr>"

definition dash_mount :: "nat \<Rightarrow> dash_state \<Rightarrow> ws_service \<Rightarrow> dash_state \<times> ws_service" where
  "dash_mount k d ws =
     (let ws1 = fold (\<lambda>(ev, cb). ws_on ev cb) (dash_listeners k) (ws_connect ws);
          (d1, ws2) = (if ws_is_connected ws1 then handle_connect d ws1 else (d, ws1))
      in (d1\<lparr>d_calls := d_calls d1 @ [Get_sensors, Get_status]\<rparr>, ws2))"

definition dash_unmount :: "nat \<Rightarrow> ws_service \<Rightarrow> ws_service" where
  "dash_unmount k ws = fold (\<lambda>(ev, cb). ws_off ev cb) (dash_listeners k) ws"

subsection \<open>Lemmas\<close>

lemma field_status_json [simp]:
  "map_of (rev (status_json st)) ''pumpOn'' = Some (JBool (st_pump_on st))"
  "map_of (rev (status_json st)) ''mode'' = Some (JStr (mode_name (st_mode st)))"
  "map_of (rev (status_json st)) ''pumpStartTime'' = Some (json_time (st_pump_start_time st))"
  "map_of (rev (status_json st)) ''pumpDuration'' = Some (JNum (st_pump_duration st))"
  "map_of (rev (status_json st)) ''remainingTime'' = Some (JNum (st_remaining st))"
  by (simp_all add: status_json_def)

lemma mode_name_nonempty [simp]: "mode_name m \<noteq> []"
  by (cases m) simp_all

lemma js_truthy_json_time [simp]:
  "js_truthy (Some (json_time t)) = (case t of None \<Rightarrow> False | Some n \<Rightarrow> n \<noteq> 0)"
  by (simp add: json_time_def split: option.splits)

lemma listeners_dash_mount:
  "listeners (snd (dash_mount k d ws)) = fold reg_on (dash_listeners k) (listeners ws)"
  by (simp add: dash_mount_def handle_connect_def ws_request_sensors_def ws_request_status_def
      ws_request_def ws_connect_def listeners_fold_on Let_def split: prod.split)

lemma dash_mount_unconnected:
  "\<not> ws_is_connected ws \<Longrightarrow> fst (dash_mount k d ws) = d\<lparr>d_calls := d_calls d @ [Get_sensors, Get_status]\<rparr>"
  by (simp add: dash_mount_def ws_is_connected_def ws_connect_def socket_fold_on Let_def)
text \<open>
  Mounting the page and then running its cleanup leaves the websocket service's listener
  registry exactly as it was, when the callbacks of this mount are fresh: the page leaks
  no listener.
\<close>

lemma dash_mount_unmount:
  assumes "\<forall>ev cbs. listeners ws ev = Some cbs \<longrightarrow> (\<forall>i < 5. k + i \<notin> set cbs)"
  shows "listeners (dash_unmount k (snd (dash_mount k d ws))) = listeners ws"
proof -
  have d: "distinct (map fst (dash_listeners k))"
    by (simp add: dash_listeners_def dash_events_def)
  have "map_of (dash_listeners k) ev = Some cb \<Longrightarrow> \<exists>i < 5. cb = k + i" for ev cb
    by (auto simp: dash_listeners_def dash_events_def split: if_splits)
  then have f: "map_of (dash_listeners k) ev = Some cb \<Longrightarrow> listeners ws ev = Some cbs \<Longrightarrow> cb \<notin> set cbs"
    for ev cb cbs using assms by blast
  show ?thesis
    using reg_off_on [OF d f]
    by (simp add: dash_unmount_def listeners_fold_off listeners_dash_mount)
qed

text \<open>
  C27: after a status broadcast the page's countdown agrees with the backend: the value
  the 250 ms ticker computes at any later instant is the backend's \<open>remainingTime\<close>
  then (contrast C26, where the initial fetch leaves \<open>pumpDurationRef\<close> unset).
\<close>

lemma broadcast_countdown_agrees:
  assumes "t0 \<le> now"
  shows "d_remaining (tick now (handle_status_update (status_json (status_of s t0)) d)) = remaining_time s now"
proof (cases "0 < remaining_time s t0")
  case True
  then obtain t where "pump_on s" and "pump_start_time s = Some t" and "t \<noteq> 0"
    by (auto simp: remaining_time_def split: option.splits if_splits)
  with True show ?thesis
    by (auto simp add: tick_def handle_status_update_def status_of_def num_or_def remaining_time_def json_time_def Let_def max_def)
next
  case False
  with remaining_time_nonneg [of s t0] have "remaining_time s t0 = 0" by simp
  with remaining_time_nonneg [of s now] remaining_time_mono [OF assms, of s]
  have "remaining_time s now = 0" by simp
  with \<open>remaining_time s t0 = 0\<close> show ?thesis
    by (simp add: tick_def handle_status_update_def status_of_def num_or_def json_time_def Let_def)
qed

theorem broadcast_countdown_agrees_witness:
  "d_remaining (tick 4000 (handle_status_update
      (status_json (status_of (sys (start_pump_internal 10 Manual_api 1000 (init_world 0))) 2000))
      (init_dash None))) = 7000"
proof -
  have "d_remaining (tick 4000 (handle_status_update
      (status_json (status_of (sys (start_pump_internal 10 Manual_api 1000 (init_world 0))) 2000))
      (init_dash None))) = remaining_time (sys (start_pump_internal 10 Manual_api 1000 (init_world 0))) 4000"
    by (rule broadcast_countdown_agrees) simp
  then show ?thesis by (simp add: remaining_time_def)
qed
text \<open>
  C25: the duration written to the history by an early stop depends on whether the
  backend's status broadcast (which clears \<open>pumpStartTime\<close>) reaches the page before
  the HTTP answer: the answer carries no \<open>runTime\<close>, so the page measures from
  \<open>pumpStartRef\<close>, which the broadcast has already reset, and records 0 ms.
\<close>

theorem stop_history_race:
  assumes "d_pump_start d = Some t0" and "t0 \<noteq> 0" and "now \<noteq> t0"
    and "st_pump_start_time st = None"
  shows "h_duration (last (d_history
           (stop_answered (request_outcome (Fetched (pump_stop_response (Inr w)))) now d))) = now - t0 \<and>
         h_duration (last (d_history
           (stop_answered (request_outcome (Fetched (pump_stop_response (Inr w)))) now
              (handle_status_update (status_json st) d)))) = 0"
  using assms
  by (simp add: stop_answered_def pump_stop_response_def handle_status_update_def num_or_def Let_def)

theorem stop_history_race_witness:
  "h_duration (last (d_history
     (stop_answered (request_outcome (Fetched (pump_stop_response (Inr (init_world 0))))) 5000
        (handle_status_update (status_json (status_of init_system_state 5000))
           ((init_dash None)\<lparr>d_pump_start := Some 1000\<rparr>))))) = 0"
  using stop_history_race [of "(init_dash None)\<lparr>d_pump_start := Some 1000\<rparr>" 1000 5000
          "status_of init_system_state 5000" "init_world 0"]
  by (simp add: status_of_def init_system_state_def)

text \<open>
  C26: the initial fetch does not set \<open>pumpDurationRef\<close>: on a page opened while the
  pump runs, before any status broadcast, the first tick of the countdown drops the
  remaining time to 0 although the backend reported time left.
\<close>

theorem initial_fetch_zeroes_countdown:
  assumes "st_pump_on st" and "st_pump_start_time st = Some t0" and "t0 \<noteq> 0"
    and "0 < st_remaining st" and "t0 \<le> now"
  shows "d_remaining (initial_data_loaded sj (status_json st) (init_dash stored)) = st_remaining st \<and>
         d_remaining (tick now (initial_data_loaded sj (status_json st) (init_dash stored))) = 0"
  using assms
  by (simp add: initial_data_loaded_def handle_sensor_update_def tick_def init_dash_def num_or_def json_time_def Let_def)

theorem initial_fetch_zeroes_countdown_witness:
  "d_remaining (tick 3000 (initial_data_loaded [] (status_json (status_of (sys (start_pump_internal 10 Manual_api 1000 (init_world 0))) 2000)) (init_dash None))) = 0"
  using initial_fetch_zeroes_countdown [of "status_of (sys (start_pump_internal 10 Manual_api 1000 (init_world 0))) 2000" 1000 3000 "[]" None]
  by (simp add: status_of_def remaining_time_def)

text \<open>
  C28: in automatic mode with dry soil and water in the tank, the status broadcast of a
  stop (for instance the backend's auto-stop) makes the page request a new 8 s start at
  once: the automatic cycle lives in the page, not in the backend.
\<close>

theorem auto_rule_restarts:
  assumes "d_pump_on d" and "st_mode st = Automatic" and "\<not> st_pump_on st"
    and "js_less (ds_soil (d_sensors d)) 40" and "js_greater (ds_level (d_sensors d)) 20"
  shows "last (d_calls (auto_rule d (handle_status_update (status_json st) d))) = Start_pump_call (Some 8)"
  using assms
  by (simp add: auto_rule_def auto_rule_deps_def auto_start_due_def handle_status_update_def str_or_def Let_def)

theorem auto_rule_restarts_witness:
  "last (d_calls (auto_rule ((init_dash None)\<lparr>d_pump_on := True, d_sensors := \<lparr>ds_temp = None, ds_hum = None,
        ds_soil = Some (JNum 15), ds_level = Some (JNum 50), ds_flow = None\<rparr>\<rparr>)
      (handle_status_update (status_json (status_of init_system_state 9000))
        ((init_dash None)\<lparr>d_pump_on := True, d_sensors := \<lparr>ds_temp = None, ds_hum = None,
          ds_soil = Some (JNum 15), ds_level = Some (JNum 50), ds_flow = None\<rparr>\<rparr>))))
   = Start_pump_call (Some 8)"
  by (rule auto_rule_restarts) (simp_all add: status_of_def init_system_state_def init_dash_def js_less_def
        js_greater_def js_number_def)

end
