(* ===== verification/Confirm.thy ===== *)
theory Confirm
  imports Prelude
begin

text \<open>
  The confirm-stop service (frontend/src/services/confirmServices.js) and the page built on
  it (frontend/src/pages/Confirmstop.jsx). The service is a module with three variables:
  the pending stop request and the two callbacks given to \<open>registerHandlers\<close>.
  \<open>confirm\<close> and \<open>cancel\<close> await the registered callback when it is a function and
  clear all three variables in their \<open>finally\<close> block, so a throwing callback still
  clears them and its exception reaches the caller. A callback is identified by a number;
  what it does is a parameter \<open>call\<close>, which gives the thrown error (\<open>Inl\<close>) or normal
  completion (\<open>Inr ()\<close>). The service records which callback ran on which request.
  The awaited callback is taken as atomic: no other handler runs while it is pending.
\<close>

text \<open>
  The object handed to \<open>setPendingStop\<close>, as a JSON member list (\<open>remainingMs\<close>,
  \<open>mode\<close>, \<open>sensors\<close> are the members the page reads).
\<close>

type_synonym stop_request = "(string \<times> jval) list"

type_synonym handler = nat

text \<open>
  The module's variables: \<open>pending\<close> (\<open>None\<close> is \<open>null\<close>) and the callbacks
  (\<open>None\<close> for \<open>null\<close> or any value that is not a function, which the
  \<open>typeof\<close> test treats alike).
\<close>

record confirm_svc =
  pending :: "stop_request option"
  on_confirm :: "handler option"
  on_cancel :: "handler option"
  handler_calls :: "(handler \<times> stop_request option) list"

definition confirm_init :: confirm_svc where
  "confirm_init = \<lparr>pending = None, on_confirm = None, on_cancel = None, handler_calls = []\<rparr>"

text \<open>\<open>setPendingStop(data)\<close>; called without argument, \<open>data\<close> is the default \<open>{}\<close>.\<close>

definition set_pending_stop :: "stop_request option \<Rightarrow> confirm_svc \<Rightarrow> confirm_svc" where
  "set_pending_stop data svc = svc\<lparr>pending := data\<rparr>"

definition set_pending_stop_default :: "confirm_svc \<Rightarrow> confirm_svc" where
  "set_pending_stop_default = set_pending_stop (Some [])"

definition get_pending_stop :: "confirm_svc \<Rightarrow> stop_request option" where
  "get_pending_stop svc = pending svc"

definition clear_pending_stop :: "confirm_svc \<Rightarrow> confirm_svc" where
  "clear_pending_stop svc = svc\<lparr>pending := None, on_confirm := None, on_cancel := None\<rparr>"

definition register_handlers :: "handler option \<Rightarrow> handler option \<Rightarrow> confirm_svc \<Rightarrow> confirm_svc" where
  "register_handlers c k svc = svc\<lparr>on_confirm := c, on_cancel := k\<rparr>"

text \<open>
  The body shared by \<open>confirm()\<close> and \<open>cancel()\<close>: \<open>try { if (typeof cb ===
  "function") await cb(pending); } finally { clearPendingStop(); }\<close>.
\<close>

definition settle_with ::
  "(handler \<Rightarrow> stop_request option \<Rightarrow> string + unit) \<Rightarrow> handler option \<Rightarrow> confirm_svc \<Rightarrow>
   (string + unit) \<times> confirm_svc" where
  "settle_with call cb svc =
     (case cb of
        None \<Rightarrow> (Inr (), clear_pending_stop svc)
      | Some h \<Rightarrow>
          (call h (pending svc),
           clear_pending_stop (svc\<lparr>handler_calls := handler_calls svc @ [(h, pending svc)]\<rparr>)))"

definition svc_confirm ::
  "(handler \<Rightarrow> stop_request option \<Rightarrow> string + unit) \<Rightarrow> confirm_svc \<Rightarrow> (string + unit) \<times> confirm_svc" where
  "svc_confirm call svc = settle_with call (on_confirm svc) svc"

definition svc_cancel ::
  "(handler \<Rightarrow> stop_request option \<Rightarrow> string + unit) \<Rightarrow> confirm_svc \<Rightarrow> (string + unit) \<times> confirm_svc" where
  "svc_cancel call svc = settle_with call (on_cancel svc) svc"

subsection \<open>The confirm-stop page\<close>

text \<open>
  \<open>ConfirmStopPage\<close>: \<open>useState(getPendingStop())\<close> takes a snapshot of the request
  at mount; the page shows its prompt only while the snapshot is non-null. The mount
  effect navigates back (\<open>nav(-1)\<close>) when there is no request, and otherwise registers a
  cleanup that clears the service when the page unmounts.
\<close>

record confirm_page =
  cp_pending :: "stop_request option"

datatype page_nav = Stay | Go_back

definition confirm_page_mount :: "confirm_svc \<Rightarrow> confirm_page \<times> page_nav" where
  "confirm_page_mount svc =
     (\<lparr>cp_pending = get_pending_stop svc\<rparr>,
      if get_pending_stop svc = None then Go_back else Stay)"

definition confirm_page_shows :: "confirm_page \<Rightarrow> bool" where
  "confirm_page_shows p = (cp_pending p \<noteq> None)"

definition confirm_page_unmount :: "confirm_page \<Rightarrow> confirm_svc \<Rightarrow> confirm_svc" where
  "confirm_page_unmount p svc = (if cp_pending p = None then svc else clear_pending_stop svc)"

text \<open>
  The two buttons: \<open>await confirm(); nav(-1);\<close> and \<open>await cancel(); nav(-1);\<close>. When
  the awaited call throws, the rejection ends the click handler before \<open>nav(-1)\<close>, and
  the page keeps its snapshot.
\<close>

definition nav_after :: "string + unit \<Rightarrow> page_nav" where
  "nav_after r = (case r of Inl _ \<Rightarrow> Stay | Inr _ \<Rightarrow> Go_back)"

definition click_stop_anyway ::
  "(handler \<Rightarrow> stop_request option \<Rightarrow> string + unit) \<Rightarrow> confirm_svc \<Rightarrow> page_nav \<times> confirm_svc" where
  "click_stop_anyway call svc = (let (r, svc') = svc_confirm call svc in (nav_after r, svc'))"

definition click_cancel ::
  "(handler \<Rightarrow> stop_request option \<Rightarrow> string + unit) \<Rightarrow> confirm_svc \<Rightarrow> page_nav \<times> confirm_svc" where
  "click_cancel call svc = (let (r, svc') = svc_cancel call svc in (nav_after r, svc'))"

subsection \<open>Lemmas\<close>

lemma settle_with_clears:
  "snd (settle_with call cb svc) =
     \<lparr>pending = None, on_confirm = None, on_cancel = None,
      handler_calls = handler_calls svc @ (case cb of None \<Rightarrow> [] | Some h \<Rightarrow> [(h, pending svc)])\<rparr>"
  by (cases cb) (simp_all add: settle_with_def clear_pending_stop_def)

lemma settle_with_result:
  "fst (settle_with call cb svc) = (case cb of None \<Rightarrow> Inr () | Some h \<Rightarrow> call h (pending svc))"
  by (cases cb) (simp_all add: settle_with_def)

lemma settle_with_eq:
  "settle_with call cb svc =
     (case cb of None \<Rightarrow> Inr () | Some h \<Rightarrow> call h (pending svc),
      \<lparr>pending = None, on_confirm = None, on_cancel = None,
       handler_calls = handler_calls svc @ (case cb of None \<Rightarrow> [] | Some h \<Rightarrow> [(h, pending svc)])\<rparr>)"
  by (metis prod.collapse settle_with_clears settle_with_result)

text \<open>
  C33: finding: when the confirm callback throws, the click handler ends before
  \<open>nav(-1)\<close>, so the page stays and keeps showing its snapshot of the request, although
  the service has already dropped the request and the callbacks; a second click on "Stop
  anyway" then runs no callback at all and navigates back.
\<close>

theorem failed_confirm_retry_is_noop:
  assumes "pending svc = Some r" and "on_confirm svc = Some h" and "call h (Some r) = Inl e"
  shows "confirm_page_shows (fst (confirm_page_mount svc)) \<and>
         fst (click_stop_anyway call svc) = Stay \<and>
         click_stop_anyway call (snd (click_stop_anyway call svc)) =
           (Go_back, snd (click_stop_anyway call svc))"
  using assms
  by (simp add: confirm_page_mount_def confirm_page_shows_def get_pending_stop_def
      click_stop_anyway_def svc_confirm_def settle_with_eq nav_after_def)

theorem failed_confirm_retry_is_noop_witness:
  "confirm_page_shows (fst (confirm_page_mount
      \<lparr>pending = Some [(''mode'', JStr ''manual'')], on_confirm = Some 1, on_cancel = None,
       handler_calls = []\<rparr>)) \<and>
   fst (click_stop_anyway (\<lambda>_ _. Inl ''network'')
      \<lparr>pending = Some [(''mode'', JStr ''manual'')], on_confirm = Some 1, on_cancel = None,
       handler_calls = []\<rparr>) = Stay \<and>
   click_stop_anyway (\<lambda>_ _. Inl ''network'') (snd (click_stop_anyway (\<lambda>_ _. Inl ''network'')
      \<lparr>pending = Some [(''mode'', JStr ''manual'')], on_confirm = Some 1, on_cancel = None,
       handler_calls = []\<rparr>)) =
     (Go_back, snd (click_stop_anyway (\<lambda>_ _. Inl ''network'')
      \<lparr>pending = Some [(''mode'', JStr ''manual'')], on_confirm = Some 1, on_cancel = None,
       handler_calls = []\<rparr>))"
  using failed_confirm_retry_is_noop
    [of "\<lparr>pending = Some [(''mode'', JStr ''manual'')], on_confirm = Some 1, on_cancel = None,
          handler_calls = []\<rparr>" "[(''mode'', JStr ''manual'')]" 1 "\<lambda>_ _. Inl ''network''" "''network''"]
  by simp

end
