(* ===== verification/App.thy ===== *)
theory App
  imports Confirm
begin

text \<open>
  The application shell (frontend/src/App.jsx) with the login page
  (frontend/src/pages/Login.jsx) and the logout button of the navigation bar
  (frontend/src/components/NavTabs.jsx). The shell keeps the logged-in user in React
  state and in \<open>localStorage\<close> under \<open>smart-watering-auth\<close>; its routes guard the
  dashboard, the history and the confirm-stop page with \<open>ProtectedRoute\<close>, which reads
  \<open>localStorage\<close> itself, and send every unknown path to \<open>/\<close>.

  Navigation is modelled on React Router's history: the current location, the entries
  behind it (\<open>back_stack\<close>), \<open>navigate(p)\<close> pushing, \<open><Navigate replace>\<close>
  replacing, \<open>nav(-1)\<close> popping. After a navigation the shell renders the route of the
  new location and then runs the effects of that commit: the \<open><Navigate>\<close> of a
  redirecting route, the confirm-stop page's mount effect, and the shell's own effect on
  \<open>[user]\<close> (due after a change of \<open>user\<close> only). A commit that moves the location
  causes another render; \<open>settle\<close> repeats this until a commit leaves the location alone.
\<close>

type_synonym storage = "string \<Rightarrow> string option"

definition ls_auth :: string where
  "ls_auth = ''smart-watering-auth''"

text \<open>\<open>ProtectedRoute\<close>'s test \<open>!!localStorage.getItem(LS_AUTH)\<close>: a non-empty stored string.\<close>

definition is_auth :: "storage \<Rightarrow> bool" where
  "is_auth st = (case st ls_auth of None \<Rightarrow> False | Some v \<Rightarrow> v \<noteq> [])"

text \<open>
  \<open>JSON.stringify({username: u})\<close> for a name without quote or backslash, and
  \<open>JSON.parse\<close> of the stored text read back to the user's name: \<open>Some None\<close> for
  \<open>null\<close>, \<open>None\<close> for any text of another form, on which the shell is not modelled.
\<close>

definition json_safe :: "string \<Rightarrow> bool" where
  "json_safe u = (CHR 0x22 \<notin> set u \<and> CHR 0x5C \<notin> set u)"

definition user_json :: "string \<Rightarrow> string" where
  "user_json u = ''{\"username\":\"'' @ u @ ''\"}''"

definition parse_user :: "string \<Rightarrow> string option option" where
  "parse_user v =
     (if v = ''null'' then Some None
      else let u = drop 13 (take (length v - 2) v)
           in if 15 \<le> length v \<and> user_json u = v \<and> json_safe u then Some (Some u) else None)"

text \<open>The initial value of \<open>user\<close>: \<open>v ? JSON.parse(v) : null\<close>.\<close>

definition stored_user :: "storage \<Rightarrow> string option option" where
  "stored_user st = (case st ls_auth of None \<Rightarrow> Some None | Some v \<Rightarrow> if v = [] then Some None else parse_user v)"

subsection \<open>Routes\<close>

datatype page = Login_page | Dashboard_page | History_page | Confirm_stop_page

datatype route_result = Render page | Redirect string

definition protected_route :: "bool \<Rightarrow> page \<Rightarrow> route_result" where
  "protected_route auth p = (if auth then Render p else Redirect ''/login'')"

definition route :: "bool \<Rightarrow> string \<Rightarrow> route_result" where
  "route auth path =
     (if path = ''/login'' then Render Login_page
      else if path = ''/'' then protected_route auth Dashboard_page
      else if path = ''/history'' then protected_route auth History_page
      else if path = ''/confirm-stop'' then protected_route auth Confirm_stop_page
      else Redirect ''/'')"

text \<open>How far a path is from a rendered page: \<open>/login\<close>, the guarded paths, the rest.\<close>

definition redirect_rank :: "string \<Rightarrow> nat" where
  "redirect_rank p =
     (if p = ''/login'' then 0 else if p \<in> {''/'', ''/history'', ''/confirm-stop''} then 1 else 2)"

subsection \<open>The shell's state\<close>

record app_state =
  storage :: storage
  user :: "string option"
  location :: string
  back_stack :: "string list"
  shown :: "page option"
  login_err :: string
  confirm :: confirm_svc

definition push :: "string \<Rightarrow> app_state \<Rightarrow> app_state" where
  "push p a = a\<lparr>back_stack := location a # back_stack a, location := p\<rparr>"

definition go_back :: "app_state \<Rightarrow> app_state" where
  "go_back a = (case back_stack a of [] \<Rightarrow> a | q # qs \<Rightarrow> a\<lparr>location := q, back_stack := qs\<rparr>)"

text \<open>
  One commit: render the route, then the effects in React's order (the children's before
  the shell's). \<open>fresh\<close> says whether \<open>user\<close> changed since the last commit. The
  login page keeps its error text while it stays mounted and starts with none.
\<close>

definition render :: "route_result \<Rightarrow> app_state \<Rightarrow> app_state" where
  "render r a =
     (case r of
        Render pg \<Rightarrow>
          a\<lparr>shown := Some pg,
            login_err := (if pg = Login_page \<and> shown a = Some Login_page then login_err a else [])\<rparr>
      | Redirect q \<Rightarrow> a\<lparr>shown := None, location := q\<rparr>)"

text \<open>\<open>ConfirmStopPage\<close>'s mount effect: \<open>if (!pending) nav(-1)\<close>.\<close>

definition confirm_effect :: "route_result \<Rightarrow> app_state \<Rightarrow> app_state" where
  "confirm_effect r a =
     (if r = Render Confirm_stop_page \<and> snd (confirm_page_mount (confirm a)) = Go_back
      then go_back a else a)"

text \<open>The shell's effect: \<open>if (!user) navigate("/login")\<close>, due when \<open>user\<close> changed.\<close>

definition user_effect :: "bool \<Rightarrow> app_state \<Rightarrow> app_state" where
  "user_effect fresh a = (if fresh \<and> user a = None then push ''/login'' a else a)"

definition commit :: "bool \<Rightarrow> app_state \<Rightarrow> app_state" where
  "commit fresh a =
     (let r = route (is_auth (storage a)) (location a) in user_effect fresh (confirm_effect r (render r a)))"

function settle :: "bool \<Rightarrow> app_state \<Rightarrow> app_state" where
  "settle fresh a =
     (let a' = commit fresh a
      in if location a' = location a \<and> back_stack a' = back_stack a then a' else settle False a')"
  by pat_completeness auto

termination settle
  by (relation "measures [\<lambda>(fresh, a). if fresh then 1 else 0, \<lambda>(fresh, a). length (back_stack a),
                         \<lambda>(fresh, a). redirect_rank (location a)]")
     (auto simp: commit_def render_def confirm_effect_def user_effect_def route_def
           protected_route_def redirect_rank_def go_back_def Let_def
           split: if_splits route_result.splits list.splits)

subsection \<open>Handlers\<close>

text \<open>Page load: the user read from storage, then the first commit, whose user effect is due.\<close>

definition app_mount :: "storage \<Rightarrow> string \<Rightarrow> confirm_svc \<Rightarrow> app_state option" where
  "app_mount st path svc =
     (case stored_user st of
        None \<Rightarrow> None
      | Some u \<Rightarrow> Some (settle True \<lparr>storage = st, user = u, location = path, back_stack = [],
                                    shown = None, login_err = [], confirm = svc\<rparr>))"

text \<open>
  The shell's \<open>login(userObj)\<close>: store the user, set it (a new object, so the user effect
  is due), and \<open>navigate("/")\<close>.
\<close>

definition app_login :: "string \<Rightarrow> app_state \<Rightarrow> app_state" where
  "app_login u a = settle True (push ''/'' (a\<lparr>storage := (storage a)(ls_auth \<mapsto> user_json u), user := Some u\<rparr>))"

text \<open>\<open>logout()\<close>: remove the entry, clear the user, \<open>navigate("/login")\<close>.\<close>

definition app_logout :: "app_state \<Rightarrow> app_state" where
  "app_logout a =
     settle (user a \<noteq> None) (push ''/login'' (a\<lparr>storage := (storage a)(ls_auth := None), user := None\<rparr>))"

text \<open>\<open>Login\<close>'s \<open>submit\<close>: the fixed demo credential, or the error text.\<close>

definition login_submit :: "string \<Rightarrow> string \<Rightarrow> app_state \<Rightarrow> app_state" where
  "login_submit name pw a =
     (if name = ''admin'' \<and> pw = ''password'' then app_login ''admin'' a
      else a\<lparr>login_err := ''Invalid credentials. Try admin / password''\<rparr>)"

text \<open>
  What the user can do: follow an in-app link (the navigation bar's \<open>NavLink\<close>s push a
  location), press the browser's back button, submit the login form (rendered on the
  login page only), and press Logout (in the navigation bar, rendered while a user is set).
\<close>

datatype app_event = Visit string | Back | Submit_login string string | Logout

text \<open>
  Both inputs of the form are \<open>required\<close>: the browser submits the form only when
  neither is empty.
\<close>

definition form_filled :: "string \<Rightarrow> string \<Rightarrow> bool" where
  "form_filled name pw = (name \<noteq> [] \<and> pw \<noteq> [])"

fun app_step :: "app_event \<Rightarrow> app_state \<Rightarrow> app_state" where
  "app_step (Visit p) a = settle False (push p a)"
| "app_step Back a = settle False (go_back a)"
| "app_step (Submit_login n pw) a =
     (if shown a = Some Login_page \<and> form_filled n pw then login_submit n pw a else a)"
| "app_step Logout a = (if user a \<noteq> None then app_logout a else a)"

text \<open>
  A stored session the shell reads consistently: a user object exactly when the entry is
  a non-empty text (what \<open>login\<close> writes, or nothing).
\<close>

definition session_ok :: "storage \<Rightarrow> bool" where
  "session_ok st = (case stored_user st of None \<Rightarrow> False | Some u \<Rightarrow> (u \<noteq> None \<longleftrightarrow> is_auth st))"

inductive app_reach :: "app_state \<Rightarrow> bool" where
  app_reach_mount: "session_ok st \<Longrightarrow> app_mount st p svc = Some a \<Longrightarrow> app_reach a"
| app_reach_step: "app_reach a \<Longrightarrow> app_reach (app_step e a)"

subsection \<open>Lemmas\<close>

lemma route_redirect_moves: "route auth p = Redirect q \<Longrightarrow> q \<noteq> p"
  by (auto simp: route_def protected_route_def split: if_splits)

lemma route_unauth: "\<not> auth \<Longrightarrow> route auth p = Render pg \<Longrightarrow> pg = Login_page"
  by (auto simp: route_def protected_route_def split: if_splits)

declare settle.simps [simp del]

lemma settle_step:
  "settle f a = (if location (commit f a) = location a \<and> back_stack (commit f a) = back_stack a
                 then commit f a else settle False (commit f a))"
  by (subst settle.simps) (simp add: Let_def)

lemma settle_stop:
  "location (commit f a) = location a \<Longrightarrow> back_stack (commit f a) = back_stack a \<Longrightarrow>
   settle f a = commit f a"
  by (simp add: settle_step [of f a])

lemma settle_move:
  "location (commit f a) \<noteq> location a \<or> back_stack (commit f a) \<noteq> back_stack a \<Longrightarrow>
   settle f a = settle False (commit f a)"
  by (auto simp: settle_step [of f a])

lemma effects_keep:
  "storage (render r a) = storage a" "user (render r a) = user a" "confirm (render r a) = confirm a"
  "storage (confirm_effect r a) = storage a" "user (confirm_effect r a) = user a"
  "confirm (confirm_effect r a) = confirm a" "shown (confirm_effect r a) = shown a"
  "storage (user_effect f a) = storage a" "user (user_effect f a) = user a"
  "confirm (user_effect f a) = confirm a" "shown (user_effect f a) = shown a"
  by (simp_all add: render_def confirm_effect_def user_effect_def go_back_def push_def
      split: route_result.split list.split)

lemma commit_keeps:
  "storage (commit f a) = storage a \<and> user (commit f a) = user a \<and> confirm (commit f a) = confirm a"
  by (simp add: commit_def effects_keep Let_def)

lemma settle_keeps:
  "storage (settle f a) = storage a \<and> user (settle f a) = user a \<and> confirm (settle f a) = confirm a"
proof (induction f a rule: settle.induct)
  case (1 fresh a)
  then show ?case
    using commit_keeps [of fresh a] by (simp add: settle_step [of fresh a])
qed

lemma commit_Render:
  "route (is_auth (storage a)) (location a) = Render pg \<Longrightarrow> shown (commit f a) = Some pg"
  by (simp add: commit_def effects_keep render_def)

lemma user_effect_location: "location (user_effect f a) \<in> {location a, ''/login''}"
  by (simp add: user_effect_def push_def)

lemma commit_Redirect:
  assumes "route (is_auth (storage a)) (location a) = Redirect q"
  shows "location (commit f a) \<noteq> location a"
proof -
  have "q \<noteq> location a" using assms by (rule route_redirect_moves)
  moreover have "location a \<noteq> ''/login''" using assms by (auto simp: route_def)
  moreover have "confirm_effect (Redirect q) a' = a'" for a' by (simp add: confirm_effect_def)
  moreover have "location (render (Redirect q) a) = q" by (simp add: render_def)
  moreover have "commit f a = user_effect f (confirm_effect (Redirect q) (render (Redirect q) a))"
    using assms by (simp only: commit_def Let_def)
  ultimately have "location (commit f a) \<in> {q, ''/login''}"
    using user_effect_location [of f "confirm_effect (Redirect q) (render (Redirect q) a)"] by simp
  with \<open>q \<noteq> location a\<close> \<open>location a \<noteq> ''/login''\<close> show ?thesis by auto
qed

lemma commit_still:
  assumes "location (commit f a) = location a"
  shows "\<exists>pg. shown (commit f a) = Some pg \<and> route (is_auth (storage a)) (location a) = Render pg"
proof (cases "route (is_auth (storage a)) (location a)")
  case (Render pg)
  then show ?thesis using commit_Render by blast
next
  case (Redirect q)
  then show ?thesis using commit_Redirect assms by blast
qed

definition app_inv :: "app_state \<Rightarrow> bool" where
  "app_inv a \<longleftrightarrow>
     (user a \<noteq> None \<longleftrightarrow> is_auth (storage a)) \<and>
     (\<exists>pg. shown a = Some pg \<and> route (is_auth (storage a)) (location a) = Render pg)"

lemmas app_eval = settle_stop settle_move commit_def render_def confirm_effect_def user_effect_def
  route_def protected_route_def is_auth_def push_def go_back_def ls_auth_def confirm_page_mount_def
  get_pending_stop_def confirm_init_def user_json_def form_filled_def Let_def

text \<open>
  C34: every navigation settles: the loop of renders and effects ends (\<open>settle\<close> is total
  by its termination proof), and it ends on a rendered page, namely the page the route of
  the final location gives for the stored session.
\<close>

theorem settle_renders:
  "\<exists>pg. shown (settle f a) = Some pg \<and>
        route (is_auth (storage (settle f a))) (location (settle f a)) = Render pg"
proof (induction f a rule: settle.induct)
  case (1 fresh a)
  show ?case
  proof (cases "location (commit fresh a) = location a \<and> back_stack (commit fresh a) = back_stack a")
    case True
    then have "settle fresh a = commit fresh a" by (simp add: settle_step [of fresh a])
    with commit_still [of fresh a] commit_keeps [of fresh a] True show ?thesis by simp
  next
    case False
    then have "settle fresh a = settle False (commit fresh a)" by (auto simp: settle_step [of fresh a])
    with "1.IH" [OF refl False] show ?thesis by simp
  qed
qed

lemma app_inv_settle:
  "(user a \<noteq> None \<longleftrightarrow> is_auth (storage a)) \<Longrightarrow> app_inv (settle f a)"
  unfolding app_inv_def using settle_renders [of f a] settle_keeps [of f a] by simp

lemma user_json_nonempty: "user_json u \<noteq> []"
  by (simp add: user_json_def)

lemma app_inv_session: "app_inv a \<Longrightarrow> user a \<noteq> None \<longleftrightarrow> is_auth (storage a)"
  by (simp add: app_inv_def)

lemma app_inv_step:
  assumes "app_inv a"
  shows "app_inv (app_step e a)"
proof (cases e)
  case (Visit p)
  have "user (push p a) \<noteq> None \<longleftrightarrow> is_auth (storage (push p a))"
    using app_inv_session [OF assms] by (simp add: push_def)
  then show ?thesis using Visit app_inv_settle by simp
next
  case Back
  have "user (go_back a) \<noteq> None \<longleftrightarrow> is_auth (storage (go_back a))"
    using app_inv_session [OF assms] by (simp add: go_back_def split: list.splits)
  then show ?thesis using Back app_inv_settle by simp
next
  case (Submit_login n pw)
  let ?b = "push ''/'' (a\<lparr>storage := (storage a)(ls_auth \<mapsto> user_json ''admin''), user := Some ''admin''\<rparr>)"
  have "user ?b \<noteq> None \<longleftrightarrow> is_auth (storage ?b)"
    by (simp add: push_def is_auth_def user_json_nonempty)
  then have "app_inv (app_login ''admin'' a)" unfolding app_login_def by (rule app_inv_settle)
  moreover have "app_inv (a\<lparr>login_err := e'\<rparr>)" for e'
    using assms by (simp add: app_inv_def)
  ultimately show ?thesis using Submit_login assms by (simp add: login_submit_def)
next
  case Logout
  let ?b = "push ''/login'' (a\<lparr>storage := (storage a)(ls_auth := None), user := None\<rparr>)"
  have "user ?b \<noteq> None \<longleftrightarrow> is_auth (storage ?b)"
    by (simp add: push_def is_auth_def)
  then have "app_inv (app_logout a)" unfolding app_logout_def by (rule app_inv_settle)
  then show ?thesis using Logout assms by simp
qed

lemma app_inv_reach: "app_reach a \<Longrightarrow> app_inv a"
proof (induction rule: app_reach.induct)
  case (app_reach_mount st p svc a)
  then obtain u where "stored_user st = Some u" and "(u \<noteq> None \<longleftrightarrow> is_auth st)"
    by (auto simp: session_ok_def split: option.splits)
  with app_reach_mount.hyps(2) show ?case
    by (auto simp: app_mount_def intro: app_inv_settle)
next
  case (app_reach_step a e)
  from app_reach_step.IH show ?case by (rule app_inv_step)
qed

text \<open>
  C35: in every state the shell reaches from a consistently stored session, some page is
  rendered, and a page other than the login page (the dashboard, the history, the
  confirm-stop page) is rendered only while a user is logged in and stored.
\<close>

theorem app_reach_safe:
  assumes "app_reach a"
  shows "shown a \<noteq> None \<and> (shown a \<noteq> Some Login_page \<longrightarrow> user a \<noteq> None \<and> is_auth (storage a))"
proof -
  from app_inv_reach [OF assms] obtain pg where
    inv: "user a \<noteq> None \<longleftrightarrow> is_auth (storage a)" "shown a = Some pg"
      "route (is_auth (storage a)) (location a) = Render pg"
    by (auto simp: app_inv_def)
  then show ?thesis using route_unauth [of "is_auth (storage a)" "location a" pg] by auto
qed

theorem app_reach_safe_witness:
  "shown (app_step (Submit_login ''admin'' ''password'') (settle True
      \<lparr>storage = Map.empty, user = None, location = ''/history'', back_stack = [], shown = None,
       login_err = [], confirm = confirm_init\<rparr>)) = Some Dashboard_page \<and>
   user (app_step (Submit_login ''admin'' ''password'') (settle True
      \<lparr>storage = Map.empty, user = None, location = ''/history'', back_stack = [], shown = None,
       login_err = [], confirm = confirm_init\<rparr>)) \<noteq> None \<and>
   is_auth (storage (app_step (Submit_login ''admin'' ''password'') (settle True
      \<lparr>storage = Map.empty, user = None, location = ''/history'', back_stack = [], shown = None,
       login_err = [], confirm = confirm_init\<rparr>)))"
proof -
  have "session_ok Map.empty" by (simp add: session_ok_def stored_user_def is_auth_def)
  moreover have "app_mount Map.empty ''/history'' confirm_init =
      Some (settle True \<lparr>storage = Map.empty, user = None, location = ''/history'', back_stack = [],
                         shown = None, login_err = [], confirm = confirm_init\<rparr>)"
    by (simp add: app_mount_def stored_user_def)
  ultimately have "app_reach (settle True
      \<lparr>storage = Map.empty, user = None, location = ''/history'', back_stack = [], shown = None,
       login_err = [], confirm = confirm_init\<rparr>)"
    by (rule app_reach_mount)
  note safe = app_reach_safe [OF app_reach_step [OF this, of "Submit_login ''admin'' ''password''"]]
  have "shown (app_step (Submit_login ''admin'' ''password'') (settle True
      \<lparr>storage = Map.empty, user = None, location = ''/history'', back_stack = [], shown = None,
       login_err = [], confirm = confirm_init\<rparr>)) = Some Dashboard_page"
    by (simp add: app_eval login_submit_def app_login_def)
  with safe show ?thesis by simp
qed

end
