(* ===== verification/History.thy ===== *)
theory History
  imports Dashboard
begin

text \<open>
  The history page (frontend/src/pages/History.jsx): the watering records the dashboard
  appends to \<open>localStorage\<close> (\<open>Dashboard.stop_answered\<close>), shown newest first in a
  table, exported as CSV, and cleared after a confirmation dialog. Values are printed as
  template literals print them: integers in decimal (JavaScript switches to exponent
  notation only from \<open>10^21\<close>, beyond any timestamp or duration here), readings by
  \<open>String(x)\<close>, litres by \<open>toFixed(3)\<close>. Litres are exact rationals
  (\<open>flow * durationMs / 60000\<close>); the rounding of the double they are computed in
  is not modelled. A reader of the exported text (\<open>split_on\<close>, \<open>read_int\<close>) belongs
  to the verification only.
\<close>

definition ls_history :: string where
  "ls_history = ''smart-watering-history''"

text \<open>
  The rows: \<open>v ? JSON.parse(v) : []\<close> at mount and on \<open>wateringHistoryUpdated\<close>.
  The stored text is \<open>JSON.stringify\<close> of the records the dashboard appended, which
  \<open>JSON.parse\<close> gives back, so the model stores the records.
\<close>

definition history_rows :: "history_entry list option \<Rightarrow> history_entry list" where
  "history_rows stored = (case stored of None \<Rightarrow> [] | Some rs \<Rightarrow> rs)"

subsection \<open>Printing values\<close>

definition int_str :: "int \<Rightarrow> string" where
  "int_str i = (if i < 0 then ''-'' @ nat_str (nat (- i)) else nat_str (nat i))"

text \<open>
  \<open>String(x)\<close> of a scalar reading (a number, string, boolean, \<open>null\<close> or
  \<open>undefined\<close>). \<open>JCompound\<close> stands for any object or array, which this model does
  not tell apart: it is printed as a plain object is (\<open>[object Object]\<close>), while an
  array prints its elements joined by commas; the export's round trip below is stated
  for scalar readings only.
\<close>

fun js_str :: "jval option \<Rightarrow> string" where
  "js_str None = ''undefined''"
| "js_str (Some (JNum n)) = int_str n"
| "js_str (Some (JStr s)) = s"
| "js_str (Some (JBool b)) = (if b then ''true'' else ''false'')"
| "js_str (Some JNull) = ''null''"
| "js_str (Some JCompound) = ''[object Object]''"

text \<open>
  \<open>x.toFixed(3)\<close> (ECMAScript, Number.prototype.toFixed): the sign, then the integer
  \<open>n\<close> nearest to \<open>|x| * 1000\<close> (the larger one on a tie), its digits padded with zeros
  to at least four, and a point before the last three.
\<close>

definition fixed3_digits :: "nat \<Rightarrow> string" where
  "fixed3_digits n =
     (let m = nat_str n; m' = replicate (4 - length m) (CHR ''0'') @ m
      in take (length m' - 3) m' @ ''.'' @ drop (length m' - 3) m')"

definition to_fixed3 :: "rat \<Rightarrow> string" where
  "to_fixed3 x = (if x < 0 then ''-'' else []) @ fixed3_digits (nat \<lfloor>\<bar>x\<bar> * 1000 + 1 / 2\<rfloor>)"

text \<open>\<open>Array.prototype.join(sep)\<close>.\<close>

fun js_join :: "string \<Rightarrow> string list \<Rightarrow> string" where
  "js_join sep [] = []"
| "js_join sep [w] = w"
| "js_join sep (w # ws) = w @ sep @ js_join sep ws"

subsection \<open>Export\<close>

definition csv_header :: string where
  "csv_header = ''timestamp,mode,duration_ms,liters,temp,hum,soil,level,flow''"

text \<open>The fields of one line of \<open>exportCSV\<close>, in the order of the template literal.\<close>

definition csv_fields :: "history_entry \<Rightarrow> string list" where
  "csv_fields r =
     [int_str (h_timestamp r), h_mode r, int_str (h_duration r), to_fixed3 (h_liters r),
      js_str (ds_temp (h_sensors r)), js_str (ds_hum (h_sensors r)), js_str (ds_soil (h_sensors r)),
      js_str (ds_level (h_sensors r)), js_str (ds_flow (h_sensors r))]"

definition csv_row :: "history_entry \<Rightarrow> string" where
  "csv_row r = js_join '','' (csv_fields r)"

definition csv_text :: "history_entry list \<Rightarrow> string" where
  "csv_text rows = js_join [CHR 0x0A] (csv_header # map csv_row rows)"

datatype export_result = Alert string | Download string string

text \<open>\<open>exportCSV()\<close>: an alert without rows, otherwise the download of the CSV text.\<close>

definition export_csv :: "history_entry list \<Rightarrow> export_result" where
  "export_csv rows =
     (if rows = [] then Alert ''No data'' else Download ''watering_history.csv'' (csv_text rows))"

subsection \<open>Table and clearing\<close>

text \<open>
  A JSX child \<open>{x}\<close>: React renders nothing for \<open>undefined\<close>, \<open>null\<close> and booleans,
  the text of a number or string, and throws on an object (\<open>None\<close>).
\<close>

fun jsx_child :: "jval option \<Rightarrow> string option" where
  "jsx_child None = Some []"
| "jsx_child (Some JNull) = Some []"
| "jsx_child (Some (JBool _)) = Some []"
| "jsx_child (Some (JNum n)) = Some (int_str n)"
| "jsx_child (Some (JStr s)) = Some s"
| "jsx_child (Some JCompound) = None"

text \<open>
  The table: \<open>rows.slice().reverse()\<close>, newest first; the time cell is
  \<open>toLocaleString()\<close> of the timestamp (kept as the timestamp), \<open>Math.round\<close> of an
  integer duration is the duration itself. A row whose reading is an object makes the
  render throw (\<open>None\<close>).
\<close>

definition table_row :: "history_entry \<Rightarrow> (timestamp \<times> string list) option" where
  "table_row r =
     map_option (\<lambda>cells. (h_timestamp r, [h_mode r, int_str (h_duration r) @ '' ms'', to_fixed3 (h_liters r)] @ cells))
       (those (map jsx_child [ds_temp (h_sensors r), ds_hum (h_sensors r), ds_soil (h_sensors r),
                              ds_level (h_sensors r), ds_flow (h_sensors r)]))"

definition history_table :: "history_entry list \<Rightarrow> (timestamp \<times> string list) option list" where
  "history_table rows = map table_row (rev rows)"

text \<open>
  The page body: a note while there are no rows, otherwise the table under its nine
  column headers.
\<close>

definition history_columns :: "string list" where
  "history_columns = [''Time'', ''Mode'', ''Duration'', ''Liters'', ''Temp'', ''Hum'', ''Soil'', ''Level'', ''Flow'']"

datatype history_body = No_records | Records "(timestamp \<times> string list) option list"

definition history_view :: "history_entry list \<Rightarrow> history_body" where
  "history_view rows = (if rows = [] then No_records else Records (history_table rows))"

text \<open>
  \<open>clearAll()\<close>, given the answer of the \<open>confirm\<close> dialog: the rows and whether the
  stored history was removed (and \<open>wateringHistoryUpdated\<close> dispatched).
\<close>

definition clear_all :: "bool \<Rightarrow> history_entry list \<Rightarrow> history_entry list \<times> bool" where
  "clear_all confirmed rows = (if confirmed then ([], True) else (rows, False))"

subsection \<open>Reading the export back\<close>

text \<open>\<open>s.split(c)\<close> for a one-character separator.\<close>

fun split_on :: "char \<Rightarrow> string \<Rightarrow> string list" where
  "split_on c [] = [[]]"
| "split_on c (x # xs) = (if x = c then [] # split_on c xs else (let ws = split_on c xs in (x # hd ws) # tl ws))"

definition read_int :: "string \<Rightarrow> int option" where
  "read_int s =
     (if s \<noteq> [] \<and> hd s = CHR ''-''
      then (case read_digits (tl s) 0 of (n, r) \<Rightarrow> if r = [] \<and> tl s \<noteq> [] then Some (- int n) else None)
      else (case read_digits s 0 of (n, r) \<Rightarrow> if r = [] \<and> s \<noteq> [] then Some (int n) else None))"

text \<open>A record the CSV keeps apart: no comma or line break in its mode and string readings.\<close>

definition no_sep :: "string \<Rightarrow> bool" where
  "no_sep s = (CHR 0x2C \<notin> set s \<and> CHR 0x0A \<notin> set s)"

definition csv_clean :: "history_entry \<Rightarrow> bool" where
  "csv_clean r =
     (no_sep (h_mode r) \<and>
      list_all (\<lambda>v. v \<noteq> Some JCompound \<and> no_sep (js_str v))
        [ds_temp (h_sensors r), ds_hum (h_sensors r), ds_soil (h_sensors r),
         ds_level (h_sensors r), ds_flow (h_sensors r)])"

subsection \<open>Lemmas\<close>

lemma those_length: "those xs = Some ys \<Longrightarrow> length ys = length xs"
  by (induction xs arbitrary: ys) (auto split: option.splits)

text \<open>
  Every row the table renders has one cell per column header: the time cell and eight
  texts; the rows are the stored ones, newest first.
\<close>

lemma table_row_columns: "table_row r = Some (t, cells) \<Longrightarrow> Suc (length cells) = length history_columns"
  by (auto simp: table_row_def history_columns_def simp del: those.simps dest!: those_length)

lemma history_view_rows:
  "history_view rows = Records tbl \<Longrightarrow> rows \<noteq> [] \<and> tbl = map table_row (rev rows)"
  by (simp add: history_view_def history_table_def split: if_splits)

lemma split_on_no_sep: "c \<notin> set w \<Longrightarrow> split_on c w = [w]"
  by (induction w) auto

lemma split_on_append: "c \<notin> set w \<Longrightarrow> split_on c (w @ c # r) = w # split_on c r"
  by (induction w) (auto simp: Let_def)

lemma split_on_join:
  "\<forall>w \<in> set ws. c \<notin> set w \<Longrightarrow> ws \<noteq> [] \<Longrightarrow> split_on c (js_join [c] ws) = ws"
  by (induction "[c]" ws rule: js_join.induct) (auto simp: split_on_no_sep split_on_append)

lemma set_js_join: "set (js_join sep ws) \<subseteq> set sep \<union> (\<Union>w \<in> set ws. set w)"
  by (induction sep ws rule: js_join.induct) auto

lemma nat_str_nonempty: "nat_str n \<noteq> []"
  by (subst nat_str.simps) simp

lemma is_digit_not_sep: "is_digit c \<Longrightarrow> c \<noteq> CHR 0x2C \<and> c \<noteq> CHR 0x0A \<and> c \<noteq> CHR ''-''"
  by (auto simp: is_digit_def)

lemma int_str_chars: "\<forall>c \<in> set (int_str i). is_digit c \<or> c = CHR ''-''"
  using nat_str_digits by (simp add: int_str_def)

lemma fixed3_digits_chars: "\<forall>c \<in> set (fixed3_digits n). is_digit c \<or> c = CHR ''.''"
proof -
  let ?m = "replicate (4 - length (nat_str n)) (CHR ''0'') @ nat_str n"
  have "is_digit (CHR ''0'')" by (simp add: is_digit_def)
  then have m: "\<forall>c \<in> set ?m. is_digit c" using nat_str_digits [of n] by auto
  show ?thesis
    unfolding fixed3_digits_def Let_def
    using m by (auto dest: in_set_takeD in_set_dropD)
qed

lemma to_fixed3_chars: "\<forall>c \<in> set (to_fixed3 x). is_digit c \<or> c = CHR ''-'' \<or> c = CHR ''.''"
  using fixed3_digits_chars by (auto simp: to_fixed3_def)

lemma no_sep_chars:
  "\<forall>c \<in> set s. is_digit c \<or> c = CHR ''-'' \<or> c = CHR ''.'' \<Longrightarrow> no_sep s"
  using is_digit_not_sep unfolding no_sep_def by fastforce

lemma no_sep_int_str: "no_sep (int_str i)"
  using int_str_chars [of i] by (intro no_sep_chars) auto

lemma no_sep_to_fixed3: "no_sep (to_fixed3 x)"
  using to_fixed3_chars by (rule no_sep_chars)

lemma read_int_str: "read_int (int_str i) = Some i"
proof (cases "i < 0")
  case True
  then show ?thesis
    using read_nat_str [of "[]" "nat (- i)"] nat_str_nonempty [of "nat (- i)"]
    by (simp add: read_int_def int_str_def)
next
  case False
  have "is_digit (hd (nat_str (nat i)))"
    using nat_str_digits nat_str_nonempty hd_in_set by blast
  then have "hd (nat_str (nat i)) \<noteq> CHR ''-''" using is_digit_not_sep by blast
  then show ?thesis
    using False read_nat_str [of "[]" "nat i"] nat_str_nonempty [of "nat i"]
    by (simp add: read_int_def int_str_def)
qed

lemma csv_fields_no_sep:
  "csv_clean r \<Longrightarrow> \<forall>w \<in> set (csv_fields r). no_sep w"
  by (simp add: csv_clean_def csv_fields_def no_sep_int_str no_sep_to_fixed3)

lemma csv_row_split:
  assumes "csv_clean r"
  shows "split_on (CHR 0x2C) (csv_row r) = csv_fields r"
  unfolding csv_row_def
proof (rule split_on_join)
  show "\<forall>w \<in> set (csv_fields r). CHR 0x2C \<notin> set w"
    using csv_fields_no_sep [OF assms] by (simp add: no_sep_def)
  show "csv_fields r \<noteq> []" by (simp add: csv_fields_def)
qed

lemma csv_row_no_newline: "csv_clean r \<Longrightarrow> CHR 0x0A \<notin> set (csv_row r)"
  using csv_fields_no_sep [of r] set_js_join [of "'',''" "csv_fields r"]
  by (auto simp: csv_row_def no_sep_def)

text \<open>
  C36: the CSV export round-trips: for a non-empty history whose readings are scalars
  (no object or array) and whose modes and string readings hold no comma or line break, \<open>exportCSV\<close> downloads a text whose lines,
  split at commas, are the header's nine column names followed by the nine printed fields
  of each record in order, and the timestamp and duration columns read back to the
  record's values.
\<close>

theorem export_csv_roundtrip:
  assumes "rows \<noteq> []" and "list_all csv_clean rows"
  shows "export_csv rows = Download ''watering_history.csv'' (csv_text rows) \<and>
    map (split_on (CHR 0x2C)) (split_on (CHR 0x0A) (csv_text rows)) =
      [''timestamp'', ''mode'', ''duration_ms'', ''liters'', ''temp'', ''hum'', ''soil'', ''level'', ''flow'']
      # map csv_fields rows \<and>
    list_all (\<lambda>r. read_int (csv_fields r ! 0) = Some (h_timestamp r) \<and>
                  read_int (csv_fields r ! 2) = Some (h_duration r)) rows"
proof -
  have clean: "\<forall>r \<in> set rows. csv_clean r" using assms(2) by (simp add: list_all_iff)
  have "split_on (CHR 0x0A) (csv_text rows) = csv_header # map csv_row rows"
    unfolding csv_text_def
  proof (rule split_on_join)
    show "\<forall>w \<in> set (csv_header # map csv_row rows). CHR 0x0A \<notin> set w"
      using clean csv_row_no_newline by (auto simp: csv_header_def)
  qed simp
  moreover have "map (split_on (CHR 0x2C)) (map csv_row rows) = map csv_fields rows"
    using clean csv_row_split by simp
  moreover have "split_on (CHR 0x2C) csv_header =
      [''timestamp'', ''mode'', ''duration_ms'', ''liters'', ''temp'', ''hum'', ''soil'', ''level'', ''flow'']"
    by (simp add: csv_header_def)
  ultimately show ?thesis
    using assms(1) by (simp add: export_csv_def list_all_iff csv_fields_def read_int_str)
qed

theorem export_csv_roundtrip_witness:
  "export_csv [\<lparr>h_timestamp = 1700000000000, h_mode = ''manual'', h_duration = 8000, h_liters = 2 / 15,
      h_sensors = \<lparr>ds_temp = Some (JNum 24), ds_hum = Some (JNum 66), ds_soil = Some (JNum 31),
                   ds_level = Some (JNum 56), ds_flow = Some (JNum 1)\<rparr>, h_stopped_early = True\<rparr>] =
     Download ''watering_history.csv'' (csv_text [\<lparr>h_timestamp = 1700000000000, h_mode = ''manual'',
      h_duration = 8000, h_liters = 2 / 15,
      h_sensors = \<lparr>ds_temp = Some (JNum 24), ds_hum = Some (JNum 66), ds_soil = Some (JNum 31),
                   ds_level = Some (JNum 56), ds_flow = Some (JNum 1)\<rparr>, h_stopped_early = True\<rparr>]) \<and>
   read_int (csv_fields \<lparr>h_timestamp = 1700000000000, h_mode = ''manual'', h_duration = 8000,
      h_liters = 2 / 15,
      h_sensors = \<lparr>ds_temp = Some (JNum 24), ds_hum = Some (JNum 66), ds_soil = Some (JNum 31),
                   ds_level = Some (JNum 56), ds_flow = Some (JNum 1)\<rparr>, h_stopped_early = True\<rparr> ! 2) =
     Some 8000"
proof -
  have "no_sep ''manual''" by (simp add: no_sep_def)
  then have "list_all csv_clean [\<lparr>h_timestamp = 1700000000000, h_mode = ''manual'', h_duration = 8000,
      h_liters = 2 / 15,
      h_sensors = \<lparr>ds_temp = Some (JNum 24), ds_hum = Some (JNum 66), ds_soil = Some (JNum 31),
                   ds_level = Some (JNum 56), ds_flow = Some (JNum 1)\<rparr>, h_stopped_early = True\<rparr>]"
    by (simp add: csv_clean_def no_sep_int_str)
  from export_csv_roundtrip [OF _ this] show ?thesis by simp
qed

end
