(* ===== verification/Gauge.thy ===== *)
theory Gauge
  imports History
begin

text \<open>
  The sensor gauges: \<open>CircleGauge\<close> (frontend/src/components/CircleGauge.jsx) draws a
  reading as the filled part of a circle and its text, and \<open>SensorPanel\<close>
  (frontend/src/components/SensorPanel.jsx) lays out four of them for the dashboard's
  readings. The SVG geometry is kept as the numbers the component computes (radius,
  circumference, dash offset, font sizes), on reals with \<open>Math.PI\<close> as \<open>pi\<close>; a reading
  is converted to a number as the dashboard's comparisons convert it
  (\<open>Dashboard.js_number\<close>), and \<open>NaN\<close> is \<open>None\<close>.
\<close>

text \<open>\<open>Math.round(x)\<close>: the nearest integer, halves rounded up.\<close>

definition js_round :: "real \<Rightarrow> int" where
  "js_round x = \<lfloor>x + 1 / 2\<rfloor>"

text \<open>
  \<open>v = Math.max(0, Math.min(100, Math.round(value)))\<close> with the default \<open>value = 0\<close>
  for \<open>undefined\<close>; readings are integers, so \<open>Math.round\<close> leaves them alone, and
  \<open>NaN\<close> passes through \<open>min\<close> and \<open>max\<close>.
\<close>

definition gauge_value :: "jval option \<Rightarrow> int option" where
  "gauge_value v =
     (case v of None \<Rightarrow> Some 0 | Some _ \<Rightarrow> map_option (\<lambda>n. max 0 (min 100 n)) (js_number v))"

record gauge =
  g_value :: "int option"
  g_label :: string
  g_unit :: string
  g_color :: string
  g_size :: int
  g_stroke :: int

definition circle_gauge :: "jval option \<Rightarrow> string \<Rightarrow> string \<Rightarrow> string \<Rightarrow> int \<Rightarrow> int \<Rightarrow> gauge" where
  "circle_gauge value label unit color sz stroke =
     \<lparr>g_value = gauge_value value, g_label = label, g_unit = unit, g_color = color,
      g_size = sz, g_stroke = stroke\<rparr>"

definition gauge_radius :: "gauge \<Rightarrow> real" where
  "gauge_radius g = real_of_int (g_size g - g_stroke g) / 2"

definition gauge_circumference :: "gauge \<Rightarrow> real" where
  "gauge_circumference g = 2 * pi * gauge_radius g"

text \<open>\<open>strokeDashoffset\<close>: the unfilled share of the circumference.\<close>

definition gauge_offset :: "gauge \<Rightarrow> real option" where
  "gauge_offset g = map_option (\<lambda>v. gauge_circumference g * (1 - real_of_int v / 100)) (g_value g)"

text \<open>The value text \<open>{v}{unit}\<close>, and the two font sizes.\<close>

definition gauge_text :: "gauge \<Rightarrow> string" where
  "gauge_text g = (case g_value g of None \<Rightarrow> ''NaN'' | Some v \<Rightarrow> int_str v) @ g_unit g"

definition gauge_font_sizes :: "gauge \<Rightarrow> int \<times> int" where
  "gauge_font_sizes g =
     (js_round (real_of_int (g_size g) * 15 / 100), js_round (real_of_int (g_size g) * 65 / 1000))"

text \<open>
  The SVG of one gauge: a square of side \<open>size\<close> whose centre carries both circles
  (the faint track and the coloured arc, with the same radius and stroke) and the two
  texts; the arc is dashed with the circumference and offset by the unfilled share.
\<close>

definition gauge_center :: "gauge \<Rightarrow> real" where
  "gauge_center g = real_of_int (g_size g) / 2"

record gauge_svg =
  svg_side :: int
  svg_center :: real
  svg_radius :: real
  svg_stroke :: int
  svg_dasharray :: real
  svg_dashoffset :: "real option"
  svg_value_text :: string
  svg_label :: string

definition gauge_svg :: "gauge \<Rightarrow> gauge_svg" where
  "gauge_svg g =
     \<lparr>svg_side = g_size g, svg_center = gauge_center g, svg_radius = gauge_radius g,
      svg_stroke = g_stroke g, svg_dasharray = gauge_circumference g, svg_dashoffset = gauge_offset g,
      svg_value_text = gauge_text g, svg_label = g_label g\<rparr>"

text \<open>
  The temperature unit as the source file spells it: the UTF-8 bytes of \<open>\<degree>C\<close> read
  as Latin-1 once more, so the string holds U+00C2, U+00B0 and \<open>C\<close>.
\<close>

definition temp_unit :: string where
  "temp_unit = map char_of [0xC2 :: nat, 0xB0, 0x43]"

definition sensor_panel :: "dash_sensors \<Rightarrow> gauge list" where
  "sensor_panel s =
     [circle_gauge (ds_temp s) ''Temperature'' temp_unit ''#FB7185'' 160 14,
      circle_gauge (ds_hum s) ''Humidity'' ''%'' ''#60A5FA'' 160 14,
      circle_gauge (ds_soil s) ''Soil moisture'' ''%'' ''#D97706'' 160 14,
      circle_gauge (ds_level s) ''Water level'' ''%'' ''#38BDF8'' 160 14]"

subsection \<open>Lemmas\<close>

text \<open>The ring's outer edge touches the sides of the square: the stroke is centred on the circle.\<close>

lemma gauge_ring_fits: "svg_radius (gauge_svg g) + real_of_int (svg_stroke (gauge_svg g)) / 2 = svg_center (gauge_svg g)"
  by (simp add: gauge_svg_def gauge_radius_def gauge_center_def field_simps)

text \<open>The visible arc, dash length minus offset, is the value's share of the circumference.\<close>

lemma gauge_arc_share:
  assumes "g_value g = Some v"
  shows "svg_dashoffset (gauge_svg g) = Some (svg_dasharray (gauge_svg g) - svg_dasharray (gauge_svg g) * real_of_int v / 100)"
  using assms by (simp add: gauge_svg_def gauge_offset_def algebra_simps)

lemma gauge_value_bounds: "gauge_value v = Some n \<Longrightarrow> 0 \<le> n \<and> n \<le> 100"
  by (auto simp: gauge_value_def split: option.splits)

lemma gauge_value_number:
  "js_number v = Some n \<Longrightarrow> gauge_value v = Some (max 0 (min 100 n))"
  by (cases v) (simp_all add: gauge_value_def js_number_def)

text \<open>
  The filled arc lies within the circle: for a numeric reading the dash offset is between
  0 (a full gauge) and the circumference (an empty one); a reading that is not a number
  leaves the offset \<open>NaN\<close>.
\<close>

lemma gauge_offset_bounds:
  assumes "stroke \<le> sz"
    and "gauge_offset (circle_gauge value label unit color sz stroke) = Some off"
  shows "0 \<le> off \<and> off \<le> gauge_circumference (circle_gauge value label unit color sz stroke)"
proof -
  let ?g = "circle_gauge value label unit color sz stroke"
  obtain v where v: "gauge_value value = Some v"
    and off: "off = gauge_circumference ?g * (1 - real_of_int v / 100)"
    using assms(2) by (auto simp: gauge_offset_def circle_gauge_def)
  have "0 \<le> v" "v \<le> 100" using gauge_value_bounds [OF v] by auto
  then have f: "0 \<le> 1 - real_of_int v / 100" "1 - real_of_int v / 100 \<le> 1" by simp_all
  have c: "0 \<le> gauge_circumference ?g"
    using assms(1) by (simp add: gauge_circumference_def gauge_radius_def circle_gauge_def)
  have "gauge_circumference ?g * (1 - real_of_int v / 100) \<le> gauge_circumference ?g"
    using f(2) c by (rule mult_left_le)
  with f(1) c off show ?thesis by simp
qed

end
