(* ===== verification/Dashboard_View.thy ===== *)
theory Dashboard_View
  imports Gauge
begin

text \<open>
  The dashboard page as the user sees and drives it (the JSX of
  frontend/src/pages/SmartWateringDashboard.jsx): \<open>dash_view\<close> is what one render shows
  and which controls are disabled, \<open>ui_click\<close> dispatches a click to the handler of
  \<open>Dashboard\<close> only when the rendered control is enabled (a browser fires no
  \<open>onClick\<close> on a disabled button), and \<open>page_step\<close> is one event of the page
  followed by its automatic-rule effect. \<open>dash_reach\<close> collects the states of a
  mounted page under every order of clicks, pushes, answers and ticks.
\<close>

subsection \<open>The rendered page\<close>

text \<open>The mode button's label; the emoji are their UTF-8 bytes.\<close>

definition mode_label :: "string \<Rightarrow> string" where
  "mode_label m =
     (if m = ''manual'' then map char_of [0xF0 :: nat, 0x9F, 0x9B, 0xA0] @ '' Manual''
      else if m = ''automatic'' then map char_of [0xE2 :: nat, 0x9A, 0xA1] @ '' Automatic''
      else map char_of [0xF0 :: nat, 0x9F, 0xA7, 0xA0] @ '' AI Brain'')"

text \<open>The options of the duration selector, in seconds.\<close>

definition duration_options :: "int list" where
  "duration_options = [5, 10, 15]"

text \<open>
  The button under "Pump Control": Start (with its disabled flag and label) while the
  page believes the pump is off, Stop (with its disabled flag) otherwise.
\<close>

datatype pump_button = Start_button bool string | Stop_button bool

text \<open>The AI insight panel: the readings it prints (\<open>None\<close>: the render throws) and the pump status.\<close>

record ai_panel =
  ai_readings :: "string option list"
  ai_pump :: string

text \<open>The confirmation modal, rendered while \<open>stopConfirmData\<close> is set.\<close>

record modal_view =
  m_remaining :: string
  m_mode :: string
  m_readings :: "string option list"
  m_cancel_disabled :: bool
  m_confirm_disabled :: bool
  m_confirm_label :: string

record dash_view =
  v_mode_label :: string
  v_mode_disabled :: bool
  v_connection :: string
  v_ai_panel :: "ai_panel option"
  v_gauges :: "gauge list"
  v_status_text :: string
  v_status_detail :: string
  v_duration :: int
  v_duration_disabled :: bool
  v_pump_button :: pump_button
  v_hint :: string
  v_backend :: string
  v_modal :: "modal_view option"

definition bullet :: string where
  "bullet = map char_of [0xE2 :: nat, 0x97, 0x8F]"

definition modal_of :: "bool \<Rightarrow> stop_confirm \<Rightarrow> modal_view" where
  "modal_of submitting c =
     \<lparr>m_remaining = format_ms (sc_remaining c), m_mode = sc_mode c,
      m_readings = map jsx_child [ds_temp (sc_sensors c), ds_hum (sc_sensors c),
                                  ds_soil (sc_sensors c), ds_level (sc_sensors c)],
      m_cancel_disabled = submitting, m_confirm_disabled = submitting,
      m_confirm_label = (if submitting then ''Stopping...'' else ''Stop anyway'')\<rparr>"

definition dash_view :: "dash_state \<Rightarrow> dash_view" where
  "dash_view d =
     \<lparr>v_mode_label = mode_label (d_mode d),
      v_mode_disabled = d_loading d,
      v_connection = (if d_connected d then ''Connected'' else ''Disconnected''),
      v_ai_panel = (if d_mode d = ''ai''
                    then Some \<lparr>ai_readings = map jsx_child [ds_soil (d_sensors d), ds_temp (d_sensors d),
                                                           ds_hum (d_sensors d)],
                               ai_pump = (if d_pump_on d then ''WATERING (AI decision)'' else ''WAITING'')\<rparr>
                    else None),
      v_gauges = sensor_panel (d_sensors d),
      v_status_text = status_text d,
      v_status_detail = (if d_pump_on d then ''Pump is running'' else ''System idle''),
      v_duration = d_manual_duration d,
      v_duration_disabled = (d_mode d = ''ai''),
      v_pump_button =
        (if \<not> d_pump_on d
         then Start_button (d_loading d \<or> \<not> d_connected d \<or> d_mode d = ''ai'')
                (if d_mode d = ''ai'' then ''AI Controlling...'' else ''Start Pump'')
         else Stop_button (d_loading d \<or> \<not> d_connected d)),
      v_hint = (if d_mode d = ''ai'' then ''Manual control disabled in AI Mode.''
                else ''Manual stop may require confirmation.''),
      v_backend = bullet @ (if d_connected d then '' Connected'' else '' Disconnected''),
      v_modal = map_option (modal_of (d_stop_submitting d)) (d_stop_confirm d)\<rparr>"

subsection \<open>Clicks\<close>

text \<open>
  What the user can do on the page: press the mode button, the pump button, pick the
  \<open>i\<close>-th option of the duration selector (whose \<open>onChange\<close> stores
  \<open>parseInt\<close> of the option's value, the option itself), press Clear on the
  last-watered card (its \<open>onClear\<close> at line 431), and press the modal's buttons.
\<close>

datatype ui_event =
    Click_mode
  | Click_pump
  | Select_duration nat
  | Click_clear_last
  | Click_cancel
  | Click_confirm

fun ui_click :: "ui_event \<Rightarrow> dash_state \<Rightarrow> dash_state" where
  "ui_click Click_mode d = (if v_mode_disabled (dash_view d) then d else toggle_mode d)"
| "ui_click Click_pump d =
     (case v_pump_button (dash_view d) of
        Start_button dis _ \<Rightarrow> if dis then d else click_start d
      | Stop_button dis \<Rightarrow> if dis then d else request_stop d)"
| "ui_click (Select_duration i) d =
     (if v_duration_disabled (dash_view d) \<or> length duration_options \<le> i then d
      else d\<lparr>d_manual_duration := duration_options ! i\<rparr>)"
| "ui_click Click_clear_last d = clear_last_watered d"
| "ui_click Click_cancel d =
     (case v_modal (dash_view d) of
        None \<Rightarrow> d
      | Some m \<Rightarrow> if m_cancel_disabled m then d else cancel_stop d)"
| "ui_click Click_confirm d =
     (case v_modal (dash_view d) of
        None \<Rightarrow> d
      | Some m \<Rightarrow> if m_confirm_disabled m then d else confirm_stop d)"

subsection \<open>Events of the page\<close>

text \<open>
  Everything that changes the page's state: a click, a websocket push or connection
  change, the end of the initial fetch, the answer to one of its API calls, and a tick
  of the countdown. \<open>handleAutoStart\<close>'s failure only logs and is not an event.
\<close>

datatype page_event =
    Ui ui_event
  | Sensor_push "(string \<times> jval) list"
  | Status_push "(string \<times> jval) list"
  | Mode_push "(string \<times> jval) list"
  | Socket_up
  | Socket_down
  | Fetch_done "(string \<times> jval) list" "(string \<times> jval) list"
  | Fetch_error
  | Start_reply api_outcome
  | Stop_reply api_outcome timestamp
  | Mode_reply api_outcome
  | Clock timestamp

fun page_apply :: "page_event \<Rightarrow> dash_state \<Rightarrow> dash_state" where
  "page_apply (Ui e) d = ui_click e d"
| "page_apply (Sensor_push j) d = handle_sensor_update j d"
| "page_apply (Status_push j) d = handle_status_update j d"
| "page_apply (Mode_push j) d = handle_mode_update j d"
| "page_apply Socket_up d = connected_state d"
| "page_apply Socket_down d = handle_disconnect d"
| "page_apply (Fetch_done sj stj) d = initial_data_loaded sj stj d"
| "page_apply Fetch_error d = initial_fetch_failed d"
| "page_apply (Start_reply out) d = start_answered out d"
| "page_apply (Stop_reply out now) d = stop_answered out now d"
| "page_apply (Mode_reply out) d = toggle_answered out d"
| "page_apply (Clock now) d = tick now d"

text \<open>After each render the automatic rule runs when its dependencies changed.\<close>

definition page_step :: "page_event \<Rightarrow> dash_state \<Rightarrow> dash_state" where
  "page_step ev d = auto_rule d (page_apply ev d)"

text \<open>
  The states of a page mounted on a websocket service \<open>ws\<close> with \<open>stored\<close> in
  \<open>localStorage\<close>, under any sequence of events. Answers are not tied to the calls
  they answer, so this over-approximates the page; its invariants hold a fortiori.
\<close>

inductive dash_reach :: "dash_state \<Rightarrow> bool" where
  mount: "dash_reach (fst (dash_mount k (init_dash stored) ws))"
| step: "dash_reach d \<Longrightarrow> dash_reach (page_step ev d)"

subsection \<open>The PumpControl component\<close>

text \<open>
  frontend/src/components/PumpControl.jsx, which no page renders: a toggle button
  labelled with the pump state, pressed while the pump is on and disabled outside
  manual mode; a click on the enabled button runs the \<open>togglePump\<close> callback.
\<close>

record pump_control =
  pc_label :: string
  pc_pressed :: bool
  pc_disabled :: bool

definition pump_control :: "bool \<Rightarrow> string \<Rightarrow> pump_control" where
  "pump_control pon md =
     \<lparr>pc_label = (if pon then ''Pump ON'' else ''Pump OFF''), pc_pressed = pon,
      pc_disabled = (md \<noteq> ''manual'')\<rparr>"

definition pump_control_click :: "bool \<Rightarrow> string \<Rightarrow> ('s \<Rightarrow> 's) \<Rightarrow> 's \<Rightarrow> 's" where
  "pump_control_click pon md toggle s =
     (if pc_disabled (pump_control pon md) then s else toggle s)"

subsection \<open>The invariant\<close>

text \<open>
  A start request the page may send: 8 s, or one of the selector's durations; and a
  stop being submitted has its confirmation open.
\<close>

fun start_call_ok :: "api_call \<Rightarrow> bool" where
  "start_call_ok (Start_pump_call (Some n)) = (n \<in> set (8 # duration_options))"
| "start_call_ok (Start_pump_call None) = False"
| "start_call_ok _ = True"

definition dash_inv :: "dash_state \<Rightarrow> bool" where
  "dash_inv d =
     (d_manual_duration d \<in> set duration_options \<and> list_all start_call_ok (d_calls d) \<and>
      (d_stop_submitting d \<longrightarrow> d_stop_confirm d \<noteq> None))"

subsection \<open>Lemmas\<close>

lemmas ui_handler_defs = toggle_mode_def click_start_def request_stop_def cancel_stop_def
  confirm_stop_def clear_last_watered_def modal_of_def

lemma dash_view_controls [simp]:
  "v_mode_disabled (dash_view d) = d_loading d"
  "v_duration_disabled (dash_view d) = (d_mode d = ''ai'')"
  "v_pump_button (dash_view d) =
     (if \<not> d_pump_on d
      then Start_button (d_loading d \<or> \<not> d_connected d \<or> d_mode d = ''ai'')
             (if d_mode d = ''ai'' then ''AI Controlling...'' else ''Start Pump'')
      else Stop_button (d_loading d \<or> \<not> d_connected d))"
  "v_hint (dash_view d) = (if d_mode d = ''ai'' then ''Manual control disabled in AI Mode.''
                           else ''Manual stop may require confirmation.'')"
  "v_modal (dash_view d) = map_option (modal_of (d_stop_submitting d)) (d_stop_confirm d)"
  by (simp_all add: dash_view_def)

lemma dash_inv_mount: "dash_inv (fst (dash_mount k (init_dash stored) ws))"
  by (simp add: dash_inv_def dash_mount_def handle_connect_def connected_state_def init_dash_def
      duration_options_def Let_def split: prod.split)

lemma dash_inv_click_start: "dash_inv d \<Longrightarrow> dash_inv (click_start d)"
  by (auto simp: dash_inv_def click_start_def Let_def duration_options_def)

lemma dash_inv_ui: "dash_inv d \<Longrightarrow> dash_inv (ui_click e d)"
proof (cases e)
  case Click_pump
  assume "dash_inv d"
  then show ?thesis using Click_pump dash_inv_click_start [of d]
    by (auto simp: dash_inv_def request_stop_def)
qed (auto simp: dash_inv_def ui_handler_defs
       split: option.split)

lemma dash_inv_apply:
  assumes "dash_inv d"
  shows "dash_inv (page_apply ev d)"
proof (cases ev)
  case (Ui e)
  then show ?thesis using dash_inv_ui [OF assms] by simp
qed (use assms in \<open>auto simp: dash_inv_def handle_sensor_update_def handle_status_update_def
       handle_mode_update_def connected_state_def handle_disconnect_def initial_data_loaded_def
       initial_fetch_failed_def start_answered_def stop_answered_def toggle_answered_def tick_def Let_def
       split: api_outcome.split option.split\<close>)

lemma dash_inv_auto_rule: "dash_inv d \<Longrightarrow> dash_inv (auto_rule b d)"
  by (simp add: dash_inv_def auto_rule_def)

lemma dash_inv_reach: "dash_reach d \<Longrightarrow> dash_inv d"
  by (induction rule: dash_reach.induct)
     (simp_all add: dash_inv_mount page_step_def dash_inv_apply dash_inv_auto_rule)

lemma confirm_single_stop:
  assumes "d_stop_submitting d"
  shows "filter ((=) Stop_pump_call) (d_calls (ui_click e d)) = filter ((=) Stop_pump_call) (d_calls d)"
  using assms
  by (cases e) (auto simp: ui_handler_defs Let_def split: option.split)

text \<open>
  C29: in AI mode the hint under the pump button says manual control is disabled, yet
  the Stop button stays enabled: its confirmation sends a stop, and the backend, which
  checks only that the pump runs, turns the AI's watering off.
\<close>

theorem ai_mode_manual_stop:
  assumes "d_mode d = ''ai''" and "d_pump_on d" and "\<not> d_loading d" and "d_connected d"
    and "\<not> d_stop_submitting d" and "mode (sys w) = AI" and "pump_on (sys w)"
  shows "v_hint (dash_view d) = ''Manual control disabled in AI Mode.'' \<and>
         last (d_calls (ui_click Click_confirm (ui_click Click_pump d))) = Stop_pump_call \<and>
         \<not> pump_on (sys (snd (serve Stop_pump_call now w)))"
  using assms
  by (simp add: ui_handler_defs serve_def api_pump_stop_def http_result_def)

theorem ai_mode_manual_stop_witness:
  "v_hint (dash_view ((init_dash None)\<lparr>d_mode := ''ai'', d_pump_on := True, d_loading := False,
                                       d_connected := True\<rparr>)) = ''Manual control disabled in AI Mode.'' \<and>
   last (d_calls (ui_click Click_confirm (ui_click Click_pump
     ((init_dash None)\<lparr>d_mode := ''ai'', d_pump_on := True, d_loading := False, d_connected := True\<rparr>))))
     = Stop_pump_call \<and>
   \<not> pump_on (sys (snd (serve Stop_pump_call 5000
       ((init_world 0)\<lparr>sys := init_system_state\<lparr>mode := AI, pump_on := True\<rparr>\<rparr>))))"
  by (rule ai_mode_manual_stop) (simp_all add: init_dash_def)

text \<open>
  C31: a Start click in manual mode, end to end: the page requests the selected duration,
  the backend (outside AI mode, pump off) runs the pump for that many seconds with an
  auto-stop timer, and the answer raises no alert on the page.
\<close>

lemma manual_start_end_to_end:
  assumes "d_mode d = ''manual''" and "\<not> d_pump_on d" and "\<not> d_loading d" and "d_connected d"
    and "mode (sys w) \<noteq> AI" and "\<not> pump_on (sys w)"
  defines "c \<equiv> Start_pump_call (Some (d_manual_duration d))"
  shows "last (d_calls (ui_click Click_pump d)) = c \<and>
         pump_on (sys (snd (serve c now w))) \<and>
         pump_duration (sys (snd (serve c now w))) = d_manual_duration d * 1000 \<and>
         timers (snd (serve c now w)) = timers w @ [now + timer_delay (d_manual_duration d * 1000)] \<and>
         start_answered (request_outcome (Fetched (fst (serve c now w)))) d' = d'"
  using assms
  by (simp add: ui_handler_defs Let_def serve_def api_pump_start_def http_result_def
      pump_start_response_def request_outcome_def start_answered_def)

theorem manual_start_end_to_end_witness:
  "last (d_calls (ui_click Click_pump ((init_dash None)\<lparr>d_mode := ''manual'', d_loading := False,
       d_connected := True\<rparr>))) = Start_pump_call (Some 10) \<and>
   pump_on (sys (snd (serve (Start_pump_call (Some 10)) 1000 (init_world 0)))) \<and>
   pump_duration (sys (snd (serve (Start_pump_call (Some 10)) 1000 (init_world 0)))) = 10000"
  using manual_start_end_to_end [where d = "(init_dash None)\<lparr>d_mode := ''manual'', d_loading := False,
       d_connected := True\<rparr>" and w = "init_world 0" and now = 1000 and d' = "init_dash None"]
  by (simp add: init_dash_def init_world_def init_system_state_def)

text \<open>
  C32: finding: the confirmation outlives the pump: a status broadcast reporting the pump off (the
  backend's auto-stop, say) leaves the modal open and enabled, "Stop anyway" then sends
  a stop the backend rejects, and the page shows the rejection as an alert.
\<close>

lemma stale_stop_modal:
  assumes "d_stop_confirm d = Some c" and "\<not> d_stop_submitting d"
    and "\<not> st_pump_on st" and "\<not> pump_on (sys w)"
  defines "d1 \<equiv> page_step (Status_push (status_json st)) d"
  shows "v_modal (dash_view d1) = Some (modal_of False c) \<and>
         last (d_calls (ui_click Click_confirm d1)) = Stop_pump_call \<and>
         last (d_alerts (stop_answered (request_outcome (Fetched (fst (serve Stop_pump_call now w)))) t
                           (ui_click Click_confirm d1))) = ''Failed to stop pump: Pump is not running''"
proof -
  have "d_stop_confirm d1 = Some c" and "\<not> d_stop_submitting d1"
    using assms(1,2) by (simp_all add: d1_def page_step_def auto_rule_def handle_status_update_def Let_def)
  moreover have "fst (serve Stop_pump_call now w) = error_response Not_running"
    using assms(4) by (simp add: serve_def api_pump_stop_def pump_stop_response_def)
  then have "request_outcome (Fetched (fst (serve Stop_pump_call now w))) = Thrown (error_message Not_running)"
    by (simp only: request_outcome_error_response)
  ultimately show ?thesis
    by (simp add: ui_handler_defs stop_answered_def Let_def)
qed

theorem stale_stop_modal_witness:
  "last (d_alerts (stop_answered
     (request_outcome (Fetched (fst (serve Stop_pump_call 9000 (init_world 0))))) 9000
     (ui_click Click_confirm (page_step (Status_push (status_json (status_of init_system_state 9000)))
        ((init_dash None)\<lparr>d_pump_on := True, d_stop_confirm := Some \<lparr>sc_mode = ''manual'',
           sc_remaining = 3000, sc_sensors = d_sensors (init_dash None)\<rparr>\<rparr>)))))
   = ''Failed to stop pump: Pump is not running''"
  using stale_stop_modal [where d = "(init_dash None)\<lparr>d_pump_on := True, d_stop_confirm := Some \<lparr>sc_mode = ''manual'',
           sc_remaining = 3000, sc_sensors = d_sensors (init_dash None)\<rparr>\<rparr>"
      and c = "\<lparr>sc_mode = ''manual'', sc_remaining = 3000, sc_sensors = d_sensors (init_dash None)\<rparr>"
      and st = "status_of init_system_state 9000" and w = "init_world 0" and now = 9000 and t = 9000]
  by (simp add: init_dash_def init_world_def init_system_state_def status_of_def)

text \<open>
  C30: on a mounted page, whatever the order of clicks, pushes, answers and ticks, the
  selected duration is one of the selector's options and every start request the page
  has sent asks for 5, 8, 10 or 15 s; while a stop is being submitted the confirmation
  stays open with its Stop button disabled and labelled "Stopping...", so the
  confirmation cannot send a second stop.
\<close>

theorem dash_reach_requests:
  assumes "dash_reach d"
  shows "d_manual_duration d \<in> {5, 10, 15} \<and>
         (\<forall>n. Start_pump_call (Some n) \<in> set (d_calls d) \<longrightarrow> n \<in> {5, 8, 10, 15}) \<and>
         Start_pump_call None \<notin> set (d_calls d) \<and>
         (d_stop_submitting d \<longrightarrow>
            (\<exists>m. v_modal (dash_view d) = Some m \<and> m_confirm_disabled m \<and> m_confirm_label m = ''Stopping...''))"
proof -
  from dash_inv_reach [OF assms] have i: "dash_inv d" .
  then have ok: "start_call_ok c" if "c \<in> set (d_calls d)" for c
    using that by (simp add: dash_inv_def list_all_iff)
  have "d_manual_duration d \<in> {5, 10, 15}"
    using i by (simp add: dash_inv_def duration_options_def)
  moreover have "n \<in> {5, 8, 10, 15}" if "Start_pump_call (Some n) \<in> set (d_calls d)" for n
    using ok [OF that] by (auto simp: duration_options_def)
  moreover have "Start_pump_call None \<notin> set (d_calls d)"
    using ok by fastforce
  moreover have "\<exists>m. v_modal (dash_view d) = Some m \<and> m_confirm_disabled m \<and> m_confirm_label m = ''Stopping...''"
    if "d_stop_submitting d"
    using i that by (auto simp: dash_inv_def modal_of_def)
  ultimately show ?thesis by blast
qed

theorem dash_reach_requests_witness:
  "d_manual_duration (page_step (Ui Click_pump) (page_step (Ui (Select_duration 2))
      (page_step (Mode_push [(''mode'', JStr ''manual'')])
        (page_step Socket_up (fst (dash_mount 0 (init_dash None) ws_init)))))) = 15 \<and>
   Start_pump_call None \<notin> set (d_calls (page_step (Ui Click_pump) (page_step (Ui (Select_duration 2))
      (page_step (Mode_push [(''mode'', JStr ''manual'')])
        (page_step Socket_up (fst (dash_mount 0 (init_dash None) ws_init)))))))"
proof -
  define m where "m = fst (dash_mount 0 (init_dash None) ws_init)"
  define u where "u = page_step Socket_up m"
  define p where "p = page_step (Mode_push [(''mode'', JStr ''manual'')]) u"
  define q where "q = page_step (Ui (Select_duration 2)) p"
  have r: "dash_reach (page_step (Ui Click_pump) q)"
    unfolding q_def p_def u_def m_def by (intro dash_reach.intros)
  have "m = (init_dash None)\<lparr>d_calls := [Get_sensors, Get_status]\<rparr>"
    unfolding m_def by (simp add: dash_mount_unconnected ws_init_def ws_is_connected_def init_dash_def)
  then have "d_mode u = ''automatic'' \<and> \<not> d_pump_on u \<and> \<not> d_loading u \<and> d_connected u"
    unfolding u_def by (simp add: page_step_def auto_rule_def connected_state_def init_dash_def)
  then have "d_mode p = ''manual'' \<and> \<not> d_pump_on p \<and> \<not> d_loading p \<and> d_connected p"
    unfolding p_def by (simp add: page_step_def auto_rule_def auto_start_due_def handle_mode_update_def str_or_def)
  then have "d_manual_duration q = 15 \<and> d_mode q = ''manual'' \<and> \<not> d_pump_on q \<and> \<not> d_loading q \<and> d_connected q"
    unfolding q_def by (simp add: page_step_def auto_rule_def auto_start_due_def duration_options_def)
  then have "d_manual_duration (page_step (Ui Click_pump) q) = 15"
    by (simp add: page_step_def auto_rule_def auto_start_due_def click_start_def Let_def)
  with dash_reach_requests [OF r] show ?thesis by (simp add: q_def p_def u_def m_def)
qed
end
