(* ===== verification/Spec2Isabelle.thy ===== *)
theory Spec2Isabelle
  imports Dashboard App Gauge Dashboard_View
begin

text \<open>
  \<^bold>\<open>A verification library for the IoT-AI-Irrigation system\<close>
  (src/DATKLL/DA_TKLL-dev). The system has a Node.js back end (backend/server.js with
  backend/config.js) and a React dashboard (frontend/src). The back end keeps one
  \<open>systemState\<close> (pump on/off, mode, start time, duration, last command). It receives
  sensor readings from the MQTT broker, publishes pump commands back, serves a REST API,
  and pushes status and sensor events to the dashboards over Socket.IO. In AI mode every
  reading spawns a Python process whose answer starts or stops the pump.

  \<^bold>\<open>Theories and correspondence.\<close>
  \<^item> Prelude: JavaScript values (\<open>jval\<close>, truthiness, \<open>||\<close> as \<open>js_or\<close>, and as
    \<open>env_or\<close> on the environment variables of config.js and websocketService.js), the
    modes and their wire names (\<open>parse_mode\<close> is the \<open>['automatic','manual','ai']\<close>
    check of \<open>POST /api/mode\<close>), a decimal printer \<open>nat_str\<close>, \<open>remove_at\<close>.
  \<^item> Gateway: config.js topics and MQTT options; the MQTT client as a record
    (connected, subscriptions) with its \<open>'connect'\<close> and \<open>'offline'\<close> handlers;
    \<open>publishCommand\<close> as \<open>publish_command\<close> (a message only on a connected
    client); the \<open>'message'\<close> handler's \<open>sensorData\<close> merge as \<open>merge_sensor_data\<close>,
    with \<open>JSON.parse\<close> results as the datatype \<open>payload\<close>.
  \<^item> Adapter: \<open>askPythonAI\<close> as \<open>ask_python_ai\<close> on the parsed process output and the
    strict comparisons of its caller as \<open>decide\<close>.
  \<^item> Hub: the status object of \<open>emitSystemState\<close> and \<open>GET /api/status\<close>, the
    Socket.IO events, \<open>io.emit\<close>/\<open>socket.emit\<close> with their recipients, and the
    JSON bodies.
  \<^item> State_Manager: the whole back-end process as the record \<open>world\<close>: \<open>sys\<close> is
    \<open>systemState\<close>, \<open>sensors\<close> is \<open>sensorData\<close>, \<open>mqtt\<close> the client, \<open>timers\<close>
    the due times of the pending \<open>setTimeout\<close> callbacks, \<open>ai_pending\<close> the handlers
    suspended on \<open>await askPythonAI\<close>, \<open>clients\<close> the connected sockets, \<open>log\<close> the
    observable effects (published commands, emissions, spawned processes) and \<open>clock\<close>.
    One definition per function: \<open>start_pump_internal\<close>, \<open>stop_pump_internal\<close>,
    \<open>emit_system_state\<close>, \<open>api_set_mode\<close>, \<open>api_pump_start\<close>, \<open>api_pump_stop\<close>,
    \<open>on_mqtt_message\<close> with its continuation \<open>ai_resume\<close>/\<open>ai_apply\<close>, the timer
    callback \<open>fire_timer\<close>/\<open>auto_stop_callback\<close>, and the socket handlers. Node's event
    loop runs one callback to completion at a time, so every callback is one \<open>event\<close>,
    \<open>handle\<close> dispatches it, \<open>step\<close> stamps the clock, \<open>run\<close> folds a timed event
    sequence and \<open>reach\<close> is the inductive set of reachable processes (events at
    non-decreasing times). A rejected HTTP request is an \<open>api_error\<close> (\<open>Inl\<close>) and
    leaves the world unchanged except the clock (\<open>http_result\<close>).
  \<^item> Ws_Client and Api_Client: frontend/src/services/websocketService.js (the listener
    registry, \<open>emit\<close>'s per-listener try/catch, \<open>connect\<close>) and apiService.js
    (\<open>apiCall\<close>: URL, headers, \<open>fetch\<close>, the throw on a non-2xx status), with
    \<open>serve\<close> routing a request to the back-end handlers and their JSON responses.
  \<^item> Display: \<open>formatMs\<close> of the dashboard and of Confirmstop.jsx,
    \<open>formatElapsed\<close> of LastWatered.jsx with the card's own state (mount from the prop
    or storage, "Mark now", "Clear", \<open>lw_text\<close>), and a reader of the printed text.
  \<^item> Dashboard: SmartWateringDashboard.jsx as the record \<open>dash_state\<close>: its mount
    effect (\<open>dash_mount\<close>: connect, five listeners, \<open>handleConnect\<close>, the initial
    fetch) and cleanup (\<open>dash_unmount\<close>), its socket handlers, the initial fetch, the
    automatic-mode rule (in automatic mode, soil below 40 and level above 20 with the pump
    off request an 8 s start), the countdown tick, the start button, the stop modal and
    the mode toggle. A handler that awaits an API call is split at the call, which is
    recorded in \<open>d_calls\<close>, and its continuation (\<open>start_answered\<close>,
    \<open>stop_answered\<close>, \<open>toggle_answered\<close>) records a failure's \<open>alert\<close> in
    \<open>d_alerts\<close>.
  \<^item> Dashboard_View: the same page's render as \<open>dash_view\<close> (button labels and disabled
    flags, connection texts, AI panel, status lines, duration select, confirm modal),
    \<open>ui_click\<close> (a click reaches its handler only when the rendered control is
    enabled), \<open>page_step\<close> (one click, push, answer or tick followed by the
    automatic-rule effect) and \<open>dash_reach\<close>, the states of a mounted page; also the
    unused PumpControl.jsx button (\<open>pump_control\<close>).
  \<^item> Confirm: confirmServices.js (the pending request and callbacks, \<open>confirm\<close> and
    \<open>cancel\<close> with their \<open>finally\<close>) and the ConfirmStop page (snapshot at mount,
    navigate back without a request, cleanup, the two buttons).
  \<^item> App: App.jsx, Login.jsx and NavTabs.jsx: \<open>localStorage\<close> as a map, the session
    test of \<open>ProtectedRoute\<close>, the routes, a history stack for navigation, and one
    React commit (\<open>commit\<close>: render, the \<open><Navigate>\<close> and confirm-page effects, the
    shell's effect on \<open>user\<close>) repeated by \<open>settle\<close> until the location is stable;
    \<open>app_step\<close> is a link, the back button, the login form (submitted only with
    both \<open>required\<close> inputs filled) or Logout, and
    \<open>app_reach\<close> the states reached from a page load.
  \<^item> History: History.jsx: rows, the CSV export with JavaScript's printing of numbers,
    readings and \<open>toFixed(3)\<close>, the page body (a note without rows, otherwise the
    newest-first table with React's rendering of cells), and clearing; \<open>split_on\<close> and \<open>read_int\<close> read the export back.
  \<^item> Gauge: CircleGauge.jsx (clamped value, radius, circumference, dash offset, text,
    font sizes, and the SVG they make up) and the four gauges of SensorPanel.jsx.
  \<^item> Hub also holds the JSON schema of the status object (\<open>status_schema\<close>,
    \<open>conforms\<close>), a specification of what the dashboard reads.
  \<^item> This theory: the abstract contract (\<open>spec_step\<close> on mode and pump) with the
    step-by-step refinement of the process, the properties of event sequences of the
    back end (auto-stop, stale timers and AI answers, bursts of starts), and the typing
    of the status object between back end and dashboard. The concrete runs defined here
    (\<open>restarted_world\<close>, \<open>ai_mode_world\<close>, ...) only instantiate those properties.

  \<^bold>\<open>What is proved.\<close> The claims are numbered C1 to C36.
  \<^item> State_Manager: the invariant \<open>world_inv\<close> (the pump is on exactly when it has a
    start time and the last command was a start; a stopped pump has duration 0; recorded
    times are never later than the clock) holds in every reachable process (C1); the
    behaviour of each route on every branch, errors included (C2 to C7); the remaining
    time never grows while the pump stays on (C8).
  \<^item> This theory, over arbitrary worlds and event sequences: every event refines the
    abstract machine, one abstract step or none (C9); a start arms the auto-stop timer,
    which does nothing before it is due and stops the pump when due (C11); concurrent
    starts are accepted once (C18); the status object is well typed and read back as
    sent (C19).
  \<^item> Adapter: when the AI answer means stop (C10). Gateway: a reading of 0 is
    discarded (C17).
  \<^item> Clients: the listener registry's on/off round trip and the isolation of throwing
    listeners (C20, C21), the orphaned socket (C22), error responses become thrown
    errors (C23), the printed remaining time reads back (C24).
  \<^item> Dashboard: the early-stop history race (C25), the initial fetch's countdown (C26)
    against the countdown after a broadcast, which agrees with the backend (C27), the
    page-driven automatic cycle (C28), the requests over all reachable page states (C30),
    and a manual Start click end to end through the backend (C31). A mount followed by
    its cleanup leaves the listener registry unchanged
    (\<open>Dashboard.dash_mount_unmount\<close>), and a stop being submitted cannot be sent
    twice (\<open>Dashboard_View.confirm_single_stop\<close>).
  \<^item> App: navigation terminates on a rendered page (C34) and a protected page is shown
    only to a logged-in user (C35). History: the CSV export round-trips for scalar
    readings (C36), and every table row has one cell per column header
    (\<open>History.table_row_columns\<close>). Gauge: the dash offset lies within the circle,
    the ring fits its square and the visible arc is the value's share
    (\<open>Gauge.gauge_offset_bounds\<close>, \<open>gauge_ring_fits\<close>, \<open>gauge_arc_share\<close>).

  \<^bold>\<open>Findings\<close>, each proved for every state where it applies:
  \<^item> a due auto-stop timer of an earlier cycle stops a later one (C12);
  \<^item> AI consultations are not single-flight (C13);
  \<^item> an AI answer that arrives after a switch to manual starts the pump in manual mode
    (C14), and such a pump never stops by itself (C15);
  \<^item> a stop while the broker connection is down never reaches the device (C16);
  \<^item> the start route accepts any integer duration, so 0 or a negative one leaves a
    running pump with a non-positive duration and a duration above 2147483 s arms a
    1 ms timer (both instances of C5);
  \<^item> in AI mode the dashboard says manual control is disabled but its Stop button
    still stops the pump (C29);
  \<^item> the stop confirmation stays open after the pump stopped on its own, and
    confirming it fails with an alert (C32);
  \<^item> after a failed confirm the confirm page keeps asking while a retry does nothing
    (C33).

  Others are recorded with the definitions that show them. Nothing in the frontend
  calls \<open>setPendingStop\<close> or \<open>registerHandlers\<close>, so the confirm page always
  navigates back. The temperature unit is mis-encoded (\<open>Gauge.temp_unit\<close>). The CSV
  export does not quote its fields (the hypothesis of C36).

  \<^bold>\<open>Bounds and fuel.\<close> Times are integer milliseconds (\<open>Date.now()\<close>); remaining time
  rounds up with \<open>(ms + 999) div 1000\<close> as \<open>Math.ceil\<close> does on non-negative values;
  \<open>setTimeout\<close> delays outside 1 .. 2147483647 become 1 as in Node. No back-end
  handler loops, so no fuel is needed. The one loop that is not structural, the
  shell's render/effect loop \<open>settle\<close>, is a \<open>function\<close> whose termination proof uses
  the measure (user effect still due, length of the history stack, distance of the
  location from a rendered route); the other loops (\<open>forEach\<close> over listeners, digit
  reading, joining and splitting text) are structural recursion. Numbers are integers
  below \<open>10^21\<close> in magnitude, where JavaScript prints them positionally; litres are
  exact rationals.

  \<^bold>\<open>Not modelled.\<close> The broker, the device firmware and the Socket.IO and HTTP
  transports (messages are delivered whole and in order); the Python model (its stdout
  is an input); JSX layout, class names, styles and colours (the rendered texts and
  disabled flags are modelled); \<open>console\<close> logging; \<open>toLocaleString\<close> (kept as a
  value); the Blob download of the CSV; \<open>GET /api/health\<close> (a constant answer).
  The dashboard's answers to its API calls are events not tied to the call they
  answer, an over-approximation under which its invariants hold a fortiori. Numeric
  strings in sensor payloads are kept as strings, not coerced, and a reading that is an
  object or array is one opaque value (so the CSV round trip is stated for scalar
  readings). The start route's \<open>duration\<close> is modelled as an integer or absent: a
  \<open>null\<close> (0 ms, the default not applied), a string or an object (a \<open>NaN\<close>
  duration, a \<open>null\<close> remaining time, a 1 ms timer) are not, since the model has no
  \<open>NaN\<close>; no bound on the reported remaining time is claimed for that reason.
\<close>

section \<open>The abstract contract of the state manager\<close>

text \<open>
  The abstract machine of the mode and the pump: modes are orthogonal to the pump, the
  pump can start when off and stop when on, and entering AI mode forces the pump off.
  \<open>abs_world\<close> reads the pair from a process.
\<close>

type_synonym spec_state = "mode \<times> bool"

inductive spec_step :: "spec_state \<Rightarrow> spec_state \<Rightarrow> bool" where
  spec_start: "spec_step (m, False) (m, True)"
| spec_stop: "spec_step (m, True) (m, False)"
| spec_set_mode: "spec_step (m, p) (m', p \<and> m' \<noteq> AI)"

definition abs_world :: "world \<Rightarrow> spec_state" where
  "abs_world w = (mode (sys w), pump_on (sys w))"

definition operator_event :: "event \<Rightarrow> bool" where
  "operator_event e = (case e of Http_pump_stop \<Rightarrow> True | Http_set_mode _ \<Rightarrow> True | _ \<Rightarrow> False)"

definition boot :: "(timestamp \<times> event) list" where
  "boot = [(0, Mqtt_start), (0, Mqtt_connect), (0, Sock_connect 1)]"

definition ai_sample :: payload where
  "ai_sample = Parsed_object [(''soil'', JNum 15), (''temp'', JNum 30), (''hum'', JNum 40)]"

definition ai_then_manual_world :: world where
  "ai_then_manual_world = run (boot @ [(1, Http_set_mode (Some (JStr ''ai''))),
     (2, Mqtt_message topic_data ai_sample), (3, Ai_close 0 (Out_object [(''action'', JNum 1)])),
     (4, Http_set_mode (Some (JStr ''manual'')))]) (init_world 0)"

definition restarted_world :: world where
  "restarted_world = run (boot @ [(1000, Http_pump_start (Some 10)), (2000, Http_pump_stop),
     (3000, Http_pump_start (Some 10))]) (init_world 0)"

definition one_sample_world :: world where
  "one_sample_world = run (boot @ [(1, Http_set_mode (Some (JStr ''ai''))),
     (2, Mqtt_message topic_data ai_sample)]) (init_world 0)"

definition ai_mode_world :: world where
  "ai_mode_world = run (boot @ [(1, Http_set_mode (Some (JStr ''ai'')))]) (init_world 0)"

definition is_pump_start_cmd :: "effect \<Rightarrow> bool" where
  "is_pump_start_cmd e =
     (case e of Publish m \<Rightarrow> (case cmd m of Pump_start _ _ _ \<Rightarrow> True | _ \<Rightarrow> False) | _ \<Rightarrow> False)"

section \<open>Properties across components\<close>

lemmas scenario_simps = boot_def step_def handler_simps init_world_def init_system_state_def
      mqtt_create_def mqtt_on_connect_def published_def publish_command_def timer_delay_def io_emit_def
      socket_emit_def remove_at_def run_time_def start_pump_internal_log stop_pump_internal_log Let_def

lemma spec_set_modeI: "q = (p \<and> m' \<noteq> AI) \<Longrightarrow> spec_step (m, p) (m', q)"
  using spec_set_mode by simp

text \<open>
  C9: every event of the process refines the abstract machine of the mode and the pump:
  one event either leaves the pair (mode, pump on) as it was or moves it by one abstract
  step: a start from off, a stop from on, or a mode change that keeps the pump, except
  that entering AI mode leaves it off. In one event the process never changes the mode
  and starts the pump, never stops the pump while switching to a non-AI mode, and never
  enters AI mode with the pump running.
\<close>

theorem step_refines:
  "abs_world (step t e w) = abs_world w \<or> spec_step (abs_world w) (abs_world (step t e w))"
  by (cases e)
     (auto simp: abs_world_def step_def handler_simps Let_def intro: spec_step.intros spec_set_modeI split: step_splits)

text \<open>
  C11: the auto-stop of a manual or automatic start: outside AI mode with the pump off,
  a start for \<open>d\<close> seconds (a delay Node accepts) arms one timer due \<open>d * 1000\<close> ms
  later; fired earlier it does nothing, fired when due it stops the pump, publishing
  \<open>pump_stop\<close> with the full run time and reason \<open>auto_timeout\<close> before the status
  broadcast.
\<close>

theorem auto_stop_fires:
  fixes t d :: int
  assumes "mode (sys w) \<noteq> AI" and "\<not> pump_on (sys w)" and "0 < t"
    and "1 \<le> d" and "d * 1000 \<le> 2147483647"
  defines "w1 \<equiv> step t (Http_pump_start (Some d)) w" and "i \<equiv> length (timers w)"
  shows "timers w1 = timers w @ [t + d * 1000] \<and>
         (\<forall>t'. t' < t + d * 1000 \<longrightarrow> step t' (Timer_fire i) w1 = w1\<lparr>clock := t'\<rparr>) \<and>
         \<not> pump_on (sys (step (t + d * 1000) (Timer_fire i) w1)) \<and>
         log (step (t + d * 1000) (Timer_fire i) w1) =
           log w1 @ published (mqtt w) (t + d * 1000) (Pump_stop (d * 1000) Auto_timeout) @
           [Emit (io_emit (clients w) (Status_update (status_of (sys (step (t + d * 1000) (Timer_fire i) w1)) (t + d * 1000))))]"
proof -
  have w1: "w1 = start_pump_internal d Manual_api t (w\<lparr>clock := t\<rparr>)"
    using assms(1,2) by (simp add: w1_def step_def http_result_def api_pump_start_def)
  have tm: "timers w1 = timers w @ [t + d * 1000]"
    using assms(1,4,5) by (simp add: w1 timer_delay_def)
  have early: "step t' (Timer_fire i) w1 = w1\<lparr>clock := t'\<rparr>" if "t' < t + d * 1000" for t'
    using that tm by (simp add: step_def fire_timer_def i_def)
  have "step (t + d * 1000) (Timer_fire i) w1 =
        stop_pump_internal Auto_timeout (t + d * 1000) (w1\<lparr>clock := t + d * 1000, timers := timers w\<rparr>)"
    using tm assms(1) by (simp add: step_def fire_timer_def i_def remove_at_def auto_stop_callback_def w1)
  then show ?thesis
    using tm early assms(1,3) by (simp add: stop_pump_internal_log w1 run_time_def start_pump_internal_log)
qed

theorem auto_stop_fires_witness:
  "\<not> pump_on (sys (step 9000 (Timer_fire 0) (step 1000 (Http_pump_start (Some 8)) (init_world 0)))) \<and>
   step 8999 (Timer_fire 0) (step 1000 (Http_pump_start (Some 8)) (init_world 0)) =
     (step 1000 (Http_pump_start (Some 8)) (init_world 0))\<lparr>clock := 8999\<rparr>"
  using auto_stop_fires [of "init_world 0" 1000 8]
  by (simp add: init_world_def init_system_state_def)

text \<open>
  C12: finding: the auto-stop callback is not tied to the cycle that armed it. Any due
  pending timer stops a running pump outside AI mode, even when the running cycle still
  has time left (a timer of an earlier, already stopped cycle); it publishes
  \<open>pump_stop\<close> with reason \<open>auto_timeout\<close>.
\<close>

theorem stale_timer:
  assumes "pump_on (sys w)" and "mode (sys w) \<noteq> AI" and "i < length (timers w)"
    and "timers w ! i \<le> t" and "0 < remaining_time (sys w) t"
  shows "\<not> pump_on (sys (step t (Timer_fire i) w)) \<and>
         log (step t (Timer_fire i) w) =
           log w @ published (mqtt w) t (Pump_stop (run_time (sys w) t) Auto_timeout) @
           [Emit (io_emit (clients w) (Status_update (status_of (sys (step t (Timer_fire i) w)) t)))]"
  using assms
  by (simp add: step_def fire_timer_def auto_stop_callback_def stop_pump_internal_log)

theorem stale_timer_witness:
  "\<not> pump_on (sys (step 11000 (Timer_fire 0) restarted_world)) \<and>
   remaining_time (sys restarted_world) 11000 = 2000"
proof -
  have r: "pump_on (sys restarted_world) \<and> mode (sys restarted_world) \<noteq> AI \<and>
        timers restarted_world = [11000, 13000] \<and> remaining_time (sys restarted_world) 11000 = 2000"
    by (simp add: restarted_world_def scenario_simps remaining_time_def)
  then have "\<not> pump_on (sys (step 11000 (Timer_fire 0) restarted_world))"
    using stale_timer [of restarted_world 0 11000] by simp
  with r show ?thesis by simp
qed

text \<open>
  C13: finding: AI consultation is not single-flight. In AI mode, a sensor message over
  the live connection spawns a new adapter process and suspends another handler even
  while earlier consultations are still outstanding.
\<close>

theorem ai_consult_not_single_flight:
  assumes "mode (sys w) = AI" and "mqtt w = Some c" and "connected c"
    and "topic_data \<in> subscriptions c" and "ai_pending w \<noteq> []"
    and "merge_sensor_data p t (sensors w) = Some sd"
  defines "req \<equiv> \<lparr>req_temp = temp sd, req_hum = hum sd, req_soil = soil sd\<rparr>"
  shows "ai_pending (step t (Mqtt_message topic_data p) w) = ai_pending w @ [req] \<and>
         last (log (step t (Mqtt_message topic_data p) w)) = Spawn_ai req"
  using assms by (simp add: step_def mqtt_deliver_def on_mqtt_message_def emit_all_def Let_def)

theorem ai_consult_not_single_flight_witness:
  "length (ai_pending (step 3 (Mqtt_message topic_data ai_sample) one_sample_world)) = 2"
proof -
  have w: "mode (sys one_sample_world) = AI \<and> mqtt one_sample_world = Some \<lparr>connected = True, subscriptions = {topic_data}\<rparr> \<and>
       length (ai_pending one_sample_world) = 1"
    by (simp add: one_sample_world_def ai_sample_def scenario_simps topic_data_def)
  obtain sd where "merge_sensor_data ai_sample 3 (sensors one_sample_world) = Some sd"
    by (simp add: ai_sample_def)
  with w ai_consult_not_single_flight [of one_sample_world "\<lparr>connected = True, subscriptions = {topic_data}\<rparr>" ai_sample 3 sd]
  show ?thesis by (auto simp: length_greater_0_conv [symmetric])
qed

text \<open>
  C14: finding: the AI decision is applied without re-checking the mode. A sample in AI
  mode spawns a consultation; if the operator then switches to manual and the adapter
  answers 1, the pump starts in manual mode by the AI path, for 10 s with an auto-stop
  timer.
\<close>

theorem stale_ai_decision:
  fixes t2 t3 :: timestamp
  assumes "mode (sys w) = AI" and "\<not> pump_on (sys w)" and "mqtt w = Some c" and "connected c"
    and "topic_data \<in> subscriptions c" and "merge_sensor_data p t1 (sensors w) = Some sd"
    and "decide (ask_python_ai out) = Water"
  defines "w3 \<equiv> step t3 (Ai_close (length (ai_pending w)) out)
                 (step t2 (Http_set_mode (Some (JStr ''manual''))) (step t1 (Mqtt_message topic_data p) w))"
  shows "pump_on (sys w3) \<and> mode (sys w3) = Manual \<and> pump_duration (sys w3) = 10000 \<and>
         timers w3 = timers w @ [t3 + 10000]"
  using assms
  by (simp add: step_def mqtt_deliver_def on_mqtt_message_def emit_all_def http_result_def
      api_set_mode_def effect_defs ai_resume_def ai_apply_def remove_at_def timer_delay_def Let_def)

theorem stale_ai_decision_witness:
  "pump_on (sys (step 4 (Ai_close 0 (Out_object [(''action'', JNum 1)]))
      (step 3 (Http_set_mode (Some (JStr ''manual''))) (step 2 (Mqtt_message topic_data ai_sample) ai_mode_world)))) \<and>
   mode (sys (step 4 (Ai_close 0 (Out_object [(''action'', JNum 1)]))
      (step 3 (Http_set_mode (Some (JStr ''manual''))) (step 2 (Mqtt_message topic_data ai_sample) ai_mode_world)))) = Manual"
proof -
  have w: "mode (sys ai_mode_world) = AI \<and> \<not> pump_on (sys ai_mode_world) \<and>
       mqtt ai_mode_world = Some \<lparr>connected = True, subscriptions = {topic_data}\<rparr> \<and> ai_pending ai_mode_world = []"
    by (simp add: ai_mode_world_def scenario_simps)
  obtain sd where "merge_sensor_data ai_sample 2 (sensors ai_mode_world) = Some sd"
    by (simp add: ai_sample_def)
  moreover have "decide (ask_python_ai (Out_object [(''action'', JNum 1)])) = Water"
    by simp
  ultimately show ?thesis
    using w stale_ai_decision [of ai_mode_world "\<lparr>connected = True, subscriptions = {topic_data}\<rparr>" ai_sample 2 sd
            "Out_object [(''action'', JNum 1)]" 4 3]
    by simp
qed

lemma quiet_step:
  assumes "pump_on (sys w)" "mode (sys w) \<noteq> AI" "timers w = []" "ai_pending w = []"
    and "\<not> operator_event e"
  shows "pump_on (sys (step t e w)) \<and> mode (sys (step t e w)) \<noteq> AI \<and>
         timers (step t e w) = [] \<and> ai_pending (step t e w) = []"
  using assms
  by (cases e) (auto simp: operator_event_def step_def handler_simps Let_def split: step_splits)

text \<open>
  C15: finding: a pump that runs in a non-AI mode with no pending timer and no pending consultation (for instance one started by the AI and then switched to manual) stays on through every event other than an operator stop or mode change.
\<close>

theorem pump_never_auto_stops:
  assumes "pump_on (sys w)" "mode (sys w) \<noteq> AI" "timers w = []" "ai_pending w = []"
    and "\<forall>(t, e) \<in> set es. \<not> operator_event e"
  shows "pump_on (sys (run es w))"
  using assms
proof (induction es arbitrary: w)
  case Nil
  then show ?case by simp
next
  case (Cons te es)
  obtain t e where te: "te = (t, e)" by fastforce
  with Cons.prems have "\<not> operator_event e" by auto
  with Cons.prems quiet_step [of w e t]
  have "pump_on (sys (step t e w)) \<and> mode (sys (step t e w)) \<noteq> AI \<and>
        timers (step t e w) = [] \<and> ai_pending (step t e w) = []" by simp
  with Cons.IH [of "step t e w"] Cons.prems(5) te show ?case by simp
qed

lemma ai_then_manual_world_state:
  "pump_on (sys ai_then_manual_world) \<and> mode (sys ai_then_manual_world) = Manual \<and>
   timers ai_then_manual_world = [] \<and> ai_pending ai_then_manual_world = []"
  by (simp add: ai_then_manual_world_def ai_sample_def scenario_simps topic_data_def)

theorem pump_never_auto_stops_witness:
  "pump_on (sys (run [(600000, Mqtt_message topic_data ai_sample), (3600000, Timer_fire 0),
     (7200000, Http_pump_start None)] ai_then_manual_world))"
  using ai_then_manual_world_state
  by (intro pump_never_auto_stops) (simp_all add: operator_event_def)

lemma starts_rejected_while_on:
  assumes "pump_on (sys w)" and "\<forall>(t, e) \<in> set es. \<exists>d. e = Http_pump_start d"
  shows "sys (run es w) = sys w \<and> log (run es w) = log w"
  using assms
proof (induction es arbitrary: w)
  case Nil
  then show ?case by simp
next
  case (Cons te es)
  obtain t d where te: "te = (t, Http_pump_start d)" using Cons.prems(2) by fastforce
  have "step t (Http_pump_start d) w = w\<lparr>clock := t\<rparr>"
    using Cons.prems(1) by (simp add: step_def http_result_def api_pump_start_def)
  with Cons.IH [of "w\<lparr>clock := t\<rparr>"] Cons.prems te show ?case by simp
qed

lemma published_starts_le_1: "length (filter is_pump_start_cmd (published c now x)) \<le> 1"
  by (simp add: published_def split: option.splits)

text \<open>
  C18: several dashboards that each request a start while the pump is off (in a non-AI
  mode) get exactly one accepted: afterwards the pump runs and at most one
  \<open>pump_start\<close> command was published for the whole burst.
\<close>

theorem concurrent_starts_one_accepted:
  assumes "mode (sys w) \<noteq> AI" and "\<not> pump_on (sys w)" and "es \<noteq> []"
    and "\<forall>(t, e) \<in> set es. \<exists>d. e = Http_pump_start d"
  shows "pump_on (sys (run es w)) \<and>
         length (filter is_pump_start_cmd (log (run es w))) \<le> Suc (length (filter is_pump_start_cmd (log w)))"
proof -
  obtain t d rest where es: "es = (t, Http_pump_start d) # rest"
    using assms(3,4) by (cases es) fastforce+
  let ?w1 = "step t (Http_pump_start d) w"
  have w1: "?w1 = start_pump_internal (case d of None \<Rightarrow> 10 | Some n \<Rightarrow> n) Manual_api t (w\<lparr>clock := t\<rparr>)"
    using assms(1,2) by (simp add: step_def http_result_def api_pump_start_def)
  have on: "pump_on (sys ?w1)" by (simp add: w1)
  have cnt: "length (filter is_pump_start_cmd (log ?w1)) \<le> Suc (length (filter is_pump_start_cmd (log w)))"
    using published_starts_le_1
    by (simp add: w1 start_pump_internal_log is_pump_start_cmd_def)
  have "\<forall>(t, e) \<in> set rest. \<exists>d. e = Http_pump_start d" using assms(4) es by simp
  from starts_rejected_while_on [OF on this] on cnt es show ?thesis by simp
qed

theorem concurrent_starts_one_accepted_witness:
  "pump_on (sys (run [(1, Http_pump_start (Some 8)), (1, Http_pump_start (Some 8))] (init_world 0))) \<and>
   length (filter is_pump_start_cmd (log (run [(1, Http_pump_start (Some 8)), (1, Http_pump_start (Some 8))] (init_world 0)))) \<le> 1"
  using concurrent_starts_one_accepted [of "init_world 0" "[(1, Http_pump_start (Some 8)), (1, Http_pump_start (Some 8))]"]
  by (simp add: init_world_def init_system_state_def)


end
